theory Spec2Isabelle
  imports Main "HOL-Library.Word"
begin

unbundle bit_operations_syntax

section \<open>Machine types and the platform\<close>

text \<open>
  \<open>uint8_t\<close> and \<open>uint32_t\<close> are words of 8 and 32 bits; \<open>+\<close> on \<open>u32\<close> wraps modulo
  \<open>2 ^ 32\<close>, as unsigned arithmetic does in C++. Values of the C++ type \<open>int\<close> are modelled
  by \<open>int\<close>; the places where the source can leave the 32-bit range, divide by zero or
  index outside an array are branches that end in a \<open>fault\<close>.
\<close>

type_synonym u8 = "8 word"
type_synonym u32 = "32 word"

datatype fault =
    division_by_zero       \<comment> \<open>\<open>%\<close> or \<open>/\<close> with a zero divisor\<close>
  | signed_overflow        \<comment> \<open>an \<open>int\<close> result outside \<open>[-2^31, 2^31)\<close>\<close>
  | bad_array_new_length   \<comment> \<open>\<open>new uint32_t[n]\<close> with negative \<open>n\<close>\<close>
  | out_of_bounds          \<comment> \<open>a read or write outside the buffer a pointer refers to\<close>

definition INT_MAX :: int where
  "INT_MAX = 2147483647"

definition INT_MIN :: int where
  "INT_MIN = - 2147483648"

text \<open>
  The source reads and writes the bytes of a 32-bit word through a union and through
  \<open>reinterpret_cast\<close>, so its results depend on the byte order of the host and on which of
  the two struct layouts the preprocessor selects. Both are parameters of the model.
\<close>

datatype byte_order = LittleEndian | BigEndian

record platform =
  host_order :: byte_order   \<comment> \<open>how the host stores a \<open>uint32_t\<close> in memory\<close>
  predef_LITTLE :: bool      \<comment> \<open>the compiler predefines \<open>__LITTLE_ENDIAN__\<close>\<close>
  predef_BIG :: bool         \<comment> \<open>the compiler predefines \<open>__BIG_ENDIAN__\<close>\<close>

text \<open>Lines 11 to 13: \<open>__LITTLE_ENDIAN__\<close> is defined when neither macro is known.\<close>

definition LITTLE_ENDIAN_defined :: "platform \<Rightarrow> bool" where
  "LITTLE_ENDIAN_defined pf =
     (if \<not> predef_LITTLE pf \<and> \<not> predef_BIG pf then True else predef_LITTLE pf)"

text \<open>
  The layout the \<open>#ifdef\<close> selects agrees with the host: a little-endian host compiled
  with \<open>__LITTLE_ENDIAN__\<close> in effect, or a big-endian host compiled without it.
\<close>

definition layout_matches_host :: "platform \<Rightarrow> bool" where
  "layout_matches_host pf = (LITTLE_ENDIAN_defined pf = (host_order pf = LittleEndian))"

definition x86_default :: platform where
  "x86_default = \<lparr>host_order = LittleEndian, predef_LITTLE = False, predef_BIG = False\<rparr>"

definition big_endian_host :: platform where
  "big_endian_host = \<lparr>host_order = BigEndian, predef_LITTLE = False, predef_BIG = True\<rparr>"

subsection \<open>Words in memory\<close>

definition byte_of :: "u32 \<Rightarrow> nat \<Rightarrow> u8" where
  \<comment> \<open>byte \<open>k\<close> of a word, \<open>k = 0\<close> the least significant\<close>
  "byte_of w k = ucast (drop_bit (8 * k) w)"

definition word_of_bytes :: "u8 \<Rightarrow> u8 \<Rightarrow> u8 \<Rightarrow> u8 \<Rightarrow> u32" where
  \<comment> \<open>the word with the given bytes, most significant first\<close>
  "word_of_bytes m3 m2 m1 m0 =
     push_bit 24 (ucast m3) OR push_bit 16 (ucast m2) OR push_bit 8 (ucast m1) OR ucast m0"

definition to_memory :: "platform \<Rightarrow> u32 \<Rightarrow> u8 list" where
  \<comment> \<open>the four bytes of a \<open>uint32_t\<close> at increasing addresses\<close>
  "to_memory pf w =
     (case host_order pf of
        LittleEndian \<Rightarrow> [byte_of w 0, byte_of w 1, byte_of w 2, byte_of w 3]
      | BigEndian \<Rightarrow> [byte_of w 3, byte_of w 2, byte_of w 1, byte_of w 0])"

definition from_memory :: "platform \<Rightarrow> u8 list \<Rightarrow> u32" where
  \<comment> \<open>the \<open>uint32_t\<close> held by four bytes at increasing addresses\<close>
  "from_memory pf m =
     (case host_order pf of
        LittleEndian \<Rightarrow> word_of_bytes (m ! 3) (m ! 2) (m ! 1) (m ! 0)
      | BigEndian \<Rightarrow> word_of_bytes (m ! 0) (m ! 1) (m ! 2) (m ! 3))"

subsection \<open>The union \<open>Converter32\<close>\<close>

text \<open>
  A \<open>Converter32\<close> is four bytes of memory, \<open>at0\<close> at the lowest address. The member
  \<open>bit_32\<close> is the whole word in host order. The struct \<open>bit_8\<close> lists its fields as
  \<open>byte3, byte2, byte1, byte0\<close> when \<open>__LITTLE_ENDIAN__\<close> is defined and as
  \<open>byte0, byte1, byte2, byte3\<close> otherwise; a field's address is its position in that list.
\<close>

record Converter32 =
  at0 :: u8
  at1 :: u8
  at2 :: u8
  at3 :: u8

definition bit_32 :: "platform \<Rightarrow> Converter32 \<Rightarrow> u32" where
  "bit_32 pf c = from_memory pf [at0 c, at1 c, at2 c, at3 c]"

definition set_bit_32 :: "platform \<Rightarrow> u32 \<Rightarrow> Converter32" where
  "set_bit_32 pf w =
     (let m = to_memory pf w in \<lparr>at0 = m ! 0, at1 = m ! 1, at2 = m ! 2, at3 = m ! 3\<rparr>)"

definition byte0 :: "platform \<Rightarrow> Converter32 \<Rightarrow> u8" where
  "byte0 pf c = (if LITTLE_ENDIAN_defined pf then at3 c else at0 c)"

definition byte1 :: "platform \<Rightarrow> Converter32 \<Rightarrow> u8" where
  "byte1 pf c = (if LITTLE_ENDIAN_defined pf then at2 c else at1 c)"

definition byte2 :: "platform \<Rightarrow> Converter32 \<Rightarrow> u8" where
  "byte2 pf c = (if LITTLE_ENDIAN_defined pf then at1 c else at2 c)"

definition byte3 :: "platform \<Rightarrow> Converter32 \<Rightarrow> u8" where
  "byte3 pf c = (if LITTLE_ENDIAN_defined pf then at0 c else at3 c)"

definition set_bytes :: "platform \<Rightarrow> u8 \<Rightarrow> u8 \<Rightarrow> u8 \<Rightarrow> u8 \<Rightarrow> Converter32" where
  \<comment> \<open>the converter after \<open>byte0 = b0; byte1 = b1; byte2 = b2; byte3 = b3\<close>\<close>
  "set_bytes pf b0 b1 b2 b3 =
     (if LITTLE_ENDIAN_defined pf
      then \<lparr>at0 = b3, at1 = b2, at2 = b1, at3 = b0\<rparr>
      else \<lparr>at0 = b0, at1 = b1, at2 = b2, at3 = b3\<rparr>)"

section \<open>Constants\<close>

text \<open>
  Modelled from the spec: the initialisers of \<open>initial_pary\<close> and \<open>initial_sbox\<close> are
  left out of the source file ("actual tables omitted for brevity"). The spec describes
  them as the tables of the published Blowfish specification, the hexadecimal digits of
  the fractional part of pi: the first 18 words are the subkeys, the next 1024 the four
  substitution tables. \<open>initial_sbox\<close> is the array \<open>uint32_t[4][256]\<close> as it lies in
  memory, row after row.
\<close>

definition initial_pary :: "u32 list" where
  "initial_pary =
    [
     0x243F6A88, 0x85A308D3, 0x13198A2E, 0x03707344, 0xA4093822, 0x299F31D0,
     0x082EFA98, 0xEC4E6C89, 0x452821E6, 0x38D01377, 0xBE5466CF, 0x34E90C6C,
     0xC0AC29B7, 0xC97C50DD, 0x3F84D5B5, 0xB5470917, 0x9216D5D9, 0x8979FB1B
    ]"

definition initial_sbox :: "u32 list" where
  "initial_sbox =
    [
     0xD1310BA6, 0x98DFB5AC, 0x2FFD72DB, 0xD01ADFB7, 0xB8E1AFED, 0x6A267E96,
     0xBA7C9045, 0xF12C7F99, 0x24A19947, 0xB3916CF7, 0x0801F2E2, 0x858EFC16,
     0x636920D8, 0x71574E69, 0xA458FEA3, 0xF4933D7E, 0x0D95748F, 0x728EB658,
     0x718BCD58, 0x82154AEE, 0x7B54A41D, 0xC25A59B5, 0x9C30D539, 0x2AF26013,
     0xC5D1B023, 0x286085F0, 0xCA417918, 0xB8DB38EF, 0x8E79DCB0, 0x603A180E,
     0x6C9E0E8B, 0xB01E8A3E, 0xD71577C1, 0xBD314B27, 0x78AF2FDA, 0x55605C60,
     0xE65525F3, 0xAA55AB94, 0x57489862, 0x63E81440, 0x55CA396A, 0x2AAB10B6,
     0xB4CC5C34, 0x1141E8CE, 0xA15486AF, 0x7C72E993, 0xB3EE1411, 0x636FBC2A,
     0x2BA9C55D, 0x741831F6, 0xCE5C3E16, 0x9B87931E, 0xAFD6BA33, 0x6C24CF5C,
     0x7A325381, 0x28958677, 0x3B8F4898, 0x6B4BB9AF, 0xC4BFE81B, 0x66282193,
     0x61D809CC, 0xFB21A991, 0x487CAC60, 0x5DEC8032, 0xEF845D5D, 0xE98575B1,
     0xDC262302, 0xEB651B88, 0x23893E81, 0xD396ACC5, 0x0F6D6FF3, 0x83F44239,
     0x2E0B4482, 0xA4842004, 0x69C8F04A, 0x9E1F9B5E, 0x21C66842, 0xF6E96C9A,
     0x670C9C61, 0xABD388F0, 0x6A51A0D2, 0xD8542F68, 0x960FA728, 0xAB5133A3,
     0x6EEF0B6C, 0x137A3BE4, 0xBA3BF050, 0x7EFB2A98, 0xA1F1651D, 0x39AF0176,
     0x66CA593E, 0x82430E88, 0x8CEE8619, 0x456F9FB4, 0x7D84A5C3, 0x3B8B5EBE,
     0xE06F75D8, 0x85C12073, 0x401A449F, 0x56C16AA6, 0x4ED3AA62, 0x363F7706,
     0x1BFEDF72, 0x429B023D, 0x37D0D724, 0xD00A1248, 0xDB0FEAD3, 0x49F1C09B,
     0x075372C9, 0x80991B7B, 0x25D479D8, 0xF6E8DEF7, 0xE3FE501A, 0xB6794C3B,
     0x976CE0BD, 0x04C006BA, 0xC1A94FB6, 0x409F60C4, 0x5E5C9EC2, 0x196A2463,
     0x68FB6FAF, 0x3E6C53B5, 0x1339B2EB, 0x3B52EC6F, 0x6DFC511F, 0x9B30952C,
     0xCC814544, 0xAF5EBD09, 0xBEE3D004, 0xDE334AFD, 0x660F2807, 0x192E4BB3,
     0xC0CBA857, 0x45C8740F, 0xD20B5F39, 0xB9D3FBDB, 0x5579C0BD, 0x1A60320A,
     0xD6A100C6, 0x402C7279, 0x679F25FE, 0xFB1FA3CC, 0x8EA5E9F8, 0xDB3222F8,
     0x3C7516DF, 0xFD616B15, 0x2F501EC8, 0xAD0552AB, 0x323DB5FA, 0xFD238760,
     0x53317B48, 0x3E00DF82, 0x9E5C57BB, 0xCA6F8CA0, 0x1A87562E, 0xDF1769DB,
     0xD542A8F6, 0x287EFFC3, 0xAC6732C6, 0x8C4F5573, 0x695B27B0, 0xBBCA58C8,
     0xE1FFA35D, 0xB8F011A0, 0x10FA3D98, 0xFD2183B8, 0x4AFCB56C, 0x2DD1D35B,
     0x9A53E479, 0xB6F84565, 0xD28E49BC, 0x4BFB9790, 0xE1DDF2DA, 0xA4CB7E33,
     0x62FB1341, 0xCEE4C6E8, 0xEF20CADA, 0x36774C01, 0xD07E9EFE, 0x2BF11FB4,
     0x95DBDA4D, 0xAE909198, 0xEAAD8E71, 0x6B93D5A0, 0xD08ED1D0, 0xAFC725E0,
     0x8E3C5B2F, 0x8E7594B7, 0x8FF6E2FB, 0xF2122B64, 0x8888B812, 0x900DF01C,
     0x4FAD5EA0, 0x688FC31C, 0xD1CFF191, 0xB3A8C1AD, 0x2F2F2218, 0xBE0E1777,
     0xEA752DFE, 0x8B021FA1, 0xE5A0CC0F, 0xB56F74E8, 0x18ACF3D6, 0xCE89E299,
     0xB4A84FE0, 0xFD13E0B7, 0x7CC43B81, 0xD2ADA8D9, 0x165FA266, 0x80957705,
     0x93CC7314, 0x211A1477, 0xE6AD2065, 0x77B5FA86, 0xC75442F5, 0xFB9D35CF,
     0xEBCDAF0C, 0x7B3E89A0, 0xD6411BD3, 0xAE1E7E49, 0x00250E2D, 0x2071B35E,
     0x226800BB, 0x57B8E0AF, 0x2464369B, 0xF009B91E, 0x5563911D, 0x59DFA6AA,
     0x78C14389, 0xD95A537F, 0x207D5BA2, 0x02E5B9C5, 0x83260376, 0x6295CFA9,
     0x11C81968, 0x4E734A41, 0xB3472DCA, 0x7B14A94A, 0x1B510052, 0x9A532915,
     0xD60F573F, 0xBC9BC6E4, 0x2B60A476, 0x81E67400, 0x08BA6FB5, 0x571BE91F,
     0xF296EC6B, 0x2A0DD915, 0xB6636521, 0xE7B9F9B6, 0xFF34052E, 0xC5855664,
     0x53B02D5D, 0xA99F8FA1, 0x08BA4799, 0x6E85076A, 0x4B7A70E9, 0xB5B32944,
     0xDB75092E, 0xC4192623, 0xAD6EA6B0, 0x49A7DF7D, 0x9CEE60B8, 0x8FEDB266,
     0xECAA8C71, 0x699A17FF, 0x5664526C, 0xC2B19EE1, 0x193602A5, 0x75094C29,
     0xA0591340, 0xE4183A3E, 0x3F54989A, 0x5B429D65, 0x6B8FE4D6, 0x99F73FD6,
     0xA1D29C07, 0xEFE830F5, 0x4D2D38E6, 0xF0255DC1, 0x4CDD2086, 0x8470EB26,
     0x6382E9C6, 0x021ECC5E, 0x09686B3F, 0x3EBAEFC9, 0x3C971814, 0x6B6A70A1,
     0x687F3584, 0x52A0E286, 0xB79C5305, 0xAA500737, 0x3E07841C, 0x7FDEAE5C,
     0x8E7D44EC, 0x5716F2B8, 0xB03ADA37, 0xF0500C0D, 0xF01C1F04, 0x0200B3FF,
     0xAE0CF51A, 0x3CB574B2, 0x25837A58, 0xDC0921BD, 0xD19113F9, 0x7CA92FF6,
     0x94324773, 0x22F54701, 0x3AE5E581, 0x37C2DADC, 0xC8B57634, 0x9AF3DDA7,
     0xA9446146, 0x0FD0030E, 0xECC8C73E, 0xA4751E41, 0xE238CD99, 0x3BEA0E2F,
     0x3280BBA1, 0x183EB331, 0x4E548B38, 0x4F6DB908, 0x6F420D03, 0xF60A04BF,
     0x2CB81290, 0x24977C79, 0x5679B072, 0xBCAF89AF, 0xDE9A771F, 0xD9930810,
     0xB38BAE12, 0xDCCF3F2E, 0x5512721F, 0x2E6B7124, 0x501ADDE6, 0x9F84CD87,
     0x7A584718, 0x7408DA17, 0xBC9F9ABC, 0xE94B7D8C, 0xEC7AEC3A, 0xDB851DFA,
     0x63094366, 0xC464C3D2, 0xEF1C1847, 0x3215D908, 0xDD433B37, 0x24C2BA16,
     0x12A14D43, 0x2A65C451, 0x50940002, 0x133AE4DD, 0x71DFF89E, 0x10314E55,
     0x81AC77D6, 0x5F11199B, 0x043556F1, 0xD7A3C76B, 0x3C11183B, 0x5924A509,
     0xF28FE6ED, 0x97F1FBFA, 0x9EBABF2C, 0x1E153C6E, 0x86E34570, 0xEAE96FB1,
     0x860E5E0A, 0x5A3E2AB3, 0x771FE71C, 0x4E3D06FA, 0x2965DCB9, 0x99E71D0F,
     0x803E89D6, 0x5266C825, 0x2E4CC978, 0x9C10B36A, 0xC6150EBA, 0x94E2EA78,
     0xA5FC3C53, 0x1E0A2DF4, 0xF2F74EA7, 0x361D2B3D, 0x1939260F, 0x19C27960,
     0x5223A708, 0xF71312B6, 0xEBADFE6E, 0xEAC31F66, 0xE3BC4595, 0xA67BC883,
     0xB17F37D1, 0x018CFF28, 0xC332DDEF, 0xBE6C5AA5, 0x65582185, 0x68AB9802,
     0xEECEA50F, 0xDB2F953B, 0x2AEF7DAD, 0x5B6E2F84, 0x1521B628, 0x29076170,
     0xECDD4775, 0x619F1510, 0x13CCA830, 0xEB61BD96, 0x0334FE1E, 0xAA0363CF,
     0xB5735C90, 0x4C70A239, 0xD59E9E0B, 0xCBAADE14, 0xEECC86BC, 0x60622CA7,
     0x9CAB5CAB, 0xB2F3846E, 0x648B1EAF, 0x19BDF0CA, 0xA02369B9, 0x655ABB50,
     0x40685A32, 0x3C2AB4B3, 0x319EE9D5, 0xC021B8F7, 0x9B540B19, 0x875FA099,
     0x95F7997E, 0x623D7DA8, 0xF837889A, 0x97E32D77, 0x11ED935F, 0x16681281,
     0x0E358829, 0xC7E61FD6, 0x96DEDFA1, 0x7858BA99, 0x57F584A5, 0x1B227263,
     0x9B83C3FF, 0x1AC24696, 0xCDB30AEB, 0x532E3054, 0x8FD948E4, 0x6DBC3128,
     0x58EBF2EF, 0x34C6FFEA, 0xFE28ED61, 0xEE7C3C73, 0x5D4A14D9, 0xE864B7E3,
     0x42105D14, 0x203E13E0, 0x45EEE2B6, 0xA3AAABEA, 0xDB6C4F15, 0xFACB4FD0,
     0xC742F442, 0xEF6ABBB5, 0x654F3B1D, 0x41CD2105, 0xD81E799E, 0x86854DC7,
     0xE44B476A, 0x3D816250, 0xCF62A1F2, 0x5B8D2646, 0xFC8883A0, 0xC1C7B6A3,
     0x7F1524C3, 0x69CB7492, 0x47848A0B, 0x5692B285, 0x095BBF00, 0xAD19489D,
     0x1462B174, 0x23820E00, 0x58428D2A, 0x0C55F5EA, 0x1DADF43E, 0x233F7061,
     0x3372F092, 0x8D937E41, 0xD65FECF1, 0x6C223BDB, 0x7CDE3759, 0xCBEE7460,
     0x4085F2A7, 0xCE77326E, 0xA6078084, 0x19F8509E, 0xE8EFD855, 0x61D99735,
     0xA969A7AA, 0xC50C06C2, 0x5A04ABFC, 0x800BCADC, 0x9E447A2E, 0xC3453484,
     0xFDD56705, 0x0E1E9EC9, 0xDB73DBD3, 0x105588CD, 0x675FDA79, 0xE3674340,
     0xC5C43465, 0x713E38D8, 0x3D28F89E, 0xF16DFF20, 0x153E21E7, 0x8FB03D4A,
     0xE6E39F2B, 0xDB83ADF7, 0xE93D5A68, 0x948140F7, 0xF64C261C, 0x94692934,
     0x411520F7, 0x7602D4F7, 0xBCF46B2E, 0xD4A20068, 0xD4082471, 0x3320F46A,
     0x43B7D4B7, 0x500061AF, 0x1E39F62E, 0x97244546, 0x14214F74, 0xBF8B8840,
     0x4D95FC1D, 0x96B591AF, 0x70F4DDD3, 0x66A02F45, 0xBFBC09EC, 0x03BD9785,
     0x7FAC6DD0, 0x31CB8504, 0x96EB27B3, 0x55FD3941, 0xDA2547E6, 0xABCA0A9A,
     0x28507825, 0x530429F4, 0x0A2C86DA, 0xE9B66DFB, 0x68DC1462, 0xD7486900,
     0x680EC0A4, 0x27A18DEE, 0x4F3FFEA2, 0xE887AD8C, 0xB58CE006, 0x7AF4D6B6,
     0xAACE1E7C, 0xD3375FEC, 0xCE78A399, 0x406B2A42, 0x20FE9E35, 0xD9F385B9,
     0xEE39D7AB, 0x3B124E8B, 0x1DC9FAF7, 0x4B6D1856, 0x26A36631, 0xEAE397B2,
     0x3A6EFA74, 0xDD5B4332, 0x6841E7F7, 0xCA7820FB, 0xFB0AF54E, 0xD8FEB397,
     0x454056AC, 0xBA489527, 0x55533A3A, 0x20838D87, 0xFE6BA9B7, 0xD096954B,
     0x55A867BC, 0xA1159A58, 0xCCA92963, 0x99E1DB33, 0xA62A4A56, 0x3F3125F9,
     0x5EF47E1C, 0x9029317C, 0xFDF8E802, 0x04272F70, 0x80BB155C, 0x05282CE3,
     0x95C11548, 0xE4C66D22, 0x48C1133F, 0xC70F86DC, 0x07F9C9EE, 0x41041F0F,
     0x404779A4, 0x5D886E17, 0x325F51EB, 0xD59BC0D1, 0xF2BCC18F, 0x41113564,
     0x257B7834, 0x602A9C60, 0xDFF8E8A3, 0x1F636C1B, 0x0E12B4C2, 0x02E1329E,
     0xAF664FD1, 0xCAD18115, 0x6B2395E0, 0x333E92E1, 0x3B240B62, 0xEEBEB922,
     0x85B2A20E, 0xE6BA0D99, 0xDE720C8C, 0x2DA2F728, 0xD0127845, 0x95B794FD,
     0x647D0862, 0xE7CCF5F0, 0x5449A36F, 0x877D48FA, 0xC39DFD27, 0xF33E8D1E,
     0x0A476341, 0x992EFF74, 0x3A6F6EAB, 0xF4F8FD37, 0xA812DC60, 0xA1EBDDF8,
     0x991BE14C, 0xDB6E6B0D, 0xC67B5510, 0x6D672C37, 0x2765D43B, 0xDCD0E804,
     0xF1290DC7, 0xCC00FFA3, 0xB5390F92, 0x690FED0B, 0x667B9FFB, 0xCEDB7D9C,
     0xA091CF0B, 0xD9155EA3, 0xBB132F88, 0x515BAD24, 0x7B9479BF, 0x763BD6EB,
     0x37392EB3, 0xCC115979, 0x8026E297, 0xF42E312D, 0x6842ADA7, 0xC66A2B3B,
     0x12754CCC, 0x782EF11C, 0x6A124237, 0xB79251E7, 0x06A1BBE6, 0x4BFB6350,
     0x1A6B1018, 0x11CAEDFA, 0x3D25BDD8, 0xE2E1C3C9, 0x44421659, 0x0A121386,
     0xD90CEC6E, 0xD5ABEA2A, 0x64AF674E, 0xDA86A85F, 0xBEBFE988, 0x64E4C3FE,
     0x9DBC8057, 0xF0F7C086, 0x60787BF8, 0x6003604D, 0xD1FD8346, 0xF6381FB0,
     0x7745AE04, 0xD736FCCC, 0x83426B33, 0xF01EAB71, 0xB0804187, 0x3C005E5F,
     0x77A057BE, 0xBDE8AE24, 0x55464299, 0xBF582E61, 0x4E58F48F, 0xF2DDFDA2,
     0xF474EF38, 0x8789BDC2, 0x5366F9C3, 0xC8B38E74, 0xB475F255, 0x46FCD9B9,
     0x7AEB2661, 0x8B1DDF84, 0x846A0E79, 0x915F95E2, 0x466E598E, 0x20B45770,
     0x8CD55591, 0xC902DE4C, 0xB90BACE1, 0xBB8205D0, 0x11A86248, 0x7574A99E,
     0xB77F19B6, 0xE0A9DC09, 0x662D09A1, 0xC4324633, 0xE85A1F02, 0x09F0BE8C,
     0x4A99A025, 0x1D6EFE10, 0x1AB93D1D, 0x0BA5A4DF, 0xA186F20F, 0x2868F169,
     0xDCB7DA83, 0x573906FE, 0xA1E2CE9B, 0x4FCD7F52, 0x50115E01, 0xA70683FA,
     0xA002B5C4, 0x0DE6D027, 0x9AF88C27, 0x773F8641, 0xC3604C06, 0x61A806B5,
     0xF0177A28, 0xC0F586E0, 0x006058AA, 0x30DC7D62, 0x11E69ED7, 0x2338EA63,
     0x53C2DD94, 0xC2C21634, 0xBBCBEE56, 0x90BCB6DE, 0xEBFC7DA1, 0xCE591D76,
     0x6F05E409, 0x4B7C0188, 0x39720A3D, 0x7C927C24, 0x86E3725F, 0x724D9DB9,
     0x1AC15BB4, 0xD39EB8FC, 0xED545578, 0x08FCA5B5, 0xD83D7CD3, 0x4DAD0FC4,
     0x1E50EF5E, 0xB161E6F8, 0xA28514D9, 0x6C51133C, 0x6FD5C7E7, 0x56E14EC4,
     0x362ABFCE, 0xDDC6C837, 0xD79A3234, 0x92638212, 0x670EFA8E, 0x406000E0,
     0x3A39CE37, 0xD3FAF5CF, 0xABC27737, 0x5AC52D1B, 0x5CB0679E, 0x4FA33742,
     0xD3822740, 0x99BC9BBE, 0xD5118E9D, 0xBF0F7315, 0xD62D1C7E, 0xC700C47B,
     0xB78C1B6B, 0x21A19045, 0xB26EB1BE, 0x6A366EB4, 0x5748AB2F, 0xBC946E79,
     0xC6A376D2, 0x6549C2C8, 0x530FF8EE, 0x468DDE7D, 0xD5730A1D, 0x4CD04DC6,
     0x2939BBDB, 0xA9BA4650, 0xAC9526E8, 0xBE5EE304, 0xA1FAD5F0, 0x6A2D519A,
     0x63EF8CE2, 0x9A86EE22, 0xC089C2B8, 0x43242EF6, 0xA51E03AA, 0x9CF2D0A4,
     0x83C061BA, 0x9BE96A4D, 0x8FE51550, 0xBA645BD6, 0x2826A2F9, 0xA73A3AE1,
     0x4BA99586, 0xEF5562E9, 0xC72FEFD3, 0xF752F7DA, 0x3F046F69, 0x77FA0A59,
     0x80E4A915, 0x87B08601, 0x9B09E6AD, 0x3B3EE593, 0xE990FD5A, 0x9E34D797,
     0x2CF0B7D9, 0x022B8B51, 0x96D5AC3A, 0x017DA67D, 0xD1CF3ED6, 0x7C7D2D28,
     0x1F9F25CF, 0xADF2B89B, 0x5AD6B472, 0x5A88F54C, 0xE029AC71, 0xE019A5E6,
     0x47B0ACFD, 0xED93FA9B, 0xE8D3C48D, 0x283B57CC, 0xF8D56629, 0x79132E28,
     0x785F0191, 0xED756055, 0xF7960E44, 0xE3D35E8C, 0x15056DD4, 0x88F46DBA,
     0x03A16125, 0x0564F0BD, 0xC3EB9E15, 0x3C9057A2, 0x97271AEC, 0xA93A072A,
     0x1B3F6D9B, 0x1E6321F5, 0xF59C66FB, 0x26DCF319, 0x7533D928, 0xB155FDF5,
     0x03563482, 0x8ABA3CBB, 0x28517711, 0xC20AD9F8, 0xABCC5167, 0xCCAD925F,
     0x4DE81751, 0x3830DC8E, 0x379D5862, 0x9320F991, 0xEA7A90C2, 0xFB3E7BCE,
     0x5121CE64, 0x774FBE32, 0xA8B6E37E, 0xC3293D46, 0x48DE5369, 0x6413E680,
     0xA2AE0810, 0xDD6DB224, 0x69852DFD, 0x09072166, 0xB39A460A, 0x6445C0DD,
     0x586CDECF, 0x1C20C8AE, 0x5BBEF7DD, 0x1B588D40, 0xCCD2017F, 0x6BB4E3BB,
     0xDDA26A7E, 0x3A59FF45, 0x3E350A44, 0xBCB4CDD5, 0x72EACEA8, 0xFA6484BB,
     0x8D6612AE, 0xBF3C6F47, 0xD29BE463, 0x542F5D9E, 0xAEC2771B, 0xF64E6370,
     0x740E0D8D, 0xE75B1357, 0xF8721671, 0xAF537D5D, 0x4040CB08, 0x4EB4E2CC,
     0x34D2466A, 0x0115AF84, 0xE1B00428, 0x95983A1D, 0x06B89FB4, 0xCE6EA048,
     0x6F3F3B82, 0x3520AB82, 0x011A1D4B, 0x277227F8, 0x611560B1, 0xE7933FDC,
     0xBB3A792B, 0x344525BD, 0xA08839E1, 0x51CE794B, 0x2F32C9B7, 0xA01FBAC9,
     0xE01CC87E, 0xBCC7D1F6, 0xCF0111C3, 0xA1E8AAC7, 0x1A908749, 0xD44FBD9A,
     0xD0DADECB, 0xD50ADA38, 0x0339C32A, 0xC6913667, 0x8DF9317C, 0xE0B12B4F,
     0xF79E59B7, 0x43F5BB3A, 0xF2D519FF, 0x27D9459C, 0xBF97222C, 0x15E6FC2A,
     0x0F91FC71, 0x9B941525, 0xFAE59361, 0xCEB69CEB, 0xC2A86459, 0x12BAA8D1,
     0xB6C1075E, 0xE3056A0C, 0x10D25065, 0xCB03A442, 0xE0EC6E0E, 0x1698DB3B,
     0x4C98A0BE, 0x3278E964, 0x9F1F9532, 0xE0D392DF, 0xD3A0342B, 0x8971F21E,
     0x1B0A7441, 0x4BA3348C, 0xC5BE7120, 0xC37632D8, 0xDF359F8D, 0x9B992F2E,
     0xE60B6F47, 0x0FE3F11D, 0xE54CDA54, 0x1EDAD891, 0xCE6279CF, 0xCD3E7E6F,
     0x1618B166, 0xFD2C1D05, 0x848FD2C5, 0xF6FB2299, 0xF523F357, 0xA6327623,
     0x93A83531, 0x56CCCD02, 0xACF08162, 0x5A75EBB5, 0x6E163697, 0x88D273CC,
     0xDE966292, 0x81B949D0, 0x4C50901B, 0x71C65614, 0xE6C6C7BD, 0x327A140A,
     0x45E1D006, 0xC3F27B9A, 0xC9AA53FD, 0x62A80F00, 0xBB25BFE2, 0x35BDD2F6,
     0x71126905, 0xB2040222, 0xB6CBCF7C, 0xCD769C2B, 0x53113EC0, 0x1640E3D3,
     0x38ABBD60, 0x2547ADF0, 0xBA38209C, 0xF746CE76, 0x77AFA1C5, 0x20756060,
     0x85CBFE4E, 0x8AE88DD8, 0x7AAAF9B0, 0x4CF9AA7E, 0x1948C25C, 0x02FB8A8C,
     0x01C36AE4, 0xD6EBE1F9, 0x90D4F869, 0xA65CDEA0, 0x3F09252D, 0xC208E69F,
     0xB74E6132, 0xCE77E25B, 0x578FDFE3, 0x3AC372E6
    ]"

section \<open>The cipher state\<close>

text \<open>
  The members of the class, whose declaration is in a header that is not part of the
  source file: \<open>uint32_t pary_[18]\<close> and \<open>uint32_t sbox_[4][256]\<close>, as the \<open>memcpy\<close>
  calls, the \<open>sizeof\<close> quotients and the indexing in \<open>Feistel\<close> show. \<open>sbox_\<close> is kept
  as the 1024 words in memory, since \<open>SetKey\<close> writes it through a flat \<open>uint32_t*\<close>.
  The fields are named \<open>pary\<close> and \<open>sbox\<close>: an Isabelle name cannot end in an underscore.
\<close>

record Blowfish =
  pary :: "u32 list"
  sbox :: "u32 list"

definition sbox_at :: "Blowfish \<Rightarrow> nat \<Rightarrow> u8 \<Rightarrow> u32" where
  \<comment> \<open>\<open>sbox_[t][j]\<close> in the row-major layout\<close>
  "sbox_at st t j = sbox st ! (t * 256 + unat j)"

definition well_formed :: "Blowfish \<Rightarrow> bool" where
  "well_formed st = (length (pary st) = 18 \<and> length (sbox st) = 1024)"

section \<open>Feistel function and block cipher\<close>

definition Feistel :: "platform \<Rightarrow> Blowfish \<Rightarrow> u32 \<Rightarrow> u32" where
  "Feistel pf st v =
     (let converter = set_bit_32 pf v;
          a = byte0 pf converter;
          b = byte1 pf converter;
          c = byte2 pf converter;
          d = byte3 pf converter
      in ((sbox_at st 0 a + sbox_at st 1 b) XOR sbox_at st 2 c) + sbox_at st 3 d)"

text \<open>
  The two loops of 16 rounds. A block is the pair \<open>(*left, *right)\<close>; the pointers never
  alias each other or the state in this program.
\<close>

function EncryptBlock_rounds :: "platform \<Rightarrow> Blowfish \<Rightarrow> nat \<Rightarrow> u32 \<times> u32 \<Rightarrow> u32 \<times> u32" where
  "EncryptBlock_rounds pf st i (left, right) =
     (if i < 16
      then let left1 = left XOR pary st ! i;
               right1 = right XOR Feistel pf st left1
           in EncryptBlock_rounds pf st (i + 1) (right1, left1)
      else (left, right))"
  by pat_completeness auto
termination
  by (relation "measure (\<lambda>(pf, st, i, b). 16 - i)") auto

declare EncryptBlock_rounds.simps [simp del]

definition EncryptBlock :: "platform \<Rightarrow> Blowfish \<Rightarrow> u32 \<times> u32 \<Rightarrow> u32 \<times> u32" where
  "EncryptBlock pf st b =
     (case EncryptBlock_rounds pf st 0 b of
        (left, right) \<Rightarrow>
          (let (left1, right1) = (right, left);
               right2 = right1 XOR pary st ! 16;
               left2 = left1 XOR pary st ! 17
           in (left2, right2)))"

function DecryptBlock_rounds :: "platform \<Rightarrow> Blowfish \<Rightarrow> nat \<Rightarrow> u32 \<times> u32 \<Rightarrow> u32 \<times> u32" where
  "DecryptBlock_rounds pf st i (left, right) =
     (if i < 16
      then let left1 = left XOR pary st ! (17 - i);
               right1 = right XOR Feistel pf st left1
           in DecryptBlock_rounds pf st (i + 1) (right1, left1)
      else (left, right))"
  by pat_completeness auto
termination
  by (relation "measure (\<lambda>(pf, st, i, b). 16 - i)") auto

declare DecryptBlock_rounds.simps [simp del]

definition DecryptBlock :: "platform \<Rightarrow> Blowfish \<Rightarrow> u32 \<times> u32 \<Rightarrow> u32 \<times> u32" where
  "DecryptBlock pf st b =
     (case DecryptBlock_rounds pf st 0 b of
        (left, right) \<Rightarrow>
          (let (left1, right1) = (right, left);
               right2 = right1 XOR pary st ! 1;
               left2 = left1 XOR pary st ! 0
           in (left2, right2)))"


section \<open>Key schedule\<close>

subsection \<open>Integer division and the helper \<open>GCD\<close>\<close>

text \<open>
  \<open>/\<close> and \<open>%\<close> on \<open>int\<close> truncate towards zero in C++; a zero divisor and
  \<open>INT_MIN / -1\<close> have no defined result.
\<close>

definition int_div :: "int \<Rightarrow> int \<Rightarrow> fault + int" where
  "int_div a b =
     (if b = 0 then Inl division_by_zero
      else if a = INT_MIN \<and> b = - 1 then Inl signed_overflow
      else Inr (sgn a * sgn b * (\<bar>a\<bar> div \<bar>b\<bar>)))"

definition int_rem :: "int \<Rightarrow> int \<Rightarrow> fault + int" where
  "int_rem a b =
     (if b = 0 then Inl division_by_zero
      else if a = INT_MIN \<and> b = - 1 then Inl signed_overflow
      else Inr (sgn a * (\<bar>a\<bar> mod \<bar>b\<bar>)))"

function GCD_loop :: "int \<Rightarrow> int \<Rightarrow> fault + int" where
  "GCD_loop gcd_prev gcd_cur =
     (case int_rem gcd_prev gcd_cur of
        Inl e \<Rightarrow> Inl e
      | Inr gcd_next \<Rightarrow>
          if gcd_next \<noteq> 0 then GCD_loop gcd_cur gcd_next else Inr gcd_cur)"
  by pat_completeness auto
termination
proof (relation "measure (\<lambda>(gcd_prev, gcd_cur). nat \<bar>gcd_cur\<bar>)")
  show "wf (measure (\<lambda>(gcd_prev, gcd_cur). nat \<bar>gcd_cur\<bar>))"
    by simp
next
  fix gcd_prev gcd_cur gcd_next :: int
  assume r: "int_rem gcd_prev gcd_cur = Inr gcd_next"
  then have nz: "gcd_cur \<noteq> 0"
    by (auto simp: int_rem_def split: if_splits)
  from r have "\<bar>gcd_next\<bar> = \<bar>gcd_prev\<bar> mod \<bar>gcd_cur\<bar>"
    by (auto simp: int_rem_def abs_mult split: if_splits)
  with nz have "\<bar>gcd_next\<bar> < \<bar>gcd_cur\<bar>"
    by simp
  then show "((gcd_cur, gcd_next), (gcd_prev, gcd_cur))
               \<in> measure (\<lambda>(gcd_prev, gcd_cur). nat \<bar>gcd_cur\<bar>)"
    by simp
qed

declare GCD_loop.simps [simp del]

definition GCD_helper :: "int \<Rightarrow> int \<Rightarrow> fault + int" where
  "GCD_helper larger smaller = GCD_loop larger smaller"

subsection \<open>Steps 2 and 3: the key as 32-bit words\<close>

text \<open>
  \<open>key\<close> is the memory the pointer refers to. The index \<open>(i * 4 + k) % byte_length\<close>
  is computed in \<open>int\<close>.
\<close>

definition key_byte :: "u8 list \<Rightarrow> int \<Rightarrow> int \<Rightarrow> int \<Rightarrow> fault + u8" where
  "key_byte key byte_length i k =
     (if i * 4 + k > INT_MAX then Inl signed_overflow
      else case int_rem (i * 4 + k) byte_length of
             Inl e \<Rightarrow> Inl e
           | Inr idx \<Rightarrow>
               if 0 \<le> idx \<and> idx < int (length key) then Inr (key ! nat idx)
               else Inl out_of_bounds)"

definition key_word :: "platform \<Rightarrow> u8 list \<Rightarrow> int \<Rightarrow> int \<Rightarrow> fault + u32" where
  "key_word pf key byte_length i =
     (case key_byte key byte_length i 0 of Inl e \<Rightarrow> Inl e | Inr b0 \<Rightarrow>
      case key_byte key byte_length i 1 of Inl e \<Rightarrow> Inl e | Inr b1 \<Rightarrow>
      case key_byte key byte_length i 2 of Inl e \<Rightarrow> Inl e | Inr b2 \<Rightarrow>
      case key_byte key byte_length i 3 of Inl e \<Rightarrow> Inl e | Inr b3 \<Rightarrow>
        Inr (bit_32 pf (set_bytes pf b0 b1 b2 b3)))"

function fill_key_buffer ::
  "platform \<Rightarrow> u8 list \<Rightarrow> int \<Rightarrow> int \<Rightarrow> int \<Rightarrow> u32 list \<Rightarrow> fault + u32 list" where
  "fill_key_buffer pf key byte_length buffer_length i key_buffer =
     (if i < buffer_length
      then case key_word pf key byte_length i of
             Inl e \<Rightarrow> Inl e
           | Inr w \<Rightarrow>
               fill_key_buffer pf key byte_length buffer_length (i + 1)
                 (key_buffer[nat i := w])
      else Inr key_buffer)"
  by pat_completeness auto
termination
  by (relation "measure (\<lambda>(pf, key, byte_length, buffer_length, i, key_buffer).
                           nat (buffer_length - i))") auto

declare fill_key_buffer.simps [simp del]

text \<open>
  The buffer comes from \<open>new uint32_t[buffer_length]\<close>, which throws for a negative
  length. Its cells start as zero here; the loop writes every cell before Step 4 reads it.
\<close>

definition make_key_buffer :: "platform \<Rightarrow> u8 list \<Rightarrow> int \<Rightarrow> fault + (int \<times> u32 list)" where
  "make_key_buffer pf key byte_length =
     (case GCD_helper byte_length 4 of
        Inl e \<Rightarrow> Inl e
      | Inr g \<Rightarrow>
          (case int_div byte_length g of
             Inl e \<Rightarrow> Inl e
           | Inr buffer_length \<Rightarrow>
               if buffer_length < 0 then Inl bad_array_new_length
               else case fill_key_buffer pf key byte_length buffer_length 0
                           (replicate (nat buffer_length) 0) of
                      Inl e \<Rightarrow> Inl e
                    | Inr key_buffer \<Rightarrow> Inr (buffer_length, key_buffer)))"

subsection \<open>Step 4: the key is XORed into the subkeys\<close>

text \<open>A fault in this loop leaves the subkeys as they are at that iteration.\<close>

function xor_key ::
  "int \<Rightarrow> u32 list \<Rightarrow> int \<Rightarrow> u32 list \<Rightarrow> (fault \<times> u32 list) + u32 list" where
  "xor_key buffer_length key_buffer i p =
     (if i < 18
      then case int_rem i buffer_length of
             Inl e \<Rightarrow> Inl (e, p)
           | Inr j \<Rightarrow>
               xor_key buffer_length key_buffer (i + 1)
                 (p[nat i := p ! nat i XOR key_buffer ! nat j])
      else Inr p)"
  by pat_completeness auto
termination
  by (relation "measure (\<lambda>(buffer_length, key_buffer, i, p). nat (18 - i))") auto

declare xor_key.simps [simp del]

subsection \<open>Step 5: key expansion\<close>

function expand_pary :: "platform \<Rightarrow> nat \<Rightarrow> Blowfish \<times> u32 \<times> u32 \<Rightarrow> Blowfish \<times> u32 \<times> u32" where
  "expand_pary pf i (st, left, right) =
     (if i < 9
      then case EncryptBlock pf st (left, right) of
             (left1, right1) \<Rightarrow>
               expand_pary pf (i + 1)
                 (st\<lparr>pary := (pary st)[i * 2 := left1, i * 2 + 1 := right1]\<rparr>, left1, right1)
      else (st, left, right))"
  by pat_completeness auto
termination
  by (relation "measure (\<lambda>(pf, i, s). 9 - i)") auto

declare expand_pary.simps [simp del]

function expand_sbox :: "platform \<Rightarrow> nat \<Rightarrow> Blowfish \<times> u32 \<times> u32 \<Rightarrow> Blowfish \<times> u32 \<times> u32" where
  "expand_sbox pf i (st, left, right) =
     (if i < 512
      then case EncryptBlock pf st (left, right) of
             (left1, right1) \<Rightarrow>
               expand_sbox pf (i + 1)
                 (st\<lparr>sbox := (sbox st)[i * 2 := left1, i * 2 + 1 := right1]\<rparr>, left1, right1)
      else (st, left, right))"
  by pat_completeness auto
termination
  by (relation "measure (\<lambda>(pf, i, s). 512 - i)") auto

declare expand_sbox.simps [simp del]

definition key_expansion :: "platform \<Rightarrow> Blowfish \<Rightarrow> Blowfish" where
  "key_expansion pf st = fst (expand_sbox pf 0 (expand_pary pf 0 (st, 0, 0)))"

subsection \<open>\<open>SetKey\<close>\<close>

text \<open>
  \<open>SetKey pf this key byte_length\<close> is \<open>Inr\<close> of the state the call leaves when it
  returns, and \<open>Inl (e, st)\<close> when it stops with the fault \<open>e\<close>, the object then holding
  \<open>st\<close>. The two \<open>memcpy\<close> calls of Step 1 come first and overwrite both arrays.
\<close>

definition mix_key :: "platform \<Rightarrow> Blowfish \<Rightarrow> u8 list \<Rightarrow> int \<Rightarrow> (fault \<times> Blowfish) + Blowfish" where
  \<comment> \<open>Steps 1 to 4\<close>
  "mix_key pf this key byte_length =
     (let st = this\<lparr>pary := initial_pary, sbox := initial_sbox\<rparr>
      in case make_key_buffer pf key byte_length of
           Inl e \<Rightarrow> Inl (e, st)
         | Inr (buffer_length, key_buffer) \<Rightarrow>
             (case xor_key buffer_length key_buffer 0 (pary st) of
                Inl (e, p) \<Rightarrow> Inl (e, st\<lparr>pary := p\<rparr>)
              | Inr p \<Rightarrow> Inr (st\<lparr>pary := p\<rparr>)))"

definition SetKey :: "platform \<Rightarrow> Blowfish \<Rightarrow> u8 list \<Rightarrow> int \<Rightarrow> (fault \<times> Blowfish) + Blowfish" where
  "SetKey pf this key byte_length =
     (case mix_key pf this key byte_length of
        Inl x \<Rightarrow> Inl x
      | Inr st \<Rightarrow> Inr (key_expansion pf st))"

section \<open>Buffer cipher\<close>

text \<open>
  \<open>reinterpret_cast<uint32_t*>(dst)[k]\<close> is the word held by the four bytes at offset
  \<open>4 * k\<close>, in host order.
\<close>

definition load32 :: "platform \<Rightarrow> u8 list \<Rightarrow> nat \<Rightarrow> u32" where
  "load32 pf buf k = from_memory pf (take 4 (drop (4 * k) buf))"

definition store32 :: "platform \<Rightarrow> u8 list \<Rightarrow> nat \<Rightarrow> u32 \<Rightarrow> u8 list" where
  "store32 pf buf k w = take (4 * k) buf @ to_memory pf w @ drop (4 * k + 4) buf"

text \<open>
  The destination is either the source itself (\<open>dst == src\<close>) or a separate buffer with
  contents of its own, which the \<open>memcpy\<close> overwrites first.
\<close>

datatype dst_buffer = SameAsSrc | Separate "u8 list"

function Encrypt_loop :: "platform \<Rightarrow> Blowfish \<Rightarrow> nat \<Rightarrow> nat \<Rightarrow> u8 list \<Rightarrow> u8 list" where
  "Encrypt_loop pf st n i dst =
     (if i < n
      then case EncryptBlock pf st (load32 pf dst (i * 2), load32 pf dst (i * 2 + 1)) of
             (left, right) \<Rightarrow>
               Encrypt_loop pf st n (i + 1)
                 (store32 pf (store32 pf dst (i * 2) left) (i * 2 + 1) right)
      else dst)"
  by pat_completeness auto
termination
  by (relation "measure (\<lambda>(pf, st, n, i, dst). n - i)") auto

declare Encrypt_loop.simps [simp del]

function Decrypt_loop :: "platform \<Rightarrow> Blowfish \<Rightarrow> nat \<Rightarrow> nat \<Rightarrow> u8 list \<Rightarrow> u8 list" where
  "Decrypt_loop pf st n i dst =
     (if i < n
      then case DecryptBlock pf st (load32 pf dst (i * 2), load32 pf dst (i * 2 + 1)) of
             (left, right) \<Rightarrow>
               Decrypt_loop pf st n (i + 1)
                 (store32 pf (store32 pf dst (i * 2) left) (i * 2 + 1) right)
      else dst)"
  by pat_completeness auto
termination
  by (relation "measure (\<lambda>(pf, st, n, i, dst). n - i)") auto

declare Decrypt_loop.simps [simp del]

text \<open>
  The result is the contents of the destination buffer after the call. A negative
  \<open>byte_length\<close> becomes a \<open>size_t\<close> of at least \<open>2^32 - 2^31\<close> in the \<open>memcpy\<close> and in the
  loop bound, and a length beyond either buffer reads or writes outside it.
\<close>

definition copy_to_dst :: "dst_buffer \<Rightarrow> u8 list \<Rightarrow> int \<Rightarrow> fault + u8 list" where
  "copy_to_dst dst src byte_length =
     (if byte_length < 0 \<or> int (length src) < byte_length then Inl out_of_bounds
      else case dst of
             SameAsSrc \<Rightarrow> Inr src
           | Separate d \<Rightarrow>
               if int (length d) < byte_length then Inl out_of_bounds
               else Inr (take (nat byte_length) src @ drop (nat byte_length) d))"

definition Encrypt :: "platform \<Rightarrow> Blowfish \<Rightarrow> dst_buffer \<Rightarrow> u8 list \<Rightarrow> int \<Rightarrow> fault + u8 list" where
  "Encrypt pf st dst src byte_length =
     (case copy_to_dst dst src byte_length of
        Inl e \<Rightarrow> Inl e
      | Inr d \<Rightarrow> Inr (Encrypt_loop pf st (nat byte_length div 8) 0 d))"

definition Decrypt :: "platform \<Rightarrow> Blowfish \<Rightarrow> dst_buffer \<Rightarrow> u8 list \<Rightarrow> int \<Rightarrow> fault + u8 list" where
  "Decrypt pf st dst src byte_length =
     (case copy_to_dst dst src byte_length of
        Inl e \<Rightarrow> Inl e
      | Inr d \<Rightarrow> Inr (Decrypt_loop pf st (nat byte_length div 8) 0 d))"


section \<open>Notions used to state the properties\<close>

text \<open>
  The two block operations are \<open>const\<close> member functions: a call leaves the object as it
  was and replaces the block. A call is a step on the pair of the object and the block.
\<close>

definition EncryptBlock_call :: "platform \<Rightarrow> Blowfish \<times> u32 \<times> u32 \<Rightarrow> Blowfish \<times> u32 \<times> u32" where
  "EncryptBlock_call pf c = (case c of (this, b) \<Rightarrow> (this, EncryptBlock pf this b))"

definition DecryptBlock_call :: "platform \<Rightarrow> Blowfish \<times> u32 \<times> u32 \<Rightarrow> Blowfish \<times> u32 \<times> u32" where
  "DecryptBlock_call pf c = (case c of (this, b) \<Rightarrow> (this, DecryptBlock pf this b))"

text \<open>
  The word that Step 3 builds at index \<open>i\<close> from a key of \<open>n\<close> bytes when no fault
  occurs: the four key bytes at \<open>(4 i + k) mod n\<close> go through the union.
\<close>

definition cyclic_word :: "platform \<Rightarrow> u8 list \<Rightarrow> nat \<Rightarrow> nat \<Rightarrow> u32" where
  "cyclic_word pf key n i =
     bit_32 pf (set_bytes pf (key ! ((i * 4) mod n)) (key ! ((i * 4 + 1) mod n))
                             (key ! ((i * 4 + 2) mod n)) (key ! ((i * 4 + 3) mod n)))"

text \<open>
  The packing rule and the round function as the specification words them, to be compared
  with what the source computes: key byte \<open>b0\<close> in the least significant position, and
  \<open>a\<close> the least significant byte of the input.
\<close>

definition spec_key_word :: "u8 list \<Rightarrow> nat \<Rightarrow> nat \<Rightarrow> u32" where
  "spec_key_word key L i =
     ucast (key ! ((i * 4) mod L)) OR push_bit 8 (ucast (key ! ((i * 4 + 1) mod L)))
       OR push_bit 16 (ucast (key ! ((i * 4 + 2) mod L)))
       OR push_bit 24 (ucast (key ! ((i * 4 + 3) mod L)))"

definition spec_Feistel :: "Blowfish \<Rightarrow> u32 \<Rightarrow> u32" where
  "spec_Feistel st x =
     (let a = byte_of x 0; b = byte_of x 1; c = byte_of x 2; d = byte_of x 3
      in ((sbox_at st 0 a + sbox_at st 1 b) XOR sbox_at st 2 c) + sbox_at st 3 d)"

text \<open>The object after Step 1, and a freshly zeroed object.\<close>

definition constants_state :: Blowfish where
  "constants_state = \<lparr>pary = initial_pary, sbox = initial_sbox\<rparr>"

definition zero_state :: Blowfish where
  "zero_state = \<lparr>pary = replicate 18 0, sbox = replicate 1024 0\<rparr>"

text \<open>
  Key expansion as the specification words it: nine iterations that overwrite the subkey
  pairs \<open>(2 i, 2 i + 1)\<close>, then 512 iterations that overwrite the words \<open>2 i\<close> and
  \<open>2 i + 1\<close> of the flattened tables, word \<open>k\<close> of the flattened order being word
  \<open>k mod 256\<close> of table \<open>k div 256\<close>; the state and the running block go from one
  iteration to the next.
\<close>

definition table_write :: "u32 list \<Rightarrow> nat \<Rightarrow> nat \<Rightarrow> u32 \<Rightarrow> u32 list" where
  \<comment> \<open>word \<open>j\<close> of table \<open>t\<close> becomes \<open>v\<close>\<close>
  "table_write sb t j v = sb[t * 256 + j := v]"

definition spec_subkey_step ::
  "platform \<Rightarrow> nat \<Rightarrow> Blowfish \<times> u32 \<times> u32 \<Rightarrow> Blowfish \<times> u32 \<times> u32" where
  "spec_subkey_step pf i x =
     (case x of (st, acc) \<Rightarrow>
        (case EncryptBlock pf st acc of (l, r) \<Rightarrow>
           (st\<lparr>pary := (pary st)[2 * i := l, 2 * i + 1 := r]\<rparr>, l, r)))"

definition spec_table_step ::
  "platform \<Rightarrow> nat \<Rightarrow> Blowfish \<times> u32 \<times> u32 \<Rightarrow> Blowfish \<times> u32 \<times> u32" where
  "spec_table_step pf i x =
     (case x of (st, acc) \<Rightarrow>
        (case EncryptBlock pf st acc of (l, r) \<Rightarrow>
           (st\<lparr>sbox := table_write
                       (table_write (sbox st) ((2 * i) div 256) ((2 * i) mod 256) l)
                       ((2 * i + 1) div 256) ((2 * i + 1) mod 256) r\<rparr>, l, r)))"

definition spec_key_expansion :: "platform \<Rightarrow> Blowfish \<Rightarrow> Blowfish" where
  "spec_key_expansion pf st =
     fst (fold (spec_table_step pf) [0..<512] (fold (spec_subkey_step pf) [0..<9] (st, 0, 0)))"

text \<open>
  The block cipher on one block of eight bytes as it lies in a buffer: the two halves are
  read and written back in host order.
\<close>

definition block_at :: "u8 list \<Rightarrow> nat \<Rightarrow> u8 list" where
  "block_at buf i = take 8 (drop (8 * i) buf)"

definition EncryptBlock_bytes :: "platform \<Rightarrow> Blowfish \<Rightarrow> u8 list \<Rightarrow> u8 list" where
  "EncryptBlock_bytes pf st blk =
     (case EncryptBlock pf st (from_memory pf (take 4 blk), from_memory pf (take 4 (drop 4 blk))) of
        (l, r) \<Rightarrow> to_memory pf l @ to_memory pf r)"

definition DecryptBlock_bytes :: "platform \<Rightarrow> Blowfish \<Rightarrow> u8 list \<Rightarrow> u8 list" where
  "DecryptBlock_bytes pf st blk =
     (case DecryptBlock pf st (from_memory pf (take 4 blk), from_memory pf (take 4 (drop 4 blk))) of
        (l, r) \<Rightarrow> to_memory pf l @ to_memory pf r)"


section \<open>The cipher on hexadecimal digits\<close>

text \<open>
  A second implementation of the block cipher and of the key expansion, used to compute
  a known-answer vector inside the logic. A 32-bit word is a list of eight hexadecimal
  digits, the least significant first; a table of 256 words is a tree with 16 branches
  at each of its two levels, indexed by the high and then the low digit of a byte. The
  lemmas below show that it computes what the model of the source computes.
\<close>

datatype hex = H0 | H1 | H2 | H3 | H4 | H5 | H6 | H7 | H8 | H9 | HA | HB | HC | HD | HE | HF

datatype 'a t16 = T16 'a 'a 'a 'a 'a 'a 'a 'a 'a 'a 'a 'a 'a 'a 'a 'a

fun hv :: "hex \<Rightarrow> nat" where
  "hv H0 = 0"
| "hv H1 = 1"
| "hv H2 = 2"
| "hv H3 = 3"
| "hv H4 = 4"
| "hv H5 = 5"
| "hv H6 = 6"
| "hv H7 = 7"
| "hv H8 = 8"
| "hv H9 = 9"
| "hv HA = 10"
| "hv HB = 11"
| "hv HC = 12"
| "hv HD = 13"
| "hv HE = 14"
| "hv HF = 15"

definition hexes :: "hex list" where
  "hexes = [H0, H1, H2, H3, H4, H5, H6, H7, H8, H9, HA, HB, HC, HD, HE, HF]"

definition hex_of :: "nat \<Rightarrow> hex" where
  "hex_of n = hexes ! n"

definition hxor :: "hex \<Rightarrow> hex \<Rightarrow> hex" where
  "hxor a b = hex_of (hv a XOR hv b)"

definition hsum :: "bool \<Rightarrow> hex \<Rightarrow> hex \<Rightarrow> hex" where
  "hsum c a b = hex_of ((hv a + hv b + of_bool c) mod 16)"

definition hcar :: "bool \<Rightarrow> hex \<Rightarrow> hex \<Rightarrow> bool" where
  "hcar c a b = (16 \<le> hv a + hv b + of_bool c)"

fun lv :: "hex list \<Rightarrow> nat" where
  "lv [] = 0"
| "lv (d # ds) = hv d + 16 * lv ds"

definition wv :: "hex list \<Rightarrow> u32" where
  "wv ds = of_nat (lv ds)"

fun lxor :: "hex list \<Rightarrow> hex list \<Rightarrow> hex list" where
  "lxor (a # as) (b # bs) = hxor a b # lxor as bs"
| "lxor _ _ = []"

fun ladd :: "bool \<Rightarrow> hex list \<Rightarrow> hex list \<Rightarrow> hex list" where
  "ladd c (a # as) (b # bs) = hsum c a b # ladd (hcar c a b) as bs"
| "ladd c _ _ = []"

fun sel16 :: "'a t16 \<Rightarrow> hex \<Rightarrow> 'a" where
  "sel16 (T16 x0 x1 x2 x3 x4 x5 x6 x7 x8 x9 xA xB xC xD xE xF) H0 = x0"
| "sel16 (T16 x0 x1 x2 x3 x4 x5 x6 x7 x8 x9 xA xB xC xD xE xF) H1 = x1"
| "sel16 (T16 x0 x1 x2 x3 x4 x5 x6 x7 x8 x9 xA xB xC xD xE xF) H2 = x2"
| "sel16 (T16 x0 x1 x2 x3 x4 x5 x6 x7 x8 x9 xA xB xC xD xE xF) H3 = x3"
| "sel16 (T16 x0 x1 x2 x3 x4 x5 x6 x7 x8 x9 xA xB xC xD xE xF) H4 = x4"
| "sel16 (T16 x0 x1 x2 x3 x4 x5 x6 x7 x8 x9 xA xB xC xD xE xF) H5 = x5"
| "sel16 (T16 x0 x1 x2 x3 x4 x5 x6 x7 x8 x9 xA xB xC xD xE xF) H6 = x6"
| "sel16 (T16 x0 x1 x2 x3 x4 x5 x6 x7 x8 x9 xA xB xC xD xE xF) H7 = x7"
| "sel16 (T16 x0 x1 x2 x3 x4 x5 x6 x7 x8 x9 xA xB xC xD xE xF) H8 = x8"
| "sel16 (T16 x0 x1 x2 x3 x4 x5 x6 x7 x8 x9 xA xB xC xD xE xF) H9 = x9"
| "sel16 (T16 x0 x1 x2 x3 x4 x5 x6 x7 x8 x9 xA xB xC xD xE xF) HA = xA"
| "sel16 (T16 x0 x1 x2 x3 x4 x5 x6 x7 x8 x9 xA xB xC xD xE xF) HB = xB"
| "sel16 (T16 x0 x1 x2 x3 x4 x5 x6 x7 x8 x9 xA xB xC xD xE xF) HC = xC"
| "sel16 (T16 x0 x1 x2 x3 x4 x5 x6 x7 x8 x9 xA xB xC xD xE xF) HD = xD"
| "sel16 (T16 x0 x1 x2 x3 x4 x5 x6 x7 x8 x9 xA xB xC xD xE xF) HE = xE"
| "sel16 (T16 x0 x1 x2 x3 x4 x5 x6 x7 x8 x9 xA xB xC xD xE xF) HF = xF"

fun upd16 :: "'a t16 \<Rightarrow> hex \<Rightarrow> 'a \<Rightarrow> 'a t16" where
  "upd16 (T16 x0 x1 x2 x3 x4 x5 x6 x7 x8 x9 xA xB xC xD xE xF) H0 v = T16 v x1 x2 x3 x4 x5 x6 x7 x8 x9 xA xB xC xD xE xF"
| "upd16 (T16 x0 x1 x2 x3 x4 x5 x6 x7 x8 x9 xA xB xC xD xE xF) H1 v = T16 x0 v x2 x3 x4 x5 x6 x7 x8 x9 xA xB xC xD xE xF"
| "upd16 (T16 x0 x1 x2 x3 x4 x5 x6 x7 x8 x9 xA xB xC xD xE xF) H2 v = T16 x0 x1 v x3 x4 x5 x6 x7 x8 x9 xA xB xC xD xE xF"
| "upd16 (T16 x0 x1 x2 x3 x4 x5 x6 x7 x8 x9 xA xB xC xD xE xF) H3 v = T16 x0 x1 x2 v x4 x5 x6 x7 x8 x9 xA xB xC xD xE xF"
| "upd16 (T16 x0 x1 x2 x3 x4 x5 x6 x7 x8 x9 xA xB xC xD xE xF) H4 v = T16 x0 x1 x2 x3 v x5 x6 x7 x8 x9 xA xB xC xD xE xF"
| "upd16 (T16 x0 x1 x2 x3 x4 x5 x6 x7 x8 x9 xA xB xC xD xE xF) H5 v = T16 x0 x1 x2 x3 x4 v x6 x7 x8 x9 xA xB xC xD xE xF"
| "upd16 (T16 x0 x1 x2 x3 x4 x5 x6 x7 x8 x9 xA xB xC xD xE xF) H6 v = T16 x0 x1 x2 x3 x4 x5 v x7 x8 x9 xA xB xC xD xE xF"
| "upd16 (T16 x0 x1 x2 x3 x4 x5 x6 x7 x8 x9 xA xB xC xD xE xF) H7 v = T16 x0 x1 x2 x3 x4 x5 x6 v x8 x9 xA xB xC xD xE xF"
| "upd16 (T16 x0 x1 x2 x3 x4 x5 x6 x7 x8 x9 xA xB xC xD xE xF) H8 v = T16 x0 x1 x2 x3 x4 x5 x6 x7 v x9 xA xB xC xD xE xF"
| "upd16 (T16 x0 x1 x2 x3 x4 x5 x6 x7 x8 x9 xA xB xC xD xE xF) H9 v = T16 x0 x1 x2 x3 x4 x5 x6 x7 x8 v xA xB xC xD xE xF"
| "upd16 (T16 x0 x1 x2 x3 x4 x5 x6 x7 x8 x9 xA xB xC xD xE xF) HA v = T16 x0 x1 x2 x3 x4 x5 x6 x7 x8 x9 v xB xC xD xE xF"
| "upd16 (T16 x0 x1 x2 x3 x4 x5 x6 x7 x8 x9 xA xB xC xD xE xF) HB v = T16 x0 x1 x2 x3 x4 x5 x6 x7 x8 x9 xA v xC xD xE xF"
| "upd16 (T16 x0 x1 x2 x3 x4 x5 x6 x7 x8 x9 xA xB xC xD xE xF) HC v = T16 x0 x1 x2 x3 x4 x5 x6 x7 x8 x9 xA xB v xD xE xF"
| "upd16 (T16 x0 x1 x2 x3 x4 x5 x6 x7 x8 x9 xA xB xC xD xE xF) HD v = T16 x0 x1 x2 x3 x4 x5 x6 x7 x8 x9 xA xB xC v xE xF"
| "upd16 (T16 x0 x1 x2 x3 x4 x5 x6 x7 x8 x9 xA xB xC xD xE xF) HE v = T16 x0 x1 x2 x3 x4 x5 x6 x7 x8 x9 xA xB xC xD v xF"
| "upd16 (T16 x0 x1 x2 x3 x4 x5 x6 x7 x8 x9 xA xB xC xD xE xF) HF v = T16 x0 x1 x2 x3 x4 x5 x6 x7 x8 x9 xA xB xC xD xE v"

fun t16_list :: "'a t16 \<Rightarrow> 'a list" where
  "t16_list (T16 x0 x1 x2 x3 x4 x5 x6 x7 x8 x9 xA xB xC xD xE xF) =
     [x0, x1, x2, x3, x4, x5, x6, x7, x8, x9, xA, xB, xC, xD, xE, xF]"

type_synonym tab = "hex list t16 t16"

definition tab_list :: "tab \<Rightarrow> hex list list" where
  "tab_list t = concat (map t16_list (t16_list t))"

datatype fstate = FS "hex list list" tab tab tab tab

fun abs_state :: "fstate \<Rightarrow> Blowfish" where
  "abs_state (FS p s0 s1 s2 s3) =
     \<lparr>pary = map wv p,
      sbox = map wv (tab_list s0 @ tab_list s1 @ tab_list s2 @ tab_list s3)\<rparr>"

fun fF :: "fstate \<Rightarrow> hex list \<Rightarrow> hex list" where
  "fF (FS p s0 s1 s2 s3) [d0, d1, d2, d3, d4, d5, d6, d7] =
     ladd False
       (lxor (ladd False (sel16 (sel16 s0 d7) d6) (sel16 (sel16 s1 d5) d4))
             (sel16 (sel16 s2 d3) d2))
       (sel16 (sel16 s3 d1) d0)"
| "fF _ _ = []"

fun fround2 :: "fstate \<Rightarrow> hex list \<Rightarrow> hex list \<Rightarrow> hex list \<times> hex list" where
  "fround2 s l1 r = (lxor r (fF s l1), l1)"

fun fround :: "fstate \<Rightarrow> hex list \<Rightarrow> hex list \<times> hex list \<Rightarrow> hex list \<times> hex list" where
  "fround s p (l, r) = fround2 s (lxor l p) r"

fun frounds :: "fstate \<Rightarrow> hex list list \<Rightarrow> hex list \<times> hex list \<Rightarrow> hex list \<times> hex list" where
  "frounds s [] b = b"
| "frounds s (p # ps) b = frounds s ps (fround s p b)"

fun ffinal :: "hex list \<Rightarrow> hex list \<Rightarrow> hex list \<times> hex list \<Rightarrow> hex list \<times> hex list" where
  "ffinal p16 p17 (l, r) = (lxor r p17, lxor l p16)"

fun fenc :: "fstate \<Rightarrow> hex list \<times> hex list \<Rightarrow> hex list \<times> hex list" where
  "fenc (FS [p0, p1, p2, p3, p4, p5, p6, p7, p8, p9, p10, p11, p12, p13, p14, p15, p16, p17] s0 s1 s2 s3) b =
     ffinal p16 p17
       (frounds (FS [p0, p1, p2, p3, p4, p5, p6, p7, p8, p9, p10, p11, p12, p13, p14, p15, p16, p17] s0 s1 s2 s3)
          [p0, p1, p2, p3, p4, p5, p6, p7, p8, p9, p10, p11, p12, p13, p14, p15] b)"
| "fenc _ b = b"

text \<open>
  Key expansion. The subkeys already written are kept apart from those still to be
  replaced; a position in the tables is the table, the high digit and the two low digits
  of a pair of neighbouring words.
\<close>

fun set_p :: "fstate \<Rightarrow> hex list list \<Rightarrow> fstate" where
  "set_p (FS p s0 s1 s2 s3) q = FS q s0 s1 s2 s3"

fun fput_p ::
  "fstate \<Rightarrow> hex list list \<Rightarrow> hex list list \<Rightarrow> hex list \<times> hex list
     \<Rightarrow> hex list list \<times> fstate \<times> hex list \<times> hex list" where
  "fput_p s done rest (l, r) = (done @ [l, r], set_p s (done @ l # r # rest), l, r)"

fun fexp_p ::
  "hex list list \<Rightarrow> hex list list \<Rightarrow> fstate \<times> hex list \<times> hex list
     \<Rightarrow> fstate \<times> hex list \<times> hex list" where
  "fexp_p done (a # b # rest) (s, lr) =
     (case fput_p s done rest (fenc s lr) of (done1, x) \<Rightarrow> fexp_p done1 rest x)"
| "fexp_p done _ x = x"

datatype idx4 = I0 | I1 | I2 | I3

fun iv :: "idx4 \<Rightarrow> nat" where
  "iv I0 = 0"
| "iv I1 = 1"
| "iv I2 = 2"
| "iv I3 = 3"

fun get_tab :: "fstate \<Rightarrow> idx4 \<Rightarrow> tab" where
  "get_tab (FS p s0 s1 s2 s3) I0 = s0"
| "get_tab (FS p s0 s1 s2 s3) I1 = s1"
| "get_tab (FS p s0 s1 s2 s3) I2 = s2"
| "get_tab (FS p s0 s1 s2 s3) I3 = s3"

fun set_tab :: "fstate \<Rightarrow> idx4 \<Rightarrow> tab \<Rightarrow> fstate" where
  "set_tab (FS p s0 s1 s2 s3) I0 t = FS p t s1 s2 s3"
| "set_tab (FS p s0 s1 s2 s3) I1 t = FS p s0 t s2 s3"
| "set_tab (FS p s0 s1 s2 s3) I2 t = FS p s0 s1 t s3"
| "set_tab (FS p s0 s1 s2 s3) I3 t = FS p s0 s1 s2 t"

fun put2 :: "tab \<Rightarrow> hex \<Rightarrow> hex \<Rightarrow> hex list \<Rightarrow> hex \<Rightarrow> hex list \<Rightarrow> tab" where
  "put2 t hi lo l lo1 r = upd16 t hi (upd16 (upd16 (sel16 t hi) lo l) lo1 r)"

fun fput_s ::
  "fstate \<Rightarrow> idx4 \<times> hex \<times> hex \<times> hex \<Rightarrow> hex list \<times> hex list
     \<Rightarrow> fstate \<times> hex list \<times> hex list" where
  "fput_s s (t, hi, lo, lo1) (l, r) = (set_tab s t (put2 (get_tab s t) hi lo l lo1 r), l, r)"

fun fexp_s ::
  "(idx4 \<times> hex \<times> hex \<times> hex) list \<Rightarrow> fstate \<times> hex list \<times> hex list
     \<Rightarrow> fstate \<times> hex list \<times> hex list" where
  "fexp_s [] x = x"
| "fexp_s (pos # ps) (s, lr) = fexp_s ps (fput_s s pos (fenc s lr))"

definition lo_pairs :: "(hex \<times> hex) list" where
  "lo_pairs = [(H0, H1), (H2, H3), (H4, H5), (H6, H7), (H8, H9), (HA, HB), (HC, HD), (HE, HF)]"

definition positions :: "(idx4 \<times> hex \<times> hex \<times> hex) list" where
  "positions =
     concat (map (\<lambda>t. concat (map (\<lambda>hi. map (\<lambda>(lo, lo1). (t, hi, lo, lo1)) lo_pairs) hexes))
               [I0, I1, I2, I3])"

definition zero_word :: "hex list" where
  "zero_word = [H0, H0, H0, H0, H0, H0, H0, H0]"

fun get_p :: "fstate \<Rightarrow> hex list list" where
  "get_p (FS p s0 s1 s2 s3) = p"

definition fexpand :: "fstate \<Rightarrow> fstate" where
  "fexpand s = fst (fexp_s positions (fexp_p [] (get_p s) (s, zero_word, zero_word)))"

fun wf_word :: "hex list \<Rightarrow> bool" where
  "wf_word w = (length w = 8)"

definition wf_tab :: "tab \<Rightarrow> bool" where
  "wf_tab t = list_all wf_word (tab_list t)"

fun wf_fstate :: "fstate \<Rightarrow> bool" where
  "wf_fstate (FS p s0 s1 s2 s3) =
     (length p = 18 \<and> list_all wf_word p \<and> wf_tab s0 \<and> wf_tab s1 \<and> wf_tab s2 \<and> wf_tab s3)"

text \<open>
  How a state and running block of the model relate to those of this implementation, and
  when a position is the pair of flattened indices \<open>2 i\<close> and \<open>2 i + 1\<close>.
\<close>

definition refines ::
  "Blowfish \<times> u32 \<times> u32 \<Rightarrow> fstate \<times> hex list \<times> hex list \<Rightarrow> bool" where
  "refines x y =
     (case y of (s, l, r) \<Rightarrow>
        wf_fstate s \<and> length l = 8 \<and> length r = 8 \<and> x = (abs_state s, wv l, wv r))"

definition pos_ok :: "nat \<Rightarrow> idx4 \<times> hex \<times> hex \<times> hex \<Rightarrow> bool" where
  "pos_ok i pos =
     (case pos of (t, hi, lo, lo1) \<Rightarrow>
        256 * iv t + (hv lo + 16 * hv hi) = 2 * i \<and> 256 * iv t + (hv lo1 + 16 * hv hi) = 2 * i + 1)"

text \<open>The constants of the cipher in this representation.\<close>

definition fP0 :: "hex list list" where
  "fP0 =
    [[H8, H8, HA, H6, HF, H3, H4, H2],
     [H3, HD, H8, H0, H3, HA, H5, H8],
     [HE, H2, HA, H8, H9, H1, H3, H1],
     [H4, H4, H3, H7, H0, H7, H3, H0],
     [H2, H2, H8, H3, H9, H0, H4, HA],
     [H0, HD, H1, H3, HF, H9, H9, H2],
     [H8, H9, HA, HF, HE, H2, H8, H0],
     [H9, H8, HC, H6, HE, H4, HC, HE],
     [H6, HE, H1, H2, H8, H2, H5, H4],
     [H7, H7, H3, H1, H0, HD, H8, H3],
     [HF, HC, H6, H6, H4, H5, HE, HB],
     [HC, H6, HC, H0, H9, HE, H4, H3],
     [H7, HB, H9, H2, HC, HA, H0, HC],
     [HD, HD, H0, H5, HC, H7, H9, HC],
     [H5, HB, H5, HD, H4, H8, HF, H3],
     [H7, H1, H9, H0, H7, H4, H5, HB],
     [H9, HD, H5, HD, H6, H1, H2, H9],
     [HB, H1, HB, HF, H9, H7, H9, H8]]"

definition fS0 :: tab where
  "fS0 =
    (T16
     (T16 [H6, HA, HB, H0, H1, H3, H1, HD]
        [HC, HA, H5, HB, HF, HD, H8, H9]
        [HB, HD, H2, H7, HD, HF, HF, H2]
        [H7, HB, HF, HD, HA, H1, H0, HD]
        [HD, HE, HF, HA, H1, HE, H8, HB]
        [H6, H9, HE, H7, H6, H2, HA, H6]
        [H5, H4, H0, H9, HC, H7, HA, HB]
        [H9, H9, HF, H7, HC, H2, H1, HF]
        [H7, H4, H9, H9, H1, HA, H4, H2]
        [H7, HF, HC, H6, H1, H9, H3, HB]
        [H2, HE, H2, HF, H1, H0, H8, H0]
        [H6, H1, HC, HF, HE, H8, H5, H8]
        [H8, HD, H0, H2, H9, H6, H3, H6]
        [H9, H6, HE, H4, H7, H5, H1, H7]
        [H3, HA, HE, HF, H8, H5, H4, HA]
        [HE, H7, HD, H3, H3, H9, H4, HF])
     (T16 [HF, H8, H4, H7, H5, H9, HD, H0]
        [H8, H5, H6, HB, HE, H8, H2, H7]
        [H8, H5, HD, HC, HB, H8, H1, H7]
        [HE, HE, HA, H4, H5, H1, H2, H8]
        [HD, H1, H4, HA, H4, H5, HB, H7]
        [H5, HB, H9, H5, HA, H5, H2, HC]
        [H9, H3, H5, HD, H0, H3, HC, H9]
        [H3, H1, H0, H6, H2, HF, HA, H2]
        [H3, H2, H0, HB, H1, HD, H5, HC]
        [H0, HF, H5, H8, H0, H6, H8, H2]
        [H8, H1, H9, H7, H1, H4, HA, HC]
        [HF, HE, H8, H3, HB, HD, H8, HB]
        [H0, HB, HC, HD, H9, H7, HE, H8]
        [HE, H0, H8, H1, HA, H3, H0, H6]
        [HB, H8, HE, H0, HE, H9, HC, H6]
        [HE, H3, HA, H8, HE, H1, H0, HB])
     (T16 [H1, HC, H7, H7, H5, H1, H7, HD]
        [H7, H2, HB, H4, H1, H3, HD, HB]
        [HA, HD, HF, H2, HF, HA, H8, H7]
        [H0, H6, HC, H5, H0, H6, H5, H5]
        [H3, HF, H5, H2, H5, H5, H6, HE]
        [H4, H9, HB, HA, H5, H5, HA, HA]
        [H2, H6, H8, H9, H8, H4, H7, H5]
        [H0, H4, H4, H1, H8, HE, H3, H6]
        [HA, H6, H9, H3, HA, HC, H5, H5]
        [H6, HB, H0, H1, HB, HA, HA, H2]
        [H4, H3, HC, H5, HC, HC, H4, HB]
        [HE, HC, H8, HE, H1, H4, H1, H1]
        [HF, HA, H6, H8, H4, H5, H1, HA]
        [H3, H9, H9, HE, H2, H7, HC, H7]
        [H1, H1, H4, H1, HE, HE, H3, HB]
        [HA, H2, HC, HB, HF, H6, H3, H6])
     (T16 [HD, H5, H5, HC, H9, HA, HB, H2]
        [H6, HF, H1, H3, H8, H1, H4, H7]
        [H6, H1, HE, H3, HC, H5, HE, HC]
        [HE, H1, H3, H9, H7, H8, HB, H9]
        [H3, H3, HA, HB, H6, HD, HF, HA]
        [HC, H5, HF, HC, H4, H2, HC, H6]
        [H1, H8, H3, H5, H2, H3, HA, H7]
        [H7, H7, H6, H8, H5, H9, H8, H2]
        [H8, H9, H8, H4, HF, H8, HB, H3]
        [HF, HA, H9, HB, HB, H4, HB, H6]
        [HB, H1, H8, HE, HF, HB, H4, HC]
        [H3, H9, H1, H2, H8, H2, H6, H6]
        [HC, HC, H9, H0, H8, HD, H1, H6]
        [H1, H9, H9, HA, H1, H2, HB, HF]
        [H0, H6, HC, HA, HC, H7, H8, H4]
        [H2, H3, H0, H8, HC, HE, HD, H5])
     (T16 [HD, H5, HD, H5, H4, H8, HF, HE]
        [H1, HB, H5, H7, H5, H8, H9, HE]
        [H2, H0, H3, H2, H6, H2, HC, HD]
        [H8, H8, HB, H1, H5, H6, HB, HE]
        [H1, H8, HE, H3, H9, H8, H3, H2]
        [H5, HC, HC, HA, H6, H9, H3, HD]
        [H3, HF, HF, H6, HD, H6, HF, H0]
        [H9, H3, H2, H4, H4, HF, H3, H8]
        [H2, H8, H4, H4, HB, H0, HE, H2]
        [H4, H0, H0, H2, H4, H8, H4, HA]
        [HA, H4, H0, HF, H8, HC, H9, H6]
        [HE, H5, HB, H9, HF, H1, HE, H9]
        [H2, H4, H8, H6, H6, HC, H1, H2]
        [HA, H9, HC, H6, H9, HE, H6, HF]
        [H1, H6, HC, H9, HC, H0, H7, H6]
        [H0, HF, H8, H8, H3, HD, HB, HA])
     (T16 [H2, HD, H0, HA, H1, H5, HA, H6]
        [H8, H6, HF, H2, H4, H5, H8, HD]
        [H8, H2, H7, HA, HF, H0, H6, H9]
        [H3, HA, H3, H3, H1, H5, HB, HA]
        [HC, H6, HB, H0, HF, HE, HE, H6]
        [H4, HE, HB, H3, HA, H7, H3, H1]
        [H0, H5, H0, HF, HB, H3, HA, HB]
        [H8, H9, HA, H2, HB, HF, HE, H7]
        [HD, H1, H5, H6, H1, HF, H1, HA]
        [H6, H7, H1, H0, HF, HA, H9, H3]
        [HE, H3, H9, H5, HA, HC, H6, H6]
        [H8, H8, HE, H0, H3, H4, H2, H8]
        [H9, H1, H6, H8, HE, HE, HC, H8]
        [H4, HB, HF, H9, HF, H6, H5, H4]
        [H3, HC, H5, HA, H4, H8, HD, H7]
        [HE, HB, HE, H5, HB, H8, HB, H3])
     (T16 [H8, HD, H5, H7, HF, H6, H0, HE]
        [H3, H7, H0, H2, H1, HC, H5, H8]
        [HF, H9, H4, H4, HA, H1, H0, H4]
        [H6, HA, HA, H6, H1, HC, H6, H5]
        [H2, H6, HA, HA, H3, HD, HE, H4]
        [H6, H0, H7, H7, HF, H3, H6, H3]
        [H2, H7, HF, HD, HE, HF, HB, H1]
        [HD, H3, H2, H0, HB, H9, H2, H4]
        [H4, H2, H7, HD, H0, HD, H7, H3]
        [H8, H4, H2, H1, HA, H0, H0, HD]
        [H3, HD, HA, HE, HF, H0, HB, HD]
        [HB, H9, H0, HC, H1, HF, H9, H4]
        [H9, HC, H2, H7, H3, H5, H7, H0]
        [HB, H7, HB, H1, H9, H9, H0, H8]
        [H8, HD, H9, H7, H4, HD, H5, H2]
        [H7, HF, HE, HD, H8, HE, H6, HF])
     (T16 [HA, H1, H0, H5, HE, HF, H3, HE]
        [HB, H3, HC, H4, H9, H7, H6, HB]
        [HD, HB, H0, HE, HC, H6, H7, H9]
        [HA, HB, H6, H0, H0, HC, H4, H0]
        [H6, HB, HF, H4, H9, HA, H1, HC]
        [H4, HC, H0, H6, HF, H9, H0, H4]
        [H2, HC, HE, H9, HC, H5, HE, H5]
        [H3, H6, H4, H2, HA, H6, H9, H1]
        [HF, HA, HF, H6, HB, HF, H8, H6]
        [H5, HB, H3, H5, HC, H6, HE, H3]
        [HB, HE, H2, HB, H9, H3, H3, H1]
        [HF, H6, HC, HE, H2, H5, HB, H3]
        [HF, H1, H1, H5, HC, HF, HD, H6]
        [HC, H2, H5, H9, H0, H3, HB, H9]
        [H4, H4, H5, H4, H1, H8, HC, HC]
        [H9, H0, HD, HB, HE, H5, HF, HA])
     (T16 [H4, H0, H0, HD, H3, HE, HE, HB]
        [HD, HF, HA, H4, H3, H3, HE, HD]
        [H7, H0, H8, H2, HF, H0, H6, H6]
        [H3, HB, HB, H4, HE, H2, H9, H1]
        [H7, H5, H8, HA, HB, HC, H0, HC]
        [HF, H0, H4, H7, H8, HC, H5, H4]
        [H9, H3, HF, H5, HB, H0, H2, HD]
        [HB, HD, HB, HF, H3, HD, H9, HB]
        [HD, HB, H0, HC, H9, H7, H5, H5]
        [HA, H0, H2, H3, H0, H6, HA, H1]
        [H6, HC, H0, H0, H1, HA, H6, HD]
        [H9, H7, H2, H7, HC, H2, H0, H4]
        [HE, HF, H5, H2, HF, H9, H7, H6]
        [HC, HC, H3, HA, HF, H1, HB, HF]
        [H8, HF, H9, HE, H5, HA, HE, H8]
        [H8, HF, H2, H2, H2, H3, HB, HD])
     (T16 [HF, HD, H6, H1, H5, H7, HC, H3]
        [H5, H1, HB, H6, H1, H6, HD, HF]
        [H8, HC, HE, H1, H0, H5, HF, H2]
        [HB, HA, H2, H5, H5, H0, HD, HA]
        [HA, HF, H5, HB, HD, H3, H2, H3]
        [H0, H6, H7, H8, H3, H2, HD, HF]
        [H8, H4, HB, H7, H1, H3, H3, H5]
        [H2, H8, HF, HD, H0, H0, HE, H3]
        [HB, HB, H7, H5, HC, H5, HE, H9]
        [H0, HA, HC, H8, HF, H6, HA, HC]
        [HE, H2, H6, H5, H7, H8, HA, H1]
        [HB, HD, H9, H6, H7, H1, HF, HD]
        [H6, HF, H8, HA, H2, H4, H5, HD]
        [H3, HC, HF, HF, HE, H7, H8, H2]
        [H6, HC, H2, H3, H7, H6, HC, HA]
        [H3, H7, H5, H5, HF, H4, HC, H8])
     (T16 [H0, HB, H7, H2, HB, H5, H9, H6]
        [H8, HC, H8, H5, HA, HC, HB, HB]
        [HD, H5, H3, HA, HF, HF, H1, HE]
        [H0, HA, H1, H1, H0, HF, H8, HB]
        [H8, H9, HD, H3, HA, HF, H0, H1]
        [H8, HB, H3, H8, H1, H2, HD, HF]
        [HC, H6, H5, HB, HC, HF, HA, H4]
        [HB, H5, H3, HD, H1, HD, HD, H2]
        [H9, H7, H4, HE, H3, H5, HA, H9]
        [H5, H6, H5, H4, H8, HF, H6, HB]
        [HC, HB, H9, H4, HE, H8, H2, HD]
        [H0, H9, H7, H9, HB, HF, HB, H4]
        [HA, HD, H2, HF, HD, HD, H1, HE]
        [H3, H3, HE, H7, HB, HC, H4, HA]
        [H1, H4, H3, H1, HB, HF, H2, H6]
        [H8, HE, H6, HC, H4, HE, HE, HC])
     (T16 [HA, HD, HA, HC, H0, H2, HF, HE]
        [H1, H0, HC, H4, H7, H7, H6, H3]
        [HE, HF, HE, H9, HE, H7, H0, HD]
        [H4, HB, HF, H1, H1, HF, HB, H2]
        [HD, H4, HA, HD, HB, HD, H5, H9]
        [H8, H9, H1, H9, H0, H9, HE, HA]
        [H1, H7, HE, H8, HD, HA, HA, HE]
        [H0, HA, H5, HD, H3, H9, HB, H6]
        [H0, HD, H1, HD, HE, H8, H0, HD]
        [H0, HE, H5, H2, H7, HC, HF, HA]
        [HF, H2, HB, H5, HC, H3, HE, H8]
        [H7, HB, H4, H9, H5, H7, HE, H8]
        [HB, HF, H2, HE, H6, HF, HF, H8]
        [H4, H6, HB, H2, H2, H1, H2, HF]
        [H2, H1, H8, HB, H8, H8, H8, H8]
        [HC, H1, H0, HF, HD, H0, H0, H9])
     (T16 [H0, HA, HE, H5, HD, HA, HF, H4]
        [HC, H1, H3, HC, HF, H8, H8, H6]
        [H1, H9, H1, HF, HF, HC, H1, HD]
        [HD, HA, H1, HC, H8, HA, H3, HB]
        [H8, H1, H2, H2, HF, H2, HF, H2]
        [H7, H7, H7, H1, HE, H0, HE, HB]
        [HE, HF, HD, H2, H5, H7, HA, HE]
        [H1, HA, HF, H1, H2, H0, HB, H8]
        [HF, H0, HC, HC, H0, HA, H5, HE]
        [H8, HE, H4, H7, HF, H6, H5, HB]
        [H6, HD, H3, HF, HC, HA, H8, H1]
        [H9, H9, H2, HE, H9, H8, HE, HC]
        [H0, HE, HF, H4, H8, HA, H4, HB]
        [H7, HB, H0, HE, H3, H1, HD, HF]
        [H1, H8, HB, H3, H4, HC, HC, H7]
        [H9, HD, H8, HA, HD, HA, H2, HD])
     (T16 [H6, H6, H2, HA, HF, H5, H6, H1]
        [H5, H0, H7, H7, H5, H9, H0, H8]
        [H4, H1, H3, H7, HC, HC, H3, H9]
        [H7, H7, H4, H1, HA, H1, H1, H2]
        [H5, H6, H0, H2, HD, HA, H6, HE]
        [H6, H8, HA, HF, H5, HB, H7, H7]
        [H5, HF, H2, H4, H4, H5, H7, HC]
        [HF, HC, H5, H3, HD, H9, HB, HF]
        [HC, H0, HF, HA, HD, HC, HB, HE]
        [H0, HA, H9, H8, HE, H3, HB, H7]
        [H3, HD, HB, H1, H1, H4, H6, HD]
        [H9, H4, HE, H7, HE, H1, HE, HA]
        [HD, H2, HE, H0, H5, H2, H0, H0]
        [HE, H5, H3, HB, H1, H7, H0, H2]
        [HB, HB, H0, H0, H8, H6, H2, H2]
        [HF, HA, H0, HE, H8, HB, H7, H5])
     (T16 [HB, H9, H6, H3, H4, H6, H4, H2]
        [HE, H1, H9, HB, H9, H0, H0, HF]
        [HD, H1, H1, H9, H3, H6, H5, H5]
        [HA, HA, H6, HA, HF, HD, H9, H5]
        [H9, H8, H3, H4, H1, HC, H8, H7]
        [HF, H7, H3, H5, HA, H5, H9, HD]
        [H2, HA, HB, H5, HD, H7, H0, H2]
        [H5, HC, H9, HB, H5, HE, H2, H0]
        [H6, H7, H3, H0, H6, H2, H3, H8]
        [H9, HA, HF, HC, H5, H9, H2, H6]
        [H8, H6, H9, H1, H8, HC, H1, H1]
        [H1, H4, HA, H4, H3, H7, HE, H4]
        [HA, HC, HD, H2, H7, H4, H3, HB]
        [HA, H4, H9, HA, H4, H1, HB, H7]
        [H2, H5, H0, H0, H1, H5, HB, H1]
        [H5, H1, H9, H2, H3, H5, HA, H9])
     (T16 [HF, H3, H7, H5, HF, H0, H6, HD]
        [H4, HE, H6, HC, HB, H9, HC, HB]
        [H6, H7, H4, HA, H0, H6, HB, H2]
        [H0, H0, H4, H7, H6, HE, H1, H8]
        [H5, HB, HF, H6, HA, HB, H8, H0]
        [HF, H1, H9, HE, HB, H1, H7, H5]
        [HB, H6, HC, HE, H6, H9, H2, HF]
        [H5, H1, H9, HD, HD, H0, HA, H2]
        [H1, H2, H5, H6, H3, H6, H6, HB]
        [H6, HB, H9, HF, H9, HB, H7, HE]
        [HE, H2, H5, H0, H4, H3, HF, HF]
        [H4, H6, H6, H5, H5, H8, H5, HC]
        [HD, H5, HD, H2, H0, HB, H3, H5]
        [H1, HA, HF, H8, HF, H9, H9, HA]
        [H9, H9, H7, H4, HA, HB, H8, H0]
        [HA, H6, H7, H0, H5, H8, HE, H6]))"

definition fS1 :: tab where
  "fS1 =
    (T16
     (T16 [H9, HE, H0, H7, HA, H7, HB, H4]
        [H4, H4, H9, H2, H3, HB, H5, HB]
        [HE, H2, H9, H0, H5, H7, HB, HD]
        [H3, H2, H6, H2, H9, H1, H4, HC]
        [H0, HB, H6, HA, HE, H6, HD, HA]
        [HD, H7, HF, HD, H7, HA, H9, H4]
        [H8, HB, H0, H6, HE, HE, HC, H9]
        [H6, H6, H2, HB, HD, HE, HF, H8]
        [H1, H7, HC, H8, HA, HA, HC, HE]
        [HF, HF, H7, H1, HA, H9, H9, H6]
        [HC, H6, H2, H5, H4, H6, H6, H5]
        [H1, HE, HE, H9, H1, HB, H2, HC]
        [H5, HA, H2, H0, H6, H3, H9, H1]
        [H9, H2, HC, H4, H9, H0, H5, H7]
        [H0, H4, H3, H1, H9, H5, H0, HA]
        [HE, H3, HA, H3, H8, H1, H4, HE])
     (T16 [HA, H9, H8, H9, H4, H5, HF, H3]
        [H5, H6, HD, H9, H2, H4, HB, H5]
        [H6, HD, H4, HE, HF, H8, HB, H6]
        [H6, HD, HF, H3, H7, HF, H9, H9]
        [H7, H0, HC, H9, H2, HD, H1, HA]
        [H5, HF, H0, H3, H8, HE, HF, HE]
        [H6, HE, H8, H3, HD, H2, HD, H4]
        [H1, HC, HD, H5, H5, H2, H0, HF]
        [H6, H8, H0, H2, HD, HD, HC, H4]
        [H6, H2, HB, HE, H0, H7, H4, H8]
        [H6, HC, H9, HE, H2, H8, H3, H6]
        [HE, H5, HC, HC, HE, H1, H2, H0]
        [HF, H3, HB, H6, H8, H6, H9, H0]
        [H9, HC, HF, HE, HA, HB, HE, H3]
        [H4, H1, H8, H1, H7, H9, HC, H3]
        [H1, HA, H0, H7, HA, H6, HB, H6])
     (T16 [H4, H8, H5, H3, HF, H7, H8, H6]
        [H6, H8, H2, HE, H0, HA, H2, H5]
        [H5, H0, H3, H5, HC, H9, H7, HB]
        [H7, H3, H7, H0, H0, H5, HA, HA]
        [HC, H1, H4, H8, H7, H0, HE, H3]
        [HC, H5, HE, HA, HE, HD, HF, H7]
        [HC, HE, H4, H4, HD, H7, HE, H8]
        [H8, HB, H2, HF, H6, H1, H7, H5]
        [H7, H3, HA, HD, HA, H3, H0, HB]
        [HD, H0, HC, H0, H0, H5, H0, HF]
        [H4, H0, HF, H1, HC, H1, H0, HF]
        [HF, HF, H3, HB, H0, H0, H2, H0]
        [HA, H1, H5, HF, HC, H0, HE, HA]
        [H2, HB, H4, H7, H5, HB, HC, H3]
        [H8, H5, HA, H7, H3, H8, H5, H2]
        [HD, HB, H1, H2, H9, H0, HC, HD])
     (T16 [H9, HF, H3, H1, H1, H9, H1, HD]
        [H6, HF, HF, H2, H9, HA, HC, H7]
        [H3, H7, H7, H4, H2, H3, H4, H9]
        [H1, H0, H7, H4, H5, HF, H2, H2]
        [H1, H8, H5, HE, H5, HE, HA, H3]
        [HC, HD, HA, HD, H2, HC, H7, H3]
        [H4, H3, H6, H7, H5, HB, H8, HC]
        [H7, HA, HD, HD, H3, HF, HA, H9]
        [H6, H4, H1, H6, H4, H4, H9, HA]
        [HE, H0, H3, H0, H0, HD, HF, H0]
        [HE, H3, H7, HC, H8, HC, HC, HE]
        [H1, H4, HE, H1, H5, H7, H4, HA]
        [H9, H9, HD, HC, H8, H3, H2, HE]
        [HF, H2, HE, H0, HA, HE, HB, H3]
        [H1, HA, HB, HB, H0, H8, H2, H3]
        [H1, H3, H3, HB, HE, H3, H8, H1])
     (T16 [H8, H3, HB, H8, H4, H5, HE, H4]
        [H8, H0, H9, HB, HD, H6, HF, H4]
        [H3, H0, HD, H0, H2, H4, HF, H6]
        [HF, HB, H4, H0, HA, H0, H6, HF]
        [H0, H9, H2, H1, H8, HB, HC, H2]
        [H9, H7, HC, H7, H7, H9, H4, H2]
        [H2, H7, H0, HB, H9, H7, H6, H5]
        [HF, HA, H9, H8, HF, HA, HC, HB]
        [HF, H1, H7, H7, HA, H9, HE, HD]
        [H0, H1, H8, H0, H3, H9, H9, HD]
        [H2, H1, HE, HA, HB, H8, H3, HB]
        [HE, H2, HF, H3, HF, HC, HC, HD]
        [HF, H1, H2, H7, H2, H1, H5, H5]
        [H4, H2, H1, H7, HB, H6, HE, H2]
        [H6, HE, HD, HD, HA, H1, H0, H5]
        [H7, H8, HD, HC, H4, H8, HF, H9])
     (T16 [H8, H1, H7, H4, H8, H5, HA, H7]
        [H7, H1, HA, HD, H8, H0, H4, H7]
        [HC, HB, HA, H9, HF, H9, HC, HB]
        [HC, H8, HD, H7, HB, H4, H9, HE]
        [HA, H3, HC, HE, HA, H7, HC, HE]
        [HA, HF, HD, H1, H5, H8, HB, HD]
        [H6, H6, H3, H4, H9, H0, H3, H6]
        [H2, HD, H3, HC, H4, H6, H4, HC]
        [H7, H4, H8, H1, HC, H1, HF, HE]
        [H8, H0, H9, HD, H5, H1, H2, H3]
        [H7, H3, HB, H3, H3, H4, HD, HD]
        [H6, H1, HA, HB, H2, HC, H4, H2]
        [H3, H4, HD, H4, H1, HA, H2, H1]
        [H1, H5, H4, HC, H5, H6, HA, H2]
        [H2, H0, H0, H0, H4, H9, H0, H5]
        [HD, HD, H4, HE, HA, H3, H3, H1])
     (T16 [HE, H9, H8, HF, HF, HD, H1, H7]
        [H5, H5, HE, H4, H1, H3, H0, H1]
        [H6, HD, H7, H7, HC, HA, H1, H8]
        [HB, H9, H9, H1, H1, H1, HF, H5]
        [H1, HF, H6, H5, H5, H3, H4, H0]
        [HB, H6, H7, HC, H3, HA, H7, HD]
        [HB, H3, H8, H1, H1, H1, HC, H3]
        [H9, H0, H5, HA, H4, H2, H9, H5]
        [HD, HE, H6, HE, HF, H8, H2, HF]
        [HA, HF, HB, HF, H1, HF, H7, H9]
        [HC, H2, HF, HB, HA, HB, HE, H9]
        [HE, H6, HC, H3, H5, H1, HE, H1]
        [H0, H7, H5, H4, H3, HE, H6, H8]
        [H1, HB, HF, H6, H9, HE, HA, HE]
        [HA, H0, HE, H5, HE, H0, H6, H8]
        [H3, HB, HA, H2, HE, H3, HA, H5])
     (T16 [HC, H1, H7, HE, HF, H1, H7, H7]
        [HA, HF, H6, H0, HD, H3, HE, H4]
        [H9, HB, HC, HD, H5, H6, H9, H2]
        [HF, H0, HD, H1, H7, HE, H9, H9]
        [H6, HD, H9, H8, HE, H3, H0, H8]
        [H5, H2, H8, HC, H6, H6, H2, H5]
        [H8, H7, H9, HC, HC, H4, HE, H2]
        [HA, H6, H3, HB, H0, H1, HC, H9]
        [HA, HB, HE, H0, H5, H1, H6, HC]
        [H8, H7, HA, HE, H2, HE, H4, H9]
        [H3, H5, HC, H3, HC, HF, H5, HA]
        [H4, HF, HD, H2, HA, H0, HE, H1]
        [H7, HA, HE, H4, H7, HF, H2, HF]
        [HD, H3, HB, H2, HD, H1, H6, H3]
        [HF, H0, H6, H2, H9, H3, H9, H1]
        [H0, H6, H9, H7, H2, HC, H9, H1])
     (T16 [H8, H0, H7, HA, H3, H2, H2, H5]
        [H6, HB, H2, H1, H3, H1, H7, HF]
        [HE, H6, HE, HF, HD, HA, HB, HE]
        [H6, H6, HF, H1, H3, HC, HA, HE]
        [H5, H9, H5, H4, HC, HB, H3, HE]
        [H3, H8, H8, HC, HB, H7, H6, HA]
        [H1, HD, H7, H3, HF, H7, H1, HB]
        [H8, H2, HF, HF, HC, H8, H1, H0]
        [HF, HE, HD, HD, H2, H3, H3, HC]
        [H5, HA, HA, H5, HC, H6, HE, HB]
        [H5, H8, H1, H2, H8, H5, H5, H6]
        [H2, H0, H8, H9, HB, HA, H8, H6]
        [HF, H0, H5, HA, HE, HC, HE, HE]
        [HB, H3, H5, H9, HF, H2, HB, HD]
        [HD, HA, HD, H7, HF, HE, HA, H2]
        [H4, H8, HF, H2, HE, H6, HB, H5])
     (T16 [H8, H2, H6, HB, H1, H2, H5, H1]
        [H0, H7, H1, H6, H7, H0, H9, H2]
        [H5, H7, H7, H4, HD, HD, HC, HE]
        [H0, H1, H5, H1, HF, H9, H1, H6]
        [H0, H3, H8, HA, HC, HC, H3, H1]
        [H6, H9, HD, HB, H1, H6, HB, HE]
        [HE, H1, HE, HF, H4, H3, H3, H0]
        [HF, HC, H3, H6, H3, H0, HA, HA]
        [H0, H9, HC, H5, H3, H7, H5, HB]
        [H9, H3, H2, HA, H0, H7, HC, H4]
        [HB, H0, HE, H9, HE, H9, H5, HD]
        [H4, H1, HE, HD, HA, HA, HB, HC]
        [HC, HB, H6, H8, HC, HC, HE, HE]
        [H7, HA, HC, H2, H2, H6, H0, H6]
        [HB, HA, HC, H5, HB, HA, HC, H9]
        [HE, H6, H4, H8, H3, HF, H2, HB])
     (T16 [HF, HA, HE, H1, HB, H8, H4, H6]
        [HA, HC, H0, HF, HD, HB, H9, H1]
        [H9, HB, H9, H6, H3, H2, H0, HA]
        [H0, H5, HB, HB, HA, H5, H5, H6]
        [H2, H3, HA, H5, H8, H6, H0, H4]
        [H3, HB, H4, HB, HA, H2, HC, H3]
        [H5, HD, H9, HE, HE, H9, H1, H3]
        [H7, HF, H8, HB, H1, H2, H0, HC]
        [H9, H1, HB, H0, H4, H5, HB, H9]
        [H9, H9, H0, HA, HF, H5, H7, H8]
        [HE, H7, H9, H9, H7, HF, H5, H9]
        [H8, HA, HD, H7, HD, H3, H2, H6]
        [HA, H9, H8, H8, H7, H3, H8, HF]
        [H7, H7, HD, H2, H3, HE, H7, H9]
        [HF, H5, H3, H9, HD, HE, H1, H1]
        [H1, H8, H2, H1, H8, H6, H6, H1])
     (T16 [H9, H2, H8, H8, H5, H3, HE, H0]
        [H6, HD, HF, H1, H6, HE, H7, HC]
        [H1, HA, HF, HD, HE, HD, H6, H9]
        [H9, H9, HA, HB, H8, H5, H8, H7]
        [H5, HA, H4, H8, H5, HF, H7, H5]
        [H3, H6, H2, H7, H2, H2, HB, H1]
        [HF, HF, H3, HC, H3, H8, HB, H9]
        [H6, H9, H6, H4, H2, HC, HA, H1]
        [HB, HE, HA, H0, H3, HB, HD, HC]
        [H4, H5, H0, H3, HE, H2, H3, H5]
        [H4, HE, H8, H4, H9, HD, HF, H8]
        [H8, H2, H1, H3, HC, HB, HD, H6]
        [HF, HE, H2, HF, HB, HE, H8, H5]
        [HA, HE, HF, HF, H6, HC, H4, H3]
        [H1, H6, HD, HE, H8, H2, HE, HF]
        [H3, H7, HC, H3, HC, H7, HE, HE])
     (T16 [H9, HD, H4, H1, HA, H4, HD, H5]
        [H3, HE, H7, HB, H4, H6, H8, HE]
        [H4, H1, HD, H5, H0, H1, H2, H4]
        [H0, HE, H3, H1, HE, H3, H0, H2]
        [H6, HB, H2, HE, HE, HE, H5, H4]
        [HA, HE, HB, HA, HA, HA, H3, HA]
        [H5, H1, HF, H4, HC, H6, HB, HD]
        [H0, HD, HF, H4, HB, HC, HA, HF]
        [H2, H4, H4, HF, H2, H4, H7, HC]
        [H5, HB, HB, HB, HA, H6, HF, HE]
        [HD, H1, HB, H3, HF, H4, H5, H6]
        [H5, H0, H1, H2, HD, HC, H1, H4]
        [HE, H9, H9, H7, HE, H1, H8, HD]
        [H7, HC, HD, H4, H5, H8, H6, H8]
        [HA, H6, H7, H4, HB, H4, H4, HE]
        [H0, H5, H2, H6, H1, H8, HD, H3])
     (T16 [H2, HF, H1, HA, H2, H6, HF, HC]
        [H6, H4, H6, H2, HD, H8, HB, H5]
        [H0, HA, H3, H8, H8, H8, HC, HF]
        [H3, HA, H6, HB, H7, HC, H1, HC]
        [H3, HC, H4, H2, H5, H1, HF, H7]
        [H2, H9, H4, H7, HB, HC, H9, H6]
        [HB, H0, HA, H8, H4, H8, H7, H4]
        [H5, H8, H2, HB, H2, H9, H6, H5]
        [H0, H0, HF, HB, HB, H5, H9, H0]
        [HD, H9, H8, H4, H9, H1, HD, HA]
        [H4, H7, H1, HB, H2, H6, H4, H1]
        [H0, H0, HE, H0, H2, H8, H3, H2]
        [HA, H2, HD, H8, H2, H4, H8, H5]
        [HA, HE, H5, HF, H5, H5, HC, H0]
        [HE, H3, H4, HF, HD, HA, HD, H1]
        [H1, H6, H0, H7, HF, H3, H3, H2])
     (T16 [H2, H9, H0, HF, H2, H7, H3, H3]
        [H1, H4, HE, H7, H3, H9, HD, H8]
        [H1, HF, HC, HE, HF, H5, H6, HD]
        [HB, HD, HB, H3, H2, H2, HC, H6]
        [H9, H5, H7, H3, HE, HD, HC, H7]
        [H0, H6, H4, H7, HE, HE, HB, HC]
        [H7, HA, H2, HF, H5, H8, H0, H4]
        [HE, H6, H2, H3, H7, H7, HE, HC]
        [H4, H8, H0, H8, H7, H0, H6, HA]
        [HE, H9, H0, H5, H8, HF, H9, H1]
        [H5, H5, H8, HD, HF, HE, H8, HE]
        [H5, H3, H7, H9, H9, HD, H1, H6]
        [HA, HA, H7, HA, H9, H6, H9, HA]
        [H2, HC, H6, H0, HC, H0, H5, HC]
        [HC, HF, HB, HA, H4, H0, HA, H5]
        [HC, HD, HA, HC, HB, H0, H0, H8])
     (T16 [HE, H2, HA, H7, H4, H4, HE, H9]
        [H4, H8, H4, H3, H5, H4, H3, HC]
        [H5, H0, H7, H6, H5, HD, HD, HF]
        [H9, HC, HE, H9, HE, H1, HE, H0]
        [H3, HD, HB, HD, H3, H7, HB, HD]
        [HD, HC, H8, H8, H5, H5, H0, H1]
        [H9, H7, HA, HD, HF, H5, H7, H6]
        [H0, H4, H3, H4, H7, H6, H3, HE]
        [H5, H6, H4, H3, H4, HC, H5, HC]
        [H8, HD, H8, H3, HE, H3, H1, H7]
        [HE, H9, H8, HF, H8, H2, HD, H3]
        [H0, H2, HF, HF, HD, H6, H1, HF]
        [H7, HE, H1, H2, HE, H3, H5, H1]
        [HA, H4, HD, H3, H0, HB, HF, H8]
        [HB, H2, HF, H9, H3, HE, H6, HE]
        [H7, HF, HD, HA, H3, H8, HB, HD]))"

definition fS2 :: tab where
  "fS2 =
    (T16
     (T16 [H8, H6, HA, H5, HD, H3, H9, HE]
        [H7, HF, H0, H4, H1, H8, H4, H9]
        [HC, H1, H6, H2, HC, H4, H6, HF]
        [H4, H3, H9, H2, H9, H6, H4, H9]
        [H7, HF, H0, H2, H5, H1, H1, H4]
        [H7, HF, H4, HD, H2, H0, H6, H7]
        [HE, H2, HB, H6, H4, HF, HC, HB]
        [H8, H6, H0, H0, H2, HA, H4, HD]
        [H1, H7, H4, H2, H8, H0, H4, HD]
        [HA, H6, H4, HF, H0, H2, H3, H3]
        [H7, HB, H4, HD, H7, HB, H3, H4]
        [HF, HA, H1, H6, H0, H0, H0, H5]
        [HE, H2, H6, HF, H9, H3, HE, H1]
        [H6, H4, H5, H4, H4, H2, H7, H9]
        [H4, H7, HF, H4, H1, H2, H4, H1]
        [H0, H4, H8, H8, HB, H8, HF, HB])
     (T16 [HD, H1, HC, HF, H5, H9, HD, H4]
        [HF, HA, H1, H9, H5, HB, H6, H9]
        [H3, HD, HD, HD, H4, HF, H0, H7]
        [H5, H4, HF, H2, H0, HA, H6, H6]
        [HC, HE, H9, H0, HC, HB, HF, HB]
        [H5, H8, H7, H9, HD, HB, H3, H0]
        [H0, HD, HD, H6, HC, HA, HF, H7]
        [H4, H0, H5, H8, HB, HC, H1, H3]
        [H3, HB, H7, H2, HB, HE, H6, H9]
        [H1, H4, H9, H3, HD, HF, H5, H5]
        [H6, HE, H7, H4, H5, H2, HA, HD]
        [HA, H9, HA, H0, HA, HC, HB, HA]
        [H5, H2, H8, H7, H0, H5, H8, H2]
        [H4, HF, H9, H2, H4, H0, H3, H5]
        [HA, HD, H6, H8, HC, H2, HA, H0]
        [HB, HF, HD, H6, H6, HB, H9, HE])
     (T16 [H2, H6, H4, H1, HC, HD, H8, H6]
        [H0, H0, H9, H6, H8, H4, H7, HD]
        [H4, HA, H0, HC, HE, H0, H8, H6]
        [HE, HE, HD, H8, H1, HA, H7, H2]
        [H2, HA, HE, HF, HF, H3, HF, H4]
        [HC, H8, HD, HA, H7, H8, H8, HE]
        [H6, H0, H0, HE, HC, H8, H5, HB]
        [H6, HB, H6, HD, H4, HF, HA, H7]
        [HC, H7, HE, H1, HE, HC, HA, HA]
        [HC, HE, HF, H5, H7, H3, H3, HD]
        [H9, H9, H3, HA, H8, H7, HE, HC]
        [H2, H4, HA, H2, HB, H6, H0, H4]
        [H5, H3, HE, H9, HE, HF, H0, H2]
        [H9, HB, H5, H8, H3, HF, H9, HD]
        [HB, HA, H7, HD, H9, H3, HE, HE]
        [HB, H8, HE, H4, H2, H1, HB, H3])
     (T16 [H7, HF, HA, HF, H9, HC, HD, H1]
        [H6, H5, H8, H1, HD, H6, HB, H4]
        [H1, H3, H6, H6, H3, HA, H6, H2]
        [H2, HB, H7, H9, H3, HE, HA, HE]
        [H4, H7, HA, HF, HE, H6, HA, H3]
        [H2, H3, H3, H4, HB, H5, HD, HD]
        [H7, HF, H7, HE, H1, H4, H8, H6]
        [HB, HF, H0, H2, H8, H7, HA, HC]
        [HE, H4, H5, HF, HA, H0, HB, HF]
        [H7, H9, H3, HB, HE, HF, H8, HD]
        [HC, HA, H6, H5, H0, H4, H5, H4]
        [H7, H2, H5, H9, H8, H4, HA, HB]
        [HA, H3, HA, H3, H3, H5, H5, H5]
        [H7, H8, HD, H8, H3, H8, H0, H2]
        [H7, HB, H9, HA, HB, H6, HE, HF]
        [HB, H4, H5, H9, H6, H9, H0, HD])
     (T16 [HC, HB, H7, H6, H8, HA, H5, H5]
        [H8, H5, HA, H9, H5, H1, H1, HA]
        [H3, H6, H9, H2, H9, HA, HC, HC]
        [H3, H3, HB, HD, H1, HE, H9, H9]
        [H6, H5, HA, H4, HA, H2, H6, HA]
        [H9, HF, H5, H2, H1, H3, HF, H3]
        [HC, H1, HE, H7, H4, HF, HE, H5]
        [HC, H7, H1, H3, H9, H2, H0, H9]
        [H2, H0, H8, HE, H8, HF, HD, HF]
        [H0, H7, HF, H2, H7, H2, H4, H0]
        [HC, H5, H5, H1, HB, HB, H0, H8]
        [H3, HE, HC, H2, H8, H2, H5, H0]
        [H8, H4, H5, H1, H1, HC, H5, H9]
        [H2, H2, HD, H6, H6, HC, H4, HE]
        [HF, H3, H3, H1, H1, HC, H8, H4]
        [HC, HD, H6, H8, HF, H0, H7, HC])
     (T16 [HE, HE, H9, HC, H9, HF, H7, H0]
        [HF, H0, HF, H1, H4, H0, H1, H4]
        [H4, HA, H9, H7, H7, H4, H0, H4]
        [H7, H1, HE, H6, H8, H8, HD, H5]
        [HB, HE, H1, H5, HF, H5, H2, H3]
        [H1, HD, H0, HC, HB, H9, H5, HD]
        [HF, H8, H1, HC, HC, HB, H2, HF]
        [H4, H6, H5, H3, H1, H1, H1, H4]
        [H4, H3, H8, H7, HB, H7, H5, H2]
        [H0, H6, HC, H9, HA, H2, H0, H6]
        [H3, HA, H8, HE, H8, HF, HF, HD]
        [HB, H1, HC, H6, H3, H6, HF, H1]
        [H2, HC, H4, HB, H2, H1, HE, H0]
        [HE, H9, H2, H3, H1, HE, H2, H0]
        [H1, HD, HF, H4, H6, H6, HF, HA]
        [H5, H1, H1, H8, H1, HD, HA, HC])
     (T16 [H0, HE, H5, H9, H3, H2, HB, H6]
        [H1, HE, H2, H9, HE, H3, H3, H3]
        [H2, H6, HB, H0, H4, H2, HB, H3]
        [H2, H2, H9, HB, HE, HB, HE, HE]
        [HE, H0, H2, HA, H2, HB, H5, H8]
        [H9, H9, HD, H0, HA, HB, H6, HE]
        [HC, H8, HC, H0, H2, H7, HE, HD]
        [H8, H2, H7, HF, H2, HA, HD, H2]
        [H5, H4, H8, H7, H2, H1, H0, HD]
        [HD, HF, H4, H9, H7, HB, H5, H9]
        [H2, H6, H8, H0, HD, H7, H4, H6]
        [H0, HF, H5, HF, HC, HC, H7, HE]
        [HF, H6, H3, HA, H9, H4, H4, H5]
        [HA, HF, H8, H4, HD, H7, H7, H8]
        [H7, H2, HD, HF, HD, H9, H3, HC]
        [HE, H1, HD, H8, HE, H3, H3, HF])
     (T16 [H1, H4, H3, H6, H7, H4, HA, H0]
        [H4, H7, HF, HF, HE, H2, H9, H9]
        [HB, HA, HE, H6, HF, H6, HA, H3]
        [H7, H3, HD, HF, H8, HF, H4, HF]
        [H0, H6, HC, HD, H2, H1, H8, HA]
        [H8, HF, HD, HD, HB, HE, H1, HA]
        [HC, H4, H1, HE, HB, H1, H9, H9]
        [HD, H0, HB, H6, HE, H6, HB, HD]
        [H0, H1, H5, H5, HB, H7, H6, HC]
        [H7, H3, HC, H2, H7, H6, HD, H6]
        [HB, H3, H4, HD, H5, H6, H7, H2]
        [H4, H0, H8, HE, H0, HD, HC, HD]
        [H7, HC, HD, H0, H9, H2, H1, HF]
        [H3, HA, HF, HF, H0, H0, HC, HC]
        [H2, H9, HF, H0, H9, H3, H5, HB]
        [HB, H0, HD, HE, HF, H0, H9, H6])
     (T16 [HB, HF, HF, H9, HB, H7, H6, H6]
        [HC, H9, HD, H7, HB, HD, HE, HC]
        [HB, H0, HF, HC, H1, H9, H0, HA]
        [H3, HA, HE, H5, H5, H1, H9, HD]
        [H8, H8, HF, H2, H3, H1, HB, HB]
        [H4, H2, HD, HA, HB, H5, H1, H5]
        [HF, HB, H9, H7, H4, H9, HB, H7]
        [HB, HE, H6, HD, HB, H3, H6, H7]
        [H3, HB, HE, H2, H9, H3, H7, H3]
        [H9, H7, H9, H5, H1, H1, HC, HC]
        [H7, H9, H2, HE, H6, H2, H0, H8]
        [HD, H2, H1, H3, HE, H2, H4, HF]
        [H7, HA, HD, HA, H2, H4, H8, H6]
        [HB, H3, HB, H2, HA, H6, H6, HC]
        [HC, HC, HC, H4, H5, H7, H2, H1]
        [HC, H1, H1, HF, HE, H2, H8, H7])
     (T16 [H7, H3, H2, H4, H2, H1, HA, H6]
        [H7, HE, H1, H5, H2, H9, H7, HB]
        [H6, HE, HB, HB, H1, HA, H6, H0]
        [H0, H5, H3, H6, HB, HF, HB, H4]
        [H8, H1, H0, H1, HB, H6, HA, H1]
        [HA, HF, HD, HE, HA, HC, H1, H1]
        [H8, HD, HD, HB, H5, H2, HD, H3]
        [H9, HC, H3, HC, H1, HE, H2, HE]
        [H9, H5, H6, H1, H2, H4, H4, H4]
        [H6, H8, H3, H1, H2, H1, HA, H0]
        [HE, H6, HC, HE, HC, H0, H9, HD]
        [HA, H2, HA, HE, HB, HA, H5, HD]
        [HE, H4, H7, H6, HF, HA, H4, H6]
        [HF, H5, H8, HA, H6, H8, HA, HD]
        [H8, H8, H9, HE, HF, HB, HE, HB]
        [HE, HF, H3, HC, H4, HE, H4, H6])
     (T16 [H7, H5, H0, H8, HC, HB, HD, H9]
        [H6, H8, H0, HC, H7, HF, H0, HF]
        [H8, HF, HB, H7, H8, H7, H0, H6]
        [HD, H4, H0, H6, H3, H0, H0, H6]
        [H6, H4, H3, H8, HD, HF, H1, HD]
        [H0, HB, HF, H1, H8, H3, H6, HF]
        [H4, H0, HE, HA, H5, H4, H7, H7]
        [HC, HC, HC, HF, H6, H3, H7, HD]
        [H3, H3, HB, H6, H2, H4, H3, H8]
        [H1, H7, HB, HA, HE, H1, H0, HF]
        [H7, H8, H1, H4, H0, H8, H0, HB]
        [HF, H5, HE, H5, H0, H0, HC, H3]
        [HE, HB, H7, H5, H0, HA, H7, H7]
        [H4, H2, HE, HA, H8, HE, HD, HB]
        [H9, H9, H2, H4, H6, H4, H5, H5]
        [H1, H6, HE, H2, H8, H5, HF, HB])
     (T16 [HF, H8, H4, HF, H8, H5, HE, H4]
        [H2, HA, HD, HF, HD, HD, H2, HF]
        [H8, H3, HF, HE, H4, H7, H4, HF]
        [H2, HC, HD, HB, H9, H8, H7, H8]
        [H3, HC, H9, HF, H6, H6, H3, H5]
        [H4, H7, HE, H8, H3, HB, H8, HC]
        [H5, H5, H2, HF, H5, H7, H4, HB]
        [H9, HB, H9, HD, HC, HF, H6, H4]
        [H1, H6, H6, H2, HB, HE, HA, H7]
        [H4, H8, HF, HD, HD, H1, HB, H8]
        [H9, H7, HE, H0, HA, H6, H4, H8]
        [H2, HE, H5, H9, HF, H5, H1, H9]
        [HE, H8, H9, H5, HE, H6, H6, H4]
        [H0, H7, H7, H5, H4, HB, H0, H2]
        [H1, H9, H5, H5, H5, HD, HC, H8]
        [HC, H4, HE, HD, H2, H0, H9, HC])
     (T16 [H1, HE, HC, HA, HB, H0, H9, HB]
        [H0, HD, H5, H0, H2, H8, HB, HB]
        [H8, H4, H2, H6, H8, HA, H1, H1]
        [HE, H9, H9, HA, H4, H7, H5, H7]
        [H6, HB, H9, H1, HF, H7, H7, HB]
        [H9, H0, HC, HD, H9, HA, H0, HE]
        [H1, HA, H9, H0, HD, H2, H6, H6]
        [H3, H3, H6, H4, H2, H3, H4, HC]
        [H2, H0, HF, H1, HA, H5, H8, HE]
        [HC, H8, HE, HB, H0, HF, H9, H0]
        [H5, H2, H0, HA, H9, H9, HA, H4]
        [H0, H1, HE, HF, HE, H6, HD, H1]
        [HD, H1, HD, H3, H9, HB, HA, H1]
        [HF, HD, H4, HA, H5, HA, HB, H0]
        [HF, H0, H2, HF, H6, H8, H1, HA]
        [H9, H6, H1, HF, H8, H6, H8, H2])
     (T16 [H3, H8, HA, HD, H7, HB, HC, HD]
        [HE, HF, H6, H0, H9, H3, H7, H5]
        [HB, H9, HE, HC, H2, HE, H1, HA]
        [H2, H5, HF, H7, HD, HC, HF, H4]
        [H1, H0, HE, H5, H1, H1, H0, H5]
        [HA, HF, H3, H8, H6, H0, H7, HA]
        [H4, HC, H5, HB, H2, H0, H0, HA]
        [H7, H2, H0, HD, H6, HE, HD, H0]
        [H7, H2, HC, H8, H8, HF, HA, H9]
        [H1, H4, H6, H8, HF, H3, H7, H7]
        [H6, H0, HC, H4, H0, H6, H3, HC]
        [H5, HB, H6, H0, H8, HA, H1, H6]
        [H8, H2, HA, H7, H7, H1, H0, HF]
        [H0, HE, H6, H8, H5, HF, H0, HC]
        [HA, HA, H8, H5, H0, H6, H0, H0]
        [H2, H6, HD, H7, HC, HD, H0, H3])
     (T16 [H7, HD, HE, H9, H6, HE, H1, H1]
        [H3, H6, HA, HE, H8, H3, H3, H2]
        [H4, H9, HD, HD, H2, HC, H3, H5]
        [H4, H3, H6, H1, H2, HC, H2, HC]
        [H6, H5, HE, HE, HB, HC, HB, HB]
        [HE, HD, H6, HB, HC, HB, H0, H9]
        [H1, HA, HD, H7, HC, HF, HB, HE]
        [H6, H7, HD, H1, H9, H5, HE, HC]
        [H9, H0, H4, HE, H5, H0, HF, H6]
        [H8, H8, H1, H0, HC, H7, HB, H4]
        [HD, H3, HA, H0, H2, H7, H9, H3]
        [H4, H2, HC, H7, H2, H9, HC, H7]
        [HF, H5, H2, H7, H3, HE, H6, H8]
        [H9, HB, HD, H9, HD, H4, H2, H7]
        [H4, HB, HB, H5, H1, HC, HA, H1]
        [HC, HF, H8, HB, HE, H9, H3, HD])
     (T16 [H8, H7, H5, H5, H4, H5, HD, HE]
        [H5, HB, H5, HA, HC, HF, H8, H0]
        [H3, HD, HC, H7, HD, H3, H8, HD]
        [H4, HC, HF, H0, HD, HA, HD, H4]
        [HE, H5, HF, HE, H0, H5, HE, H1]
        [H8, HF, H6, HE, H1, H6, H1, HB]
        [H9, HD, H4, H1, H5, H8, H2, HA]
        [HC, H3, H3, H1, H1, H5, HC, H6]
        [H7, HE, H7, HC, H5, HD, HF, H6]
        [H4, HC, HE, H4, H1, HE, H6, H5]
        [HE, HC, HF, HB, HA, H2, H6, H3]
        [H7, H3, H8, HC, H6, HC, HD, HD]
        [H4, H3, H2, H3, HA, H9, H7, HD]
        [H2, H1, H2, H8, H3, H6, H2, H9]
        [HE, H8, HA, HF, HE, H0, H7, H6]
        [H0, HE, H0, H0, H0, H6, H0, H4]))"

definition fS3 :: tab where
  "fS3 =
    (T16
     (T16 [H7, H3, HE, HC, H9, H3, HA, H3]
        [HF, HC, H5, HF, HA, HF, H3, HD]
        [H7, H3, H7, H7, H2, HC, HB, HA]
        [HB, H1, HD, H2, H5, HC, HA, H5]
        [HE, H9, H7, H6, H0, HB, HC, H5]
        [H2, H4, H7, H3, H3, HA, HF, H4]
        [H0, H4, H7, H2, H2, H8, H3, HD]
        [HE, HB, HB, H9, HC, HB, H9, H9]
        [HD, H9, HE, H8, H1, H1, H5, HD]
        [H5, H1, H3, H7, HF, H0, HF, HB]
        [HE, H7, HC, H1, HD, H2, H6, HD]
        [HB, H7, H4, HC, H0, H0, H7, HC]
        [HB, H6, HB, H1, HC, H8, H7, HB]
        [H5, H4, H0, H9, H1, HA, H1, H2]
        [HE, HB, H1, HB, HE, H6, H2, HB]
        [H4, HB, HE, H6, H6, H3, HA, H6])
     (T16 [HF, H2, HB, HA, H8, H4, H7, H5]
        [H9, H7, HE, H6, H4, H9, HC, HB]
        [H2, HD, H6, H7, H3, HA, H6, HC]
        [H8, HC, H2, HC, H9, H4, H5, H6]
        [HE, HE, H8, HF, HF, H0, H3, H5]
        [HD, H7, HE, HD, HD, H8, H6, H4]
        [HD, H1, HA, H0, H3, H7, H5, HD]
        [H6, HC, HD, H4, H0, HD, HC, H4]
        [HB, HD, HB, HB, H9, H3, H9, H2]
        [H0, H5, H6, H4, HA, HB, H9, HA]
        [H8, HE, H6, H2, H5, H9, HC, HA]
        [H4, H0, H3, HE, HE, H5, HE, HB]
        [H0, HF, H5, HD, HA, HF, H1, HA]
        [HA, H9, H1, H5, HD, H2, HA, H6]
        [H2, HE, HC, H8, HF, HE, H3, H6]
        [H2, H2, HE, HE, H6, H8, HA, H9])
     (T16 [H8, HB, H2, HC, H9, H8, H0, HC]
        [H6, HF, HE, H2, H4, H2, H3, H4]
        [HA, HA, H3, H0, HE, H1, H5, HA]
        [H4, HA, H0, HD, H2, HF, HC, H9]
        [HA, HB, H1, H6, H0, HC, H3, H8]
        [HD, H4, HA, H6, H9, HE, HB, H9]
        [H0, H5, H5, H1, H5, HE, HF, H8]
        [H6, HD, HB, H5, H4, H6, HA, HB]
        [H9, HF, H2, HA, H6, H2, H8, H2]
        [H1, HE, HA, H3, HA, H3, H7, HA]
        [H6, H8, H5, H9, H9, HA, HB, H4]
        [H9, HE, H2, H6, H5, H5, HF, HE]
        [H3, HD, HF, HE, HF, H2, H7, HC]
        [HA, HD, H7, HF, H2, H5, H7, HF]
        [H9, H6, HF, H6, H4, H0, HF, H3]
        [H9, H5, HA, H0, HA, HF, H7, H7])
     (T16 [H5, H1, H9, HA, H4, HE, H0, H8]
        [H1, H0, H6, H8, H0, HB, H7, H8]
        [HD, HA, H6, HE, H9, H0, HB, H9]
        [H3, H9, H5, HE, HE, H3, HB, H3]
        [HA, H5, HD, HF, H0, H9, H9, HE]
        [H7, H9, H7, HD, H4, H3, HE, H9]
        [H9, HD, H7, HB, H0, HF, HC, H2]
        [H1, H5, HB, H8, HB, H2, H2, H0]
        [HA, H3, HC, HA, H5, HD, H6, H9]
        [HD, H7, H6, HA, HD, H7, H1, H0]
        [H6, HD, HE, H3, HF, HC, H1, HD]
        [H8, H2, HD, H2, HD, H7, HC, H7]
        [HF, HC, H5, H2, HF, H9, HF, H1]
        [HB, H9, H8, HB, H2, HF, HD, HA]
        [H2, H7, H4, HB, H6, HD, HA, H5]
        [HC, H4, H5, HF, H8, H8, HA, H5])
     (T16 [H1, H7, HC, HA, H9, H2, H0, HE]
        [H6, HE, H5, HA, H9, H1, H0, HE]
        [HD, HF, HC, HA, H0, HB, H7, H4]
        [HB, H9, HA, HF, H3, H9, HD, HE]
        [HD, H8, H4, HC, H3, HD, H8, HE]
        [HC, HC, H7, H5, HB, H3, H8, H2]
        [H9, H2, H6, H6, H5, HD, H8, HF]
        [H8, H2, HE, H2, H3, H1, H9, H7]
        [H1, H9, H1, H0, HF, H5, H8, H7]
        [H5, H5, H0, H6, H5, H7, HD, HE]
        [H4, H4, HE, H0, H6, H9, H7, HF]
        [HC, H8, HE, H5, H3, HD, H3, HE]
        [H4, HD, HD, H6, H5, H0, H5, H1]
        [HA, HB, HD, H6, H4, HF, H8, H8]
        [H5, H2, H1, H6, H1, HA, H3, H0]
        [HD, HB, H0, HF, H4, H6, H5, H0])
     (T16 [H5, H1, HE, H9, HB, HE, H3, HC]
        [H2, HA, H7, H5, H0, H9, HC, H3]
        [HC, HE, HA, H1, H7, H2, H7, H9]
        [HA, H2, H7, H0, HA, H3, H9, HA]
        [HB, H9, HD, H6, HF, H3, HB, H1]
        [H5, HF, H1, H2, H3, H6, HE, H1]
        [HB, HF, H6, H6, HC, H9, H5, HF]
        [H9, H1, H3, HF, HC, HD, H6, H2]
        [H8, H2, H9, HD, H3, H3, H5, H7]
        [H5, HF, HD, HF, H5, H5, H1, HB]
        [H2, H8, H4, H3, H6, H5, H3, H0]
        [HB, HB, HC, H3, HA, HB, HA, H8]
        [H1, H1, H7, H7, H1, H5, H8, H2]
        [H8, HF, H9, HD, HA, H0, H2, HC]
        [H7, H6, H1, H5, HC, HC, HB, HA]
        [HF, H5, H2, H9, HD, HA, HC, HC])
     (T16 [H1, H5, H7, H1, H8, HE, HD, H4]
        [HE, H8, HC, HD, H0, H3, H8, H3]
        [H2, H6, H8, H5, HD, H9, H7, H3]
        [H1, H9, H9, HF, H0, H2, H3, H9]
        [H2, HC, H0, H9, HA, H7, HA, HE]
        [HE, HC, HB, H7, HE, H3, HB, HF]
        [H4, H6, HE, HC, H1, H2, H1, H5]
        [H2, H3, HE, HB, HF, H4, H7, H7]
        [HE, H7, H3, HE, H6, HB, H8, HA]
        [H6, H4, HD, H3, H9, H2, H3, HC]
        [H9, H6, H3, H5, HE, HD, H8, H4]
        [H0, H8, H6, HE, H3, H1, H4, H6]
        [H0, H1, H8, H0, HE, HA, H2, HA]
        [H4, H2, H2, HB, HD, H6, HD, HD]
        [HD, HF, HD, H2, H5, H8, H9, H6]
        [H6, H6, H1, H2, H7, H0, H9, H0])
     (T16 [HA, H0, H6, H4, HA, H9, H3, HB]
        [HD, HD, H0, HC, H5, H4, H4, H6]
        [HF, HC, HE, HD, HC, H6, H8, H5]
        [HE, HA, H8, HC, H0, H2, HC, H1]
        [HD, HD, H7, HF, HE, HB, HB, H5]
        [H0, H4, HD, H8, H8, H5, HB, H1]
        [HF, H7, H1, H0, H2, HD, HC, HC]
        [HB, HB, H3, HE, H4, HB, HB, H6]
        [HE, H7, HA, H6, H2, HA, HD, HD]
        [H5, H4, HF, HF, H9, H5, HA, H3]
        [H4, H4, HA, H0, H5, H3, HE, H3]
        [H5, HD, HD, HC, H4, HB, HC, HB]
        [H8, HA, HE, HC, HA, HE, H2, H7]
        [HB, HB, H4, H8, H4, H6, HA, HF]
        [HE, HA, H2, H1, H6, H6, HD, H8]
        [H7, H4, HF, H6, HC, H3, HF, HB])
     (T16 [H3, H6, H4, HE, HB, H9, H2, HD]
        [HE, H9, HD, H5, HF, H2, H4, H5]
        [HB, H1, H7, H7, H2, HC, HE, HA]
        [H0, H7, H3, H6, HE, H4, H6, HF]
        [HD, H8, HD, H0, HE, H0, H4, H7]
        [H7, H5, H3, H1, HB, H5, H7, HE]
        [H1, H7, H6, H1, H2, H7, H8, HF]
        [HD, H5, HD, H7, H3, H5, HF, HA]
        [H8, H0, HB, HC, H0, H4, H0, H4]
        [HC, HC, H2, HE, H4, HB, HE, H4]
        [HA, H6, H6, H4, H2, HD, H4, H3]
        [H4, H8, HF, HA, H5, H1, H1, H0]
        [H8, H2, H4, H0, H0, HB, H1, HE]
        [HD, H1, HA, H3, H8, H9, H5, H9]
        [H4, HB, HF, H9, H8, HB, H6, H0]
        [H8, H4, H0, HA, HE, H6, HE, HC])
     (T16 [H2, H8, HB, H3, HF, H3, HF, H6]
        [H2, H8, HB, HA, H0, H2, H5, H3]
        [HB, H4, HD, H1, HA, H1, H1, H0]
        [H8, HF, H7, H2, H2, H7, H7, H2]
        [H1, HB, H0, H6, H5, H1, H1, H6]
        [HC, HD, HF, H3, H3, H9, H7, HE]
        [HB, H2, H9, H7, HA, H3, HB, HB]
        [HD, HB, H5, H2, H5, H4, H4, H3]
        [H1, HE, H9, H3, H8, H8, H0, HA]
        [HB, H4, H9, H7, HE, HC, H1, H5]
        [H7, HB, H9, HC, H2, H3, HF, H2]
        [H9, HC, HA, HB, HF, H1, H0, HA]
        [HE, H7, H8, HC, HC, H1, H0, HE]
        [H6, HF, H1, HD, H7, HC, HC, HB]
        [H3, HC, H1, H1, H1, H0, HF, HC]
        [H7, HC, HA, HA, H8, HE, H1, HA])
     (T16 [H9, H4, H7, H8, H0, H9, HA, H1]
        [HA, H9, HD, HB, HF, H4, H4, HD]
        [HB, HC, HE, HD, HA, HD, H0, HD]
        [H8, H3, HA, HD, HA, H0, H5, HD]
        [HA, H2, H3, HC, H9, H3, H3, H0]
        [H7, H6, H6, H3, H1, H9, H6, HC]
        [HC, H7, H1, H3, H9, HF, HD, H8]
        [HF, H4, HB, H2, H1, HB, H0, HE]
        [H7, HB, H9, H5, HE, H9, H7, HF]
        [HA, H3, HB, HB, H5, HF, H3, H4]
        [HF, HF, H9, H1, H5, HD, H2, HF]
        [HC, H9, H5, H4, H9, HD, H7, H2]
        [HC, H2, H2, H2, H7, H9, HF, HB]
        [HA, H2, HC, HF, H6, HE, H5, H1]
        [H1, H7, HC, HF, H1, H9, HF, H0]
        [H5, H2, H5, H1, H4, H9, HB, H9])
     (T16 [H1, H6, H3, H9, H5, HE, HA, HF]
        [HB, HE, HC, H9, H6, HB, HE, HC]
        [H9, H5, H4, H6, H8, HA, H2, HC]
        [H1, HD, H8, HA, HA, HB, H2, H1]
        [HE, H5, H7, H0, H1, HC, H6, HB]
        [HC, H0, HA, H6, H5, H0, H3, HE]
        [H5, H6, H0, H5, H2, HD, H0, H1]
        [H2, H4, H4, HA, H3, H0, HB, HC]
        [HE, H0, HE, H6, HC, HE, H0, HE]
        [HB, H3, HB, HD, H8, H9, H6, H1]
        [HE, HB, H0, HA, H8, H9, HC, H4]
        [H4, H6, H9, HE, H8, H7, H2, H3]
        [H2, H3, H5, H9, HF, H1, HF, H9]
        [HF, HD, H2, H9, H3, HD, H0, HE]
        [HB, H2, H4, H3, H0, HA, H3, HD]
        [HE, H1, H2, HF, H1, H7, H9, H8])
     (T16 [H1, H4, H4, H7, HA, H0, HB, H1]
        [HC, H8, H4, H3, H3, HA, HB, H4]
        [H0, H2, H1, H7, HE, HB, H5, HC]
        [H8, HD, H2, H3, H6, H7, H3, HC]
        [HD, H8, HF, H9, H5, H3, HF, HD]
        [HE, H2, HF, H2, H9, H9, HB, H9]
        [H7, H4, HF, H6, HB, H0, H6, HE]
        [HD, H1, H1, HF, H3, HE, HF, H0]
        [H4, H5, HA, HD, HC, H4, H5, HE]
        [H1, H9, H8, HD, HA, HD, HE, H1]
        [HF, HC, H9, H7, H2, H6, HE, HC]
        [HF, H6, HE, H7, HE, H3, HD, HC]
        [H6, H6, H1, HB, H8, H1, H6, H1]
        [H5, H0, HD, H1, HC, H2, HD, HF]
        [H5, HC, H2, HD, HF, H8, H4, H8]
        [H9, H9, H2, H2, HB, HF, H6, HF])
     (T16 [H7, H5, H3, HF, H3, H2, H5, HF]
        [H3, H2, H6, H7, H2, H3, H6, HA]
        [H1, H3, H5, H3, H8, HA, H3, H9]
        [H2, H0, HD, HC, HC, HC, H6, H5]
        [H2, H6, H1, H8, H0, HF, HC, HA]
        [H5, HB, HB, HE, H5, H7, HA, H5]
        [H7, H9, H6, H3, H6, H1, HE, H6]
        [HC, HC, H3, H7, H2, HD, H8, H8]
        [H2, H9, H2, H6, H6, H9, HE, HD]
        [H0, HD, H9, H4, H9, HB, H1, H8]
        [HB, H1, H0, H9, H0, H5, HC, H4]
        [H4, H1, H6, H5, H6, HC, H1, H7]
        [HD, HB, H7, HC, H6, HC, H6, HE]
        [HA, H0, H4, H1, HA, H7, H2, H3]
        [H6, H0, H0, HD, H1, HE, H5, H4]
        [HA, H9, HB, H7, H2, HF, H3, HC])
     (T16 [HD, HF, H3, H5, HA, HA, H9, HC]
        [H0, H0, HF, H0, H8, HA, H2, H6]
        [H2, HE, HF, HB, H5, H2, HB, HB]
        [H6, HF, H2, HD, HD, HB, H5, H3]
        [H5, H0, H9, H6, H2, H1, H1, H7]
        [H2, H2, H2, H0, H4, H0, H2, HB]
        [HC, H7, HF, HC, HB, HC, H6, HB]
        [HB, H2, HC, H9, H6, H7, HD, HC]
        [H0, HC, HE, H3, H1, H1, H3, H5]
        [H3, HD, H3, HE, H0, H4, H6, H1]
        [H0, H6, HD, HB, HB, HA, H8, H3]
        [H0, HF, HD, HA, H7, H4, H5, H2]
        [HC, H9, H0, H2, H8, H3, HA, HB]
        [H6, H7, HE, HC, H6, H4, H7, HF]
        [H5, HC, H1, HA, HF, HA, H7, H7]
        [H0, H6, H0, H6, H5, H7, H0, H2])
     (T16 [HE, H4, HE, HF, HB, HC, H5, H8]
        [H8, HD, HD, H8, H8, HE, HA, H8]
        [H0, HB, H9, HF, HA, HA, HA, H7]
        [HE, H7, HA, HA, H9, HF, HC, H4]
        [HC, H5, H2, HC, H8, H4, H9, H1]
        [HC, H8, HA, H8, HB, HF, H2, H0]
        [H4, HE, HA, H6, H3, HC, H1, H0]
        [H9, HF, H1, HE, HB, HE, H6, HD]
        [H9, H6, H8, HF, H4, HD, H0, H9]
        [H0, HA, HE, HD, HC, H5, H6, HA]
        [HD, H2, H5, H2, H9, H0, HF, H3]
        [HF, H9, H6, HE, H8, H0, H2, HC]
        [H2, H3, H1, H6, HE, H4, H7, HB]
        [HB, H5, H2, HE, H7, H7, HE, HC]
        [H3, HE, HF, HD, HF, H8, H7, H5]
        [H6, HE, H2, H7, H3, HC, HA, H3]))"

definition fstate0 :: fstate where
  "fstate0 = FS fP0 fS0 fS1 fS2 fS3"

section \<open>Auxiliary lemmas\<close>

lemma bit_byte_of: "bit (byte_of w k) n \<longleftrightarrow> n < 8 \<and> bit w (8 * k + n)"
  by (auto simp add: byte_of_def bit_simps)

lemma bit_word_of_bytes:
  "bit (word_of_bytes m3 m2 m1 m0) n \<longleftrightarrow>
     (if n < 8 then bit m0 n
      else if n < 16 then bit m1 (n - 8)
      else if n < 24 then bit m2 (n - 16)
      else bit m3 (n - 24))"
  by (auto simp add: word_of_bytes_def bit_simps dest: bit_imp_le_length)

lemma word_of_bytes_byte_of:
  "word_of_bytes (byte_of w 3) (byte_of w 2) (byte_of w 1) (byte_of w 0) = w"
proof (rule bit_word_eqI)
  fix n :: nat
  assume "n < LENGTH(32)"
  then show "bit (word_of_bytes (byte_of w 3) (byte_of w 2) (byte_of w 1) (byte_of w 0)) n
               = bit w n"
    by (auto simp add: bit_word_of_bytes bit_byte_of)
qed

lemma word_of_bytes_byte_of_Suc:
  "word_of_bytes (byte_of w 3) (byte_of w 2) (byte_of w (Suc 0)) (byte_of w 0) = w"
  using word_of_bytes_byte_of [of w] by simp

lemma byte_of_word_of_bytes:
  "byte_of (word_of_bytes m3 m2 m1 m0) 0 = m0"
  "byte_of (word_of_bytes m3 m2 m1 m0) (Suc 0) = m1"
  "byte_of (word_of_bytes m3 m2 m1 m0) 2 = m2"
  "byte_of (word_of_bytes m3 m2 m1 m0) 3 = m3"
  by (rule bit_word_eqI; auto simp add: bit_word_of_bytes bit_byte_of dest: bit_imp_le_length)+

lemma from_memory_to_memory: "from_memory pf (to_memory pf w) = w"
  by (cases "host_order pf") (simp_all add: from_memory_def to_memory_def word_of_bytes_byte_of_Suc)

lemma list4: "length m = 4 \<Longrightarrow> m = [m ! 0, m ! 1, m ! 2, m ! 3]"
  by (auto simp add: eval_nat_numeral length_Suc_conv)

lemma to_memory_from_memory:
  assumes "length m = 4"
  shows "to_memory pf (from_memory pf m) = m"
  using list4 [OF assms]
  by (cases "host_order pf")
     (simp_all add: from_memory_def to_memory_def byte_of_word_of_bytes)

lemma length_to_memory: "length (to_memory pf w) = 4"
  by (cases "host_order pf") (simp_all add: to_memory_def)


lemma xor_cancel_right: "(a XOR b) XOR b = (a :: u32)"
  by (simp add: xor.assoc)

lemma decrypt_rounds_undo_encrypt_rounds:
  "i \<le> 16 \<Longrightarrow>
   (case EncryptBlock_rounds pf st i (l, r) of
      (l16, r16) \<Rightarrow> DecryptBlock_rounds pf st 0 (r16 XOR pary st ! 17, l16 XOR pary st ! 16))
   = DecryptBlock_rounds pf st (16 - i) (r XOR pary st ! (i + 1), l XOR pary st ! i)"
proof (induction pf st i "(l, r)" arbitrary: l r rule: EncryptBlock_rounds.induct)
  case (1 pf st i left right)
  show ?case
  proof (cases "i < 16")
    case False
    with "1.prems" have "i = 16" by simp
    then show ?thesis
      by (simp add: EncryptBlock_rounds.simps [of pf st 16])
  next
    case True
    define left1 where "left1 = left XOR pary st ! i"
    define right1 where "right1 = right XOR Feistel pf st left1"
    have step: "EncryptBlock_rounds pf st i (left, right)
                  = EncryptBlock_rounds pf st (i + 1) (right1, left1)"
      using True by (simp add: EncryptBlock_rounds.simps [of pf st i] left1_def right1_def Let_def)
    have ih: "(case EncryptBlock_rounds pf st (i + 1) (right1, left1) of
                 (l16, r16) \<Rightarrow>
                   DecryptBlock_rounds pf st 0 (r16 XOR pary st ! 17, l16 XOR pary st ! 16))
              = DecryptBlock_rounds pf st (16 - (i + 1))
                  (left1 XOR pary st ! (i + 1 + 1), right1 XOR pary st ! (i + 1))"
      using True "1.hyps" [OF True left1_def right1_def] by simp
    have k: "17 - (16 - (i + 1)) = i + 1 + 1" and c: "16 - (i + 1) < 16"
      and n: "16 - (i + 1) + 1 = 16 - i"
      using True by simp_all
    have undo: "DecryptBlock_rounds pf st (16 - (i + 1))
                  (left1 XOR pary st ! (i + 1 + 1), right1 XOR pary st ! (i + 1))
                = DecryptBlock_rounds pf st (16 - i)
                    (right XOR pary st ! (i + 1), left XOR pary st ! i)"
      by (subst DecryptBlock_rounds.simps)
         (simp only: c k n if_True Let_def xor_cancel_right,
          simp add: right1_def left1_def xor.assoc xor.left_commute)
    show ?thesis
      by (simp only: step ih undo)
  qed
qed

lemma DecryptBlock_EncryptBlock:
  "DecryptBlock pf st (EncryptBlock pf st (l, r)) = (l, r)"
proof -
  obtain l16 r16 where e: "EncryptBlock_rounds pf st 0 (l, r) = (l16, r16)"
    by (cases "EncryptBlock_rounds pf st 0 (l, r)")
  have "DecryptBlock_rounds pf st 0 (r16 XOR pary st ! 17, l16 XOR pary st ! 16)
          = DecryptBlock_rounds pf st 16 (r XOR pary st ! 1, l XOR pary st ! 0)"
    using decrypt_rounds_undo_encrypt_rounds [of 0 pf st l r] by (simp add: e)
  also have "\<dots> = (r XOR pary st ! 1, l XOR pary st ! 0)"
    by (simp add: DecryptBlock_rounds.simps [of pf st 16])
  finally show ?thesis
    by (simp add: EncryptBlock_def DecryptBlock_def e xor_cancel_right)
qed


lemma int_rem_nonneg:
  "0 \<le> a \<Longrightarrow> 0 < b \<Longrightarrow> int_rem a b = Inr (a mod b)"
  by (cases "a = 0") (simp_all add: int_rem_def INT_MIN_def)

lemma int_div_nonneg:
  "0 \<le> a \<Longrightarrow> 0 < b \<Longrightarrow> int_div a b = Inr (a div b)"
  by (cases "a = 0") (simp_all add: int_div_def INT_MIN_def)

lemma GCD_loop_gcd:
  "0 \<le> a \<Longrightarrow> 0 < b \<Longrightarrow> GCD_loop a b = Inr (gcd a b)"
proof (induction a b rule: GCD_loop.induct)
  case (1 gcd_prev gcd_cur)
  have r: "int_rem gcd_prev gcd_cur = Inr (gcd_prev mod gcd_cur)"
    using "1.prems" by (rule int_rem_nonneg)
  show ?case
  proof (cases "gcd_prev mod gcd_cur = 0")
    case True
    then have "gcd gcd_prev gcd_cur = gcd_cur"
      using "1.prems" by (metis gcd_red_int gcd_0_int abs_of_pos)
    then show ?thesis
      by (subst GCD_loop.simps) (simp add: r True)
  next
    case False
    have "0 < gcd_prev mod gcd_cur"
      using False "1.prems" by (simp add: order_less_le)
    then have "GCD_loop gcd_cur (gcd_prev mod gcd_cur) = Inr (gcd gcd_cur (gcd_prev mod gcd_cur))"
      using "1.IH" [OF r False] "1.prems" by simp
    then show ?thesis
      by (subst GCD_loop.simps) (simp add: r False gcd_red_int [of gcd_prev gcd_cur])
  qed
qed

lemma GCD_helper_4: "0 \<le> n \<Longrightarrow> GCD_helper n 4 = Inr (gcd n 4)"
  by (simp add: GCD_helper_def GCD_loop_gcd)

lemma gcd_4_pos: "0 < gcd (n::int) 4"
  by (simp add: gcd_pos_int)

lemma key_byte_ok:
  assumes "0 \<le> i" "0 \<le> k" "i * 4 + k \<le> INT_MAX" "0 < n" "n \<le> int (length key)"
  shows "key_byte key n i k = Inr (key ! nat ((i * 4 + k) mod n))"
proof -
  have nn: "0 \<le> i * 4 + k" using assms by simp
  have "(i * 4 + k) mod n < n" using assms by simp
  then have "(i * 4 + k) mod n < int (length key)" using assms by linarith
  moreover have "0 \<le> (i * 4 + k) mod n" using assms by simp
  ultimately show ?thesis
    using assms by (simp add: key_byte_def int_rem_nonneg [OF nn])
qed


lemma nat_mod_int: "0 \<le> a \<Longrightarrow> 0 < n \<Longrightarrow> nat (a mod n) = nat a mod nat n"
  by (simp add: nat_mod_distrib)

lemma key_word_ok:
  assumes "0 \<le> i" "i * 4 + 3 \<le> INT_MAX" "0 < n" "n \<le> int (length key)"
  shows "key_word pf key n i = Inr (cyclic_word pf key (nat n) (nat i))"
proof -
  have b: "key_byte key n i k = Inr (key ! ((nat i * 4 + nat k) mod nat n))"
    if "0 \<le> k" "k \<le> 3" for k
  proof -
    have "i * 4 + k \<le> INT_MAX" using that assms by linarith
    then have "key_byte key n i k = Inr (key ! nat ((i * 4 + k) mod n))"
      using key_byte_ok [of i k n key] assms that by simp
    moreover have "nat ((i * 4 + k) mod n) = (nat i * 4 + nat k) mod nat n"
      using assms that by (simp add: nat_mod_int nat_add_distrib nat_mult_distrib)
    ultimately show ?thesis by simp
  qed
  show ?thesis
    using b [of 0] b [of 1] b [of 2] b [of 3]
    by (simp add: key_word_def cyclic_word_def)
qed

lemma fill_key_buffer_ok:
  "0 < n \<Longrightarrow> n \<le> int (length key) \<Longrightarrow> bl * 4 \<le> INT_MAX + 1 \<Longrightarrow>
   0 \<le> i \<Longrightarrow> i \<le> bl \<Longrightarrow> length buf = nat bl \<Longrightarrow>
         fill_key_buffer pf key n bl i buf
           = Inr (take (nat i) buf @ map (cyclic_word pf key (nat n)) [nat i..<nat bl])"
proof (induction pf key n bl i buf rule: fill_key_buffer.induct)
  case (1 pf key byte_length buffer_length i key_buffer)
  note n = \<open>0 < byte_length\<close> \<open>byte_length \<le> int (length key)\<close>
  note ov = \<open>buffer_length * 4 \<le> INT_MAX + 1\<close>
  show ?case
  proof (cases "i < buffer_length")
    case False
    with "1.prems" have "i = buffer_length" by simp
    then show ?thesis
      using "1.prems" by (subst fill_key_buffer.simps) simp
  next
    case True
    have "i * 4 + 3 \<le> INT_MAX"
      using True ov by linarith
    then have w: "key_word pf key byte_length i
                    = Inr (cyclic_word pf key (nat byte_length) (nat i))"
      using key_word_ok "1.prems" n by simp
    have s: "nat (i + 1) = Suc (nat i)" using "1.prems" by simp
    have lt: "nat i < nat buffer_length" using True "1.prems" by simp
    have "fill_key_buffer pf key byte_length buffer_length (i + 1)
            (key_buffer[nat i := cyclic_word pf key (nat byte_length) (nat i)])
          = Inr (take (nat (i + 1))
                   (key_buffer[nat i := cyclic_word pf key (nat byte_length) (nat i)])
                 @ map (cyclic_word pf key (nat byte_length)) [nat (i + 1)..<nat buffer_length])"
      using "1.IH" [OF True w] "1.prems" True by simp
    also have "\<dots> = Inr (take (nat i) key_buffer
                 @ map (cyclic_word pf key (nat byte_length)) [nat i..<nat buffer_length])"
      using lt "1.prems"
      by (simp add: s take_Suc_conv_app_nth upt_conv_Cons [of "nat i"])
    finally show ?thesis
      using True by (subst fill_key_buffer.simps) (simp add: w)
  qed
qed

lemma xor_key_ok:
  "0 < bl \<Longrightarrow> 0 \<le> i \<Longrightarrow> i \<le> 18 \<Longrightarrow> length p = 18 \<Longrightarrow>
         xor_key bl kb i p
           = Inr (take (nat i) p @ map (\<lambda>j. p ! j XOR kb ! (j mod nat bl)) [nat i..<18])"
proof (induction bl kb i p rule: xor_key.induct)
  case (1 buffer_length key_buffer i p)
  note pos = \<open>0 < buffer_length\<close>
  show ?case
  proof (cases "i < 18")
    case False
    with "1.prems" have "i = 18" by simp
    then show ?thesis
      using "1.prems" by (subst xor_key.simps) simp
  next
    case True
    have r: "int_rem i buffer_length = Inr (i mod buffer_length)"
      using "1.prems" by (simp add: int_rem_nonneg)
    have j: "nat (i mod buffer_length) = nat i mod nat buffer_length"
      using "1.prems" by (simp add: nat_mod_int)
    have s: "nat (i + 1) = Suc (nat i)" using "1.prems" by simp
    have lt: "nat i < 18" using True "1.prems" by simp
    let ?v = "p ! nat i XOR key_buffer ! (nat i mod nat buffer_length)"
    have "xor_key buffer_length key_buffer (i + 1) (p[nat i := ?v])
          = Inr (take (nat (i + 1)) (p[nat i := ?v])
                 @ map (\<lambda>j. p[nat i := ?v] ! j XOR key_buffer ! (j mod nat buffer_length))
                     [nat (i + 1)..<18])"
      using "1.IH" [OF True r] "1.prems" True by (simp add: j)
    also have "\<dots> = Inr (take (nat i) p
                 @ map (\<lambda>j. p ! j XOR key_buffer ! (j mod nat buffer_length)) [nat i..<18])"
      using lt "1.prems"
      by (simp add: s take_Suc_conv_app_nth upt_conv_Cons [of "nat i"])
    finally show ?thesis
      using True by (subst xor_key.simps) (simp add: r j)
  qed
qed


lemma length_initial_pary: "length initial_pary = 18"
  by (simp add: initial_pary_def)

lemma converter_word:
  "bit_32 pf (set_bytes pf b0 b1 b2 b3)
     = (if layout_matches_host pf then word_of_bytes b0 b1 b2 b3
        else word_of_bytes b3 b2 b1 b0)"
  by (cases "host_order pf")
     (auto simp add: bit_32_def set_bytes_def from_memory_def layout_matches_host_def)

lemma converter_bytes:
  "byte0 pf (set_bit_32 pf v) = (if layout_matches_host pf then byte_of v 3 else byte_of v 0)"
  "byte1 pf (set_bit_32 pf v) = (if layout_matches_host pf then byte_of v 2 else byte_of v 1)"
  "byte2 pf (set_bit_32 pf v) = (if layout_matches_host pf then byte_of v 1 else byte_of v 2)"
  "byte3 pf (set_bit_32 pf v) = (if layout_matches_host pf then byte_of v 0 else byte_of v 3)"
  by (cases "host_order pf";
      auto simp add: byte0_def byte1_def byte2_def byte3_def set_bit_32_def to_memory_def
        layout_matches_host_def)+

lemma make_key_buffer_ok:
  assumes "key \<noteq> []" "(int (length key) div gcd (int (length key)) 4) * 4 \<le> INT_MAX + 1"
  shows "make_key_buffer pf key (int (length key))
           = Inr (int (length key) div gcd (int (length key)) 4,
                  map (cyclic_word pf key (length key))
                    [0..<length key div gcd (length key) 4])"
proof -
  let ?n = "int (length key)"
  let ?bl = "?n div gcd ?n 4"
  have n: "0 < ?n" using assms by simp
  have g: "0 < gcd ?n 4" by (rule gcd_4_pos)
  have bl: "0 \<le> ?bl" using n g by (simp add: pos_imp_zdiv_nonneg_iff)
  have d: "int_div ?n (gcd ?n 4) = Inr ?bl"
    using n g by (simp add: int_div_nonneg)
  have natbl: "nat ?bl = length key div gcd (length key) 4"
    by (metis gcd_int_int_eq nat_int of_nat_numeral zdiv_int)
  have "fill_key_buffer pf key ?n ?bl 0 (replicate (nat ?bl) 0)
          = Inr (take (nat 0) (replicate (nat ?bl) 0)
                 @ map (cyclic_word pf key (nat ?n)) [nat 0..<nat ?bl])"
    using n bl assms(2) by (intro fill_key_buffer_ok) simp_all
  then have "fill_key_buffer pf key ?n ?bl 0 (replicate (nat ?bl) 0)
          = Inr (map (cyclic_word pf key (length key)) [0..<length key div gcd (length key) 4])"
    by (simp add: natbl)
  then show ?thesis
    using n bl by (simp add: make_key_buffer_def GCD_helper_4 d)
qed

lemma mix_key_ok:
  assumes "key \<noteq> []" "(int (length key) div gcd (int (length key)) 4) * 4 \<le> INT_MAX + 1"
  shows "mix_key pf this key (int (length key))
           = Inr (this\<lparr>pary := map (\<lambda>i. initial_pary ! i XOR
                                        cyclic_word pf key (length key)
                                          (i mod (length key div gcd (length key) 4)))
                                  [0..<18],
                         sbox := initial_sbox\<rparr>)"
proof -
  let ?n = "int (length key)"
  let ?bl = "?n div gcd ?n 4"
  let ?wc = "length key div gcd (length key) 4"
  let ?kb = "map (cyclic_word pf key (length key)) [0..<?wc]"
  have "gcd ?n 4 dvd ?n" by simp
  moreover have "0 < ?n" using assms by simp
  ultimately have bl: "0 < ?bl"
    by (metis gcd_4_pos dvd_div_eq_0_iff less_le pos_imp_zdiv_nonneg_iff less_irrefl)
  have natbl: "nat ?bl = ?wc"
    by (metis gcd_int_int_eq nat_int of_nat_numeral zdiv_int)
  then have wc: "0 < ?wc" using bl by linarith
  have "xor_key ?bl ?kb 0 initial_pary
          = Inr (take (nat 0) initial_pary
                 @ map (\<lambda>j. initial_pary ! j XOR ?kb ! (j mod nat ?bl)) [nat 0..<18])"
    using bl by (intro xor_key_ok) (simp_all add: length_initial_pary)
  also have "\<dots> = Inr (map (\<lambda>j. initial_pary ! j XOR
                              cyclic_word pf key (length key) (j mod ?wc)) [0..<18])"
    using wc by (simp add: natbl)
  finally show ?thesis
    by (simp add: mix_key_def make_key_buffer_ok [OF assms])
qed


lemma nth_doubled: 
  assumes "k \<noteq> []"
  shows "(k @ k) ! (j mod (2 * length k)) = k ! (j mod length k)"
proof -
  let ?L = "length k"
  have L: "0 < ?L" using assms by simp
  have m: "(j mod (2 * ?L)) mod ?L = j mod ?L"
    by (simp add: mod_mod_cancel)
  have lt: "j mod (2 * ?L) < 2 * ?L" using L by simp
  show ?thesis
  proof (cases "j mod (2 * ?L) < ?L")
    case True
    then show ?thesis using m by (simp add: nth_append)
  next
    case False
    then have "j mod (2 * ?L) - ?L < ?L" using lt by linarith
    then have "(j mod (2 * ?L) - ?L) mod ?L = j mod (2 * ?L) - ?L" by simp
    moreover have "(j mod (2 * ?L) - ?L) mod ?L = (j mod (2 * ?L)) mod ?L"
      using False by (simp add: le_mod_geq)
    ultimately show ?thesis using False m by (simp add: nth_append)
  qed
qed

lemma cyclic_word_doubled:
  "k \<noteq> [] \<Longrightarrow> cyclic_word pf (k @ k) (2 * length k) i = cyclic_word pf k (length k) i"
  by (simp add: cyclic_word_def nth_doubled)

lemma cyclic_index_periodic:
  fixes i q c :: nat
  shows "(i mod q * 4 + c) mod (4 * q) = (i * 4 + c) mod (4 * q)"
proof -
  have "i * 4 = (i div q * q + i mod q) * 4" by simp
  also have "\<dots> = i mod q * 4 + i div q * (4 * q)"
    by (simp only: add_mult_distrib mult.assoc mult.commute [of q 4] add.commute)
  finally have "i * 4 + c = i mod q * 4 + c + i div q * (4 * q)" by simp
  then show ?thesis
    by (simp only: mod_mult_self1)
qed

lemma cyclic_word_periodic:
  assumes "4 dvd n"
  shows "cyclic_word pf key n (i mod (n div 4)) = cyclic_word pf key n i"
proof -
  obtain q where q: "n = 4 * q" using assms by (auto elim: dvdE)
  have d: "n div 4 = q" using q by simp
  have "(i mod q * 4) mod (4 * q) = (i * 4) mod (4 * q)"
    using cyclic_index_periodic [of i q 0] by simp
  then show ?thesis
    unfolding cyclic_word_def d unfolding q
    by (simp only: cyclic_index_periodic)
qed

lemma gcd_4_cases:
  fixes n :: int
  shows "4 dvd n \<and> gcd n 4 = 4 \<or> \<not> 4 dvd n \<and> 2 dvd n \<and> gcd n 4 = 2
           \<or> \<not> 2 dvd n \<and> gcd n 4 = 1"
proof -
  have g: "gcd n 4 = gcd 4 (n mod 4)" by (metis gcd.commute gcd_red_int)
  have v: "gcd (4::int) 0 = 4" "gcd (4::int) 1 = 1" "gcd (4::int) 2 = 2" "gcd (4::int) 3 = 1"
    by (simp_all add: gcd_non_0_int)
  have "n mod 4 = 0 \<or> n mod 4 = 1 \<or> n mod 4 = 2 \<or> n mod 4 = 3"
    by presburger
  then consider "n mod 4 = 0" | "n mod 4 = 1" | "n mod 4 = 2" | "n mod 4 = 3"
    by blast
  then show ?thesis
  proof cases
    case 1
    then have "4 dvd n" by presburger
    then show ?thesis using 1 g v by simp
  next
    case 2
    then have "\<not> 2 dvd n" by presburger
    then show ?thesis using 2 g v by simp
  next
    case 3
    then have "\<not> 4 dvd n" "2 dvd n" by presburger+
    then show ?thesis using 3 g v by simp
  next
    case 4
    then have "\<not> 2 dvd n" by presburger
    then show ?thesis using 4 g v by simp
  qed
qed

lemma gcd_4_dvd: "4 dvd (n::int) \<Longrightarrow> gcd n 4 = 4"
proof -
  assume a: "4 dvd n"
  then have "2 dvd n" by presburger
  with a show ?thesis using gcd_4_cases [of n] by blast
qed

lemma gcd_4_even: "2 dvd (n::int) \<Longrightarrow> \<not> 4 dvd n \<Longrightarrow> gcd n 4 = 2"
  using gcd_4_cases [of n] by blast

lemma gcd_4_odd: "\<not> 2 dvd (n::int) \<Longrightarrow> gcd n 4 = 1"
proof -
  assume a: "\<not> 2 dvd n"
  then have "\<not> 4 dvd n" by presburger
  with a show ?thesis using gcd_4_cases [of n] by blast
qed


lemma key_byte_doubled:
  assumes "k \<noteq> []" "0 \<le> i" "0 \<le> c"
  shows "key_byte (k @ k) (2 * int (length k)) i c = key_byte k (int (length k)) i c"
proof (cases "i * 4 + c > INT_MAX")
  case True
  then show ?thesis by (simp add: key_byte_def)
next
  case False
  let ?L = "int (length k)"
  let ?j = "i * 4 + c"
  have L: "0 < ?L" using assms by simp
  have j: "0 \<le> ?j" using assms by simp
  have r2: "int_rem ?j (2 * ?L) = Inr (?j mod (2 * ?L))"
    using j L by (simp add: int_rem_nonneg)
  have r1: "int_rem ?j ?L = Inr (?j mod ?L)"
    using j L by (simp add: int_rem_nonneg)
  have b2: "0 \<le> ?j mod (2 * ?L)" "?j mod (2 * ?L) < int (length (k @ k))"
    using L by simp_all
  have b1: "0 \<le> ?j mod ?L" "?j mod ?L < ?L"
    using L by simp_all
  have n2: "nat (?j mod (2 * ?L)) = nat ?j mod (2 * length k)"
    using j L by (simp add: nat_mod_int nat_mult_distrib)
  have n1: "nat (?j mod ?L) = nat ?j mod length k"
    using j L by (simp add: nat_mod_int)
  have "(k @ k) ! nat (?j mod (2 * ?L)) = k ! nat (?j mod ?L)"
    unfolding n1 n2 using assms(1) by (rule nth_doubled)
  then show ?thesis
    using False b1 b2 by (simp add: key_byte_def r1 r2)
qed

lemma key_word_doubled:
  "k \<noteq> [] \<Longrightarrow> 0 \<le> i \<Longrightarrow>
   key_word pf (k @ k) (2 * int (length k)) i = key_word pf k (int (length k)) i"
  by (simp add: key_word_def key_byte_doubled cong: sum.case_cong)

lemma fill_key_buffer_doubled:
  "k \<noteq> [] \<Longrightarrow> 0 \<le> i \<Longrightarrow>
   fill_key_buffer pf (k @ k) (2 * int (length k)) bl i buf
     = fill_key_buffer pf k (int (length k)) bl i buf"
proof (induction pf k "int (length k)" bl i buf rule: fill_key_buffer.induct)
  case (1 pf key buffer_length i key_buffer)
  show ?case
  proof (cases "i < buffer_length")
    case False
    then show ?thesis
      by (simp add: fill_key_buffer.simps [of _ _ _ buffer_length i])
  next
    case True
    show ?thesis
    proof (cases "key_word pf key (int (length key)) i")
      case (Inl e)
      then show ?thesis
        using True "1.prems"
        by (simp add: fill_key_buffer.simps [of _ _ _ buffer_length i] key_word_doubled)
    next
      case (Inr w)
      have "fill_key_buffer pf (key @ key) (2 * int (length key)) buffer_length (i + 1)
              (key_buffer[nat i := w])
            = fill_key_buffer pf key (int (length key)) buffer_length (i + 1)
                (key_buffer[nat i := w])"
        using "1.hyps" [OF True Inr] "1.prems" by simp
      then show ?thesis
        using True "1.prems" Inr
        by (simp add: fill_key_buffer.simps [of _ _ _ buffer_length i] key_word_doubled)
    qed
  qed
qed

lemma mix_key_doubled:
  assumes "k \<noteq> []" "2 * int (length k) \<le> INT_MAX"
  shows "mix_key pf this (k @ k) (int (length (k @ k))) = mix_key pf this k (int (length k))"
proof -
  let ?L = "int (length k)"
  have L: "0 < ?L" using assms by simp
  have len: "int (length (k @ k)) = 2 * ?L" by simp
  have len': "length (k @ k) = 2 * length k" by simp
  show ?thesis
  proof (cases "4 dvd ?L")
    case True
    then have "gcd ?L 4 = 4" by (rule gcd_4_dvd)
    note four = True this
    from True have d4: "4 dvd length k" by presburger
    have "4 dvd 2 * ?L" using four by simp
    then have g2: "gcd (2 * ?L) 4 = 4"
      by (rule gcd_4_dvd)
    have gn: "gcd (length k) 4 = 4" "gcd (2 * length k) 4 = 4"
      using four(2) g2 by (metis gcd_int_int_eq of_nat_eq_iff of_nat_numeral of_nat_mult)+
    have o1: "(?L div gcd ?L 4) * 4 \<le> INT_MAX + 1"
      using four assms by simp
    have o2: "(int (length (k @ k)) div gcd (int (length (k @ k))) 4) * 4 \<le> INT_MAX + 1"
      unfolding len g2 using four assms by simp
    have kk: "k @ k \<noteq> []" using assms by simp
    have q: "2 * length k div 4 = 2 * (length k div 4)"
      using d4 by presburger
    have "cyclic_word pf (k @ k) (2 * length k) (i mod (2 * length k div 4))
            = cyclic_word pf k (length k) (i mod (length k div 4))" for i
    proof -
      have "cyclic_word pf (k @ k) (2 * length k) (i mod (2 * length k div 4))
              = cyclic_word pf k (length k) (i mod (2 * (length k div 4)))"
        using assms(1) by (simp add: cyclic_word_doubled q)
      also have "\<dots> = cyclic_word pf k (length k) ((i mod (2 * (length k div 4))) mod (length k div 4))"
        using d4 by (simp only: cyclic_word_periodic)
      also have "\<dots> = cyclic_word pf k (length k) (i mod (length k div 4))"
        by (simp add: mod_mod_cancel)
      finally show ?thesis .
    qed
    then have w: "cyclic_word pf (k @ k) (length (k @ k))
                (i mod (length (k @ k) div gcd (length (k @ k)) 4))
              = cyclic_word pf k (length k) (i mod (length k div gcd (length k) 4))" for i
      unfolding len' gn .
    show ?thesis
      unfolding mix_key_ok [OF kk o2] mix_key_ok [OF assms(1) o1]
      by (simp only: w)
  next
    case False
    have g2: "gcd (2 * ?L) 4 = 2 * gcd ?L 4"
    proof (cases "2 dvd ?L")
      case True
      then have "4 dvd 2 * ?L" by presburger
      then have "gcd (2 * ?L) 4 = 4" by (rule gcd_4_dvd)
      moreover have "gcd ?L 4 = 2" using True False by (rule gcd_4_even)
      ultimately show ?thesis by simp
    next
      case odd: False
      then have "\<not> 4 dvd 2 * ?L" by presburger
      then have "gcd (2 * ?L) 4 = 2" by (intro gcd_4_even) simp_all
      moreover have "gcd ?L 4 = 1" using odd by (rule gcd_4_odd)
      ultimately show ?thesis by simp
    qed
    have bl: "(2 * ?L) div (2 * gcd ?L 4) = ?L div gcd ?L 4"
      by simp
    show ?thesis
      using L assms(1)
      by (simp add: mix_key_def make_key_buffer_def GCD_helper_4 g2 int_div_nonneg
            gcd_4_pos bl fill_key_buffer_doubled)
  qed
qed


lemma xor_key_zero:
  "xor_key 0 kb 0 p = Inl (division_by_zero, p)"
  by (subst xor_key.simps) (simp add: int_rem_def)

lemma xor_key_nonzero:
  "bl \<noteq> 0 \<Longrightarrow> 0 \<le> i \<Longrightarrow> \<exists>p'. xor_key bl kb i p = Inr p'"
proof (induction bl kb i p rule: xor_key.induct)
  case (1 buffer_length key_buffer i p)
  show ?case
  proof (cases "i < 18")
    case False
    then show ?thesis by (subst xor_key.simps) simp
  next
    case True
    obtain j where r: "int_rem i buffer_length = Inr j"
      using "1.prems" by (auto simp add: int_rem_def INT_MIN_def)
    from "1.IH" [OF True r] "1.prems"
    obtain p' where "xor_key buffer_length key_buffer (i + 1)
                       (p[nat i := p ! nat i XOR key_buffer ! nat j]) = Inr p'"
      by auto
    then show ?thesis
      using True by (subst xor_key.simps) (simp add: r)
  qed
qed

lemma xor_key_fault:
  "xor_key bl kb 0 p = Inl (e, p') \<Longrightarrow> bl = 0 \<and> e = division_by_zero \<and> p' = p"
proof (cases "bl = 0")
  case True
  assume "xor_key bl kb 0 p = Inl (e, p')"
  with True show ?thesis by (simp add: xor_key_zero)
next
  case False
  assume "xor_key bl kb 0 p = Inl (e, p')"
  moreover obtain q where "xor_key bl kb 0 p = Inr q"
    using xor_key_nonzero [OF False, of 0 kb p] by auto
  ultimately show ?thesis by simp
qed

lemma mix_key_fault:
  assumes "mix_key pf this key n = Inl (e, st)"
  shows "st = this\<lparr>pary := initial_pary, sbox := initial_sbox\<rparr>"
proof (cases "make_key_buffer pf key n")
  case (Inl e')
  with assms show ?thesis by (auto simp add: mix_key_def)
next
  case (Inr b)
  obtain bl kb where b: "b = (bl, kb)" by (cases b)
  show ?thesis
  proof (cases "xor_key bl kb 0 initial_pary")
    case (Inl x)
    obtain e' p' where x: "x = (e', p')" by (cases x)
    from Inl x have "p' = initial_pary" using xor_key_fault by blast
    with assms Inr b Inl x show ?thesis by (auto simp add: mix_key_def)
  next
    case r: (Inr p')
    with assms Inr b show ?thesis by (simp add: mix_key_def)
  qed
qed

lemma SetKey_fault:
  "SetKey pf this key n = Inl (e, st) \<Longrightarrow> st = this\<lparr>pary := initial_pary, sbox := initial_sbox\<rparr>"
  by (cases "mix_key pf this key n") (auto simp add: SetKey_def dest: mix_key_fault)

lemma GCD_helper_0_4: "GCD_helper 0 4 = Inr 4"
  using GCD_helper_4 [of 0] by simp

lemma make_key_buffer_zero: "make_key_buffer pf key 0 = Inr (0, [])"
  by (simp add: make_key_buffer_def GCD_helper_0_4 int_div_def fill_key_buffer.simps [of _ _ _ 0 0])

lemma SetKey_zero_length:
  "SetKey pf this key 0
     = Inl (division_by_zero, this\<lparr>pary := initial_pary, sbox := initial_sbox\<rparr>)"
  by (simp add: SetKey_def mix_key_def make_key_buffer_zero xor_key_zero)

lemma initial_pary_not_zero: "initial_pary \<noteq> replicate 18 0"
proof
  assume "initial_pary = replicate 18 0"
  then have "initial_pary ! 0 = replicate 18 0 ! 0" by simp
  then show False by (simp add: initial_pary_def)
qed

lemma SetKey_doubled:
  assumes "k \<noteq> []" "2 * int (length k) \<le> INT_MAX"
  shows "SetKey pf this (k @ k) (int (length (k @ k))) = SetKey pf this k (int (length k))"
  unfolding SetKey_def mix_key_doubled [OF assms] ..

lemma SetKey_completes:
  assumes "key \<noteq> []" "(int (length key) div gcd (int (length key)) 4) * 4 \<le> INT_MAX + 1"
  shows "\<exists>st. SetKey pf this key (int (length key)) = Inr st"
  by (simp add: SetKey_def mix_key_ok [OF assms])

lemma word_count_le: "(n::int) div gcd n 4 \<le> n" if "0 \<le> n"
proof -
  have "1 \<le> gcd n 4" using gcd_4_pos [of n] by linarith
  then have "n div gcd n 4 \<le> n div 1"
    using that by (intro zdiv_mono2) simp_all
  then show ?thesis by simp
qed



lemma matches_x86: "layout_matches_host x86_default"
  by (simp add: layout_matches_host_def x86_default_def LITTLE_ENDIAN_defined_def)

lemma Feistel_matched:
  "layout_matches_host pf \<Longrightarrow>
   Feistel pf st x
     = ((sbox_at st 0 (byte_of x 3) + sbox_at st 1 (byte_of x 2)) XOR sbox_at st 2 (byte_of x 1))
        + sbox_at st 3 (byte_of x 0)"
  by (simp add: Feistel_def converter_bytes)

lemma Feistel_reads_sbox: "sbox st' = sbox st \<Longrightarrow> Feistel pf st' x = Feistel pf st x"
  by (simp add: Feistel_def sbox_at_def)

lemma byte_of_243F6A88:
  "byte_of 0x243F6A88 0 = 0x88" "byte_of 0x243F6A88 1 = 0x6A"
  "byte_of 0x243F6A88 2 = 0x3F" "byte_of 0x243F6A88 3 = 0x24"
  "byte_of 0x243F6A88 (Suc 0) = 0x6A"
  by (simp_all add: byte_of_def)

lemma initial_sbox_entries:
  "initial_sbox ! 36 = 0xE65525F3" "initial_sbox ! 319 = 0x183EB331"
  "initial_sbox ! 618 = 0x647D0862" "initial_sbox ! 904 = 0x4040CB08"
  "initial_sbox ! 136 = 0x5579C0BD" "initial_sbox ! 362 = 0x9EBABF2C"
  "initial_sbox ! 575 = 0xD096954B" "initial_sbox ! 804 = 0x83C061BA"
  by (simp_all add: initial_sbox_def)


lemma int_rem_neg_divisor: "0 \<le> a \<Longrightarrow> int_rem a (- b) = int_rem a b"
  by (simp add: int_rem_def INT_MIN_def)

lemma key_byte_neg_length:
  "0 \<le> i \<Longrightarrow> 0 \<le> k \<Longrightarrow> key_byte key (- n) i k = key_byte key n i k"
  by (simp add: key_byte_def int_rem_neg_divisor)

lemma key_word_neg_length:
  "0 \<le> i \<Longrightarrow> key_word pf key (- n) i = key_word pf key n i"
  by (simp add: key_word_def key_byte_neg_length cong: sum.case_cong)

lemma fill_key_buffer_neg_length:
  "0 \<le> i \<Longrightarrow>
   fill_key_buffer pf key (- n) bl i buf = fill_key_buffer pf key n bl i buf"
proof (induction pf key n bl i buf rule: fill_key_buffer.induct)
  case (1 pf key byte_length buffer_length i key_buffer)
  show ?case
  proof (cases "i < buffer_length")
    case False
    then show ?thesis
      by (simp add: fill_key_buffer.simps [of _ _ _ buffer_length i])
  next
    case True
    show ?thesis
    proof (cases "key_word pf key byte_length i")
      case (Inl e)
      then show ?thesis
        using True "1.prems"
        by (simp add: fill_key_buffer.simps [of _ _ _ buffer_length i] key_word_neg_length)
    next
      case (Inr w)
      have "fill_key_buffer pf key (- byte_length) buffer_length (i + 1)
              (key_buffer[nat i := w])
            = fill_key_buffer pf key byte_length buffer_length (i + 1)
                (key_buffer[nat i := w])"
        using "1.IH" [OF True Inr] "1.prems" by simp
      then show ?thesis
        using True "1.prems" Inr
        by (simp add: fill_key_buffer.simps [of _ _ _ buffer_length i] key_word_neg_length)
    qed
  qed
qed

lemma int_rem_negative:
  "n < 0 \<Longrightarrow> n \<noteq> INT_MIN \<or> b \<noteq> - 1 \<Longrightarrow> b \<noteq> 0 \<Longrightarrow> int_rem n b = Inr (- ((- n) mod \<bar>b\<bar>))"
  by (auto simp add: int_rem_def)

lemma GCD_helper_negative_0:
  assumes "n < 0" "(- n) mod 4 = 0"
  shows "GCD_helper n 4 = Inr 4"
  using assms by (simp add: GCD_helper_def GCD_loop.simps [of n 4] int_rem_negative)

lemma GCD_helper_negative_1:
  assumes "n < 0" "(- n) mod 4 = 1"
  shows "GCD_helper n 4 = Inr (- 1)"
  using assms
  by (simp add: GCD_helper_def GCD_loop.simps [of n 4] GCD_loop.simps [of 4 "- 1"]
        int_rem_negative int_rem_def INT_MIN_def)

lemma GCD_helper_negative_2:
  assumes "n < 0" "(- n) mod 4 = 2"
  shows "GCD_helper n 4 = Inr (- 2)"
  using assms
  by (simp add: GCD_helper_def GCD_loop.simps [of n 4] GCD_loop.simps [of 4 "- 2"]
        int_rem_negative int_rem_def INT_MIN_def)

lemma GCD_helper_negative_3:
  assumes "n < 0" "(- n) mod 4 = 3"
  shows "GCD_helper n 4 = Inr 1"
  using assms
  by (simp add: GCD_helper_def GCD_loop.simps [of n 4] GCD_loop.simps [of 4 "- 3"]
        GCD_loop.simps [of "- 3" 1] int_rem_negative int_rem_def INT_MIN_def)

lemma make_key_buffer_negative_0:
  assumes "n < 0" "(- n) mod 4 = 0"
  shows "make_key_buffer pf key n = Inl bad_array_new_length"
proof -
  have "4 \<le> - n" using assms by presburger
  then have "0 < (- n) div 4" by simp
  moreover have "int_div n 4 = Inr (- ((- n) div 4))"
    using assms(1) by (simp add: int_div_def)
  ultimately show ?thesis
    using assms by (simp add: make_key_buffer_def GCD_helper_negative_0)
qed

lemma make_key_buffer_negative_3:
  assumes "n < 0" "(- n) mod 4 = 3"
  shows "make_key_buffer pf key n = Inl bad_array_new_length"
proof -
  have "int_div n 1 = Inr n"
    using assms(1) by (simp add: int_div_def)
  then show ?thesis
    using assms by (simp add: make_key_buffer_def GCD_helper_negative_3)
qed

lemma make_key_buffer_negative_1:
  assumes "n < 0" "(- n) mod 4 = 1"
  shows "make_key_buffer pf key n = make_key_buffer pf key (- n)"
proof -
  have m: "n \<noteq> INT_MIN" using assms(2) by (auto simp add: INT_MIN_def)
  have d: "int_div n (- 1) = Inr (- n)"
    using assms(1) m by (simp add: int_div_def)
  have "\<not> 2 dvd - n" using assms(2) by presburger
  then have "gcd (- n) 4 = 1" by (rule gcd_4_odd)
  then have g: "gcd n 4 = 1" by simp
  have d': "int_div (- n) 1 = Inr (- n)"
    using assms(1) by (simp add: int_div_nonneg)
  show ?thesis
    using assms(1)
    by (simp add: make_key_buffer_def GCD_helper_negative_1 [OF assms] GCD_helper_4 g d d'
          fill_key_buffer_neg_length [of 0 pf key n, symmetric])
qed

lemma make_key_buffer_negative_2:
  assumes "n < 0" "(- n) mod 4 = 2"
  shows "make_key_buffer pf key n = make_key_buffer pf key (- n)"
proof -
  have d: "int_div n (- 2) = Inr ((- n) div 2)"
    using assms(1) by (simp add: int_div_def INT_MIN_def)
  have "2 dvd - n" "\<not> 4 dvd - n" using assms(2) by presburger+
  then have "gcd (- n) 4 = 2" by (rule gcd_4_even)
  then have g: "gcd n 4 = 2" by simp
  have d': "int_div (- n) 2 = Inr ((- n) div 2)"
    using assms(1) by (simp add: int_div_nonneg)
  show ?thesis
    using assms(1)
    by (simp add: make_key_buffer_def GCD_helper_negative_2 [OF assms] GCD_helper_4 g d d'
          fill_key_buffer_neg_length [of 0 pf key n, symmetric])
qed

lemma SetKey_negative_rejected:
  assumes "n < 0" "(- n) mod 4 = 0 \<or> (- n) mod 4 = 3"
  shows "SetKey pf this key n
           = Inl (bad_array_new_length, this\<lparr>pary := initial_pary, sbox := initial_sbox\<rparr>)"
  using assms
  by (auto simp add: SetKey_def mix_key_def make_key_buffer_negative_0 make_key_buffer_negative_3)

lemma SetKey_negative_accepted:
  assumes "n < 0" "(- n) mod 4 = 1 \<or> (- n) mod 4 = 2"
  shows "SetKey pf this key n = SetKey pf this key (- n)"
  using assms
  by (auto simp add: SetKey_def mix_key_def make_key_buffer_negative_1 make_key_buffer_negative_2)


lemma state_overwritten:
  "(this :: Blowfish)\<lparr>pary := p, sbox := s\<rparr> = \<lparr>pary = p, sbox = s\<rparr>"
  by (cases this) simp

lemma SetKey_one_byte:
  "SetKey x86_default this [7] 1
     = Inr (key_expansion x86_default
              \<lparr>pary = map ((XOR) 0x07070707) initial_pary, sbox = initial_sbox\<rparr>)"
proof -
  have ne: "[7 :: u8] \<noteq> []" by simp
  have ov: "(int (length [7 :: u8]) div gcd (int (length [7 :: u8])) 4) * 4 \<le> INT_MAX + 1"
    by (simp add: INT_MAX_def)
  have w: "cyclic_word x86_default [7] (length [7 :: u8]) j = 0x07070707" for j
    by (simp add: cyclic_word_def converter_word matches_x86 word_of_bytes_def)
  have "map (\<lambda>i. initial_pary ! i XOR 0x07070707) [0..<18]
          = map (\<lambda>x. x XOR 0x07070707) (map ((!) initial_pary) [0..<length initial_pary])"
    by (simp add: length_initial_pary del: map_nth)
  also have "\<dots> = map ((XOR) 0x07070707) initial_pary"
    unfolding map_nth by (simp add: xor.commute)
  finally have m: "map (\<lambda>i. initial_pary ! i XOR 0x07070707) [0..<18]
                     = map ((XOR) 0x07070707) initial_pary" .
  have "mix_key x86_default this [7] (int (length [7 :: u8]))
          = Inr (this\<lparr>pary := map ((XOR) 0x07070707) initial_pary, sbox := initial_sbox\<rparr>)"
    unfolding mix_key_ok [OF ne ov] w m ..
  then show ?thesis
    by (simp add: SetKey_def state_overwritten)
qed

text \<open>
  What the code computes where the struct layout agrees with the host byte order: through
  the union, \<open>byte0\<close> is the most significant byte of \<open>bit_32\<close>, for the key words
  and for the round function alike.
\<close>

lemma key_packing_matched:
  assumes "layout_matches_host pf" and "key \<noteq> []" and "int (length key) * 4 \<le> INT_MAX + 1"
  shows
   "(let L = length key;
         wordCount = L div gcd L 4;
         word = (\<lambda>i. word_of_bytes (key ! ((i * 4) mod L)) (key ! ((i * 4 + 1) mod L))
                                     (key ! ((i * 4 + 2) mod L)) (key ! ((i * 4 + 3) mod L)));
         mixed = this\<lparr>pary := map (\<lambda>i. initial_pary ! i XOR word (i mod wordCount)) [0..<18],
                       sbox := initial_sbox\<rparr>
     in make_key_buffer pf key (int L) = Inr (int wordCount, map word [0..<wordCount])
        \<and> mix_key pf this key (int L) = Inr mixed
        \<and> SetKey pf this key (int L) = Inr (key_expansion pf mixed))"
proof -
  have "(int (length key) div gcd (int (length key)) 4) * 4 \<le> int (length key) * 4"
    using word_count_le [of "int (length key)"] by simp
  with assms(3) have ov: "(int (length key) div gcd (int (length key)) 4) * 4 \<le> INT_MAX + 1"
    by linarith
  have w: "cyclic_word pf key (length key)
             = (\<lambda>i. word_of_bytes (key ! ((i * 4) mod length key))
                       (key ! ((i * 4 + 1) mod length key))
                       (key ! ((i * 4 + 2) mod length key))
                       (key ! ((i * 4 + 3) mod length key)))"
    using assms(1) by (simp add: fun_eq_iff cyclic_word_def converter_word)
  have n: "int (length key div gcd (length key) 4) = int (length key) div gcd (int (length key)) 4"
    by (metis gcd_int_int_eq of_nat_numeral zdiv_int)
  show ?thesis
    unfolding Let_def SetKey_def
    by (simp only: mix_key_ok [OF assms(2) ov] make_key_buffer_ok [OF assms(2) ov] w n
          sum.case simp_thms)
qed

lemma Feistel_matched_tables:
  "layout_matches_host pf \<Longrightarrow>
   (let a = byte_of x 3; b = byte_of x 2; c = byte_of x 1; d = byte_of x 0;
        t0 = sbox st ! unat a; t1 = sbox st ! (256 + unat b);
        t2 = sbox st ! (512 + unat c); t3 = sbox st ! (768 + unat d)
    in Feistel pf st x = ((t0 + t1) XOR t2) + t3
       \<and> unat (t0 + t1) = (unat t0 + unat t1) mod 2 ^ 32
       \<and> unat (Feistel pf st x) = (unat ((t0 + t1) XOR t2) + unat t3) mod 2 ^ 32
       \<and> (\<forall>st'. sbox st' = sbox st \<longrightarrow> Feistel pf st' x = Feistel pf st x))"
  by (simp add: Let_def Feistel_matched sbox_at_def unat_word_ariths Feistel_reads_sbox)

text \<open>
  C3 as stated is false. With the length \<open>- 1\<close> and a key buffer holding the byte \<open>07\<close>
  the call does not fail: \<open>GCD\<close> returns \<open>- 1\<close>, the word count is 1, every index
  \<open>(4 i + k) % - 1\<close> is 0, and the call completes with the state that the one-byte key
  \<open>07\<close> produces. With the length 0 the call stops, but only after Step 1 has
  overwritten the receiving state: an object whose subkeys are the constants plus one holds
  the constants afterwards.
\<close>

theorem C3_counterexample:
  "SetKey x86_default zero_state [7] (- 1)
     = Inr (key_expansion x86_default
              \<lparr>pary = map ((XOR) 0x07070707) initial_pary, sbox = initial_sbox\<rparr>)
   \<and> SetKey x86_default \<lparr>pary = map ((+) 1) initial_pary, sbox = initial_sbox\<rparr> [] 0
       = Inl (division_by_zero, \<lparr>pary = initial_pary, sbox = initial_sbox\<rparr>)
   \<and> \<lparr>pary = initial_pary, sbox = initial_sbox\<rparr>
       \<noteq> \<lparr>pary = map ((+) 1) initial_pary, sbox = initial_sbox\<rparr>"
proof -
  have "SetKey x86_default zero_state [7] (- 1) = SetKey x86_default zero_state [7] (- (- 1))"
    by (rule SetKey_negative_accepted) simp_all
  then have a: "SetKey x86_default zero_state [7] (- 1)
                  = Inr (key_expansion x86_default
                           \<lparr>pary = map ((XOR) 0x07070707) initial_pary, sbox = initial_sbox\<rparr>)"
    by (simp add: SetKey_one_byte)
  have b: "SetKey x86_default \<lparr>pary = map ((+) 1) initial_pary, sbox = initial_sbox\<rparr> [] 0
             = Inl (division_by_zero, \<lparr>pary = initial_pary, sbox = initial_sbox\<rparr>)"
    by (simp add: SetKey_zero_length state_overwritten)
  have "initial_pary \<noteq> []"
    using length_initial_pary by auto
  then obtain w ws where ip: "initial_pary = w # ws"
    by (cases initial_pary) auto
  have "map ((+) 1) initial_pary \<noteq> initial_pary"
  proof
    assume "map ((+) 1) initial_pary = initial_pary"
    then have "map ((+) 1) (w # ws) = w # ws"
      unfolding ip .
    then have "1 + w = w" by simp
    then have "(1 :: u32) = 0" by (simp only: add_cancel_left_left)
    then show False by simp
  qed
  then have c: "\<lparr>pary = initial_pary, sbox = initial_sbox\<rparr>
                  \<noteq> \<lparr>pary = map ((+) 1) initial_pary, sbox = initial_sbox\<rparr>"
    by auto
  from a b c show ?thesis by simp
qed

text \<open>
  C3, amended. \<open>SetKey\<close> has no check of the key length and no error of its own; Step 1
  overwrites the receiving state with the constants before anything else. For every key
  buffer and every length \<open>n \<le> 0\<close>: with \<open>n = 0\<close> the call stops at the division by
  zero of \<open>i % buffer_length\<close> in Step 4; with \<open>n < 0\<close> and \<open>- n\<close> congruent to 1 or 2
  modulo 4 the call does exactly what it does with the length \<open>- n\<close>; with \<open>n < 0\<close> and
  \<open>- n\<close> congruent to 0 or 3 modulo 4 the word count is negative and the call stops at
  the allocation of the key buffer. Whenever it stops, the receiving state holds the
  constants.
\<close>

theorem C3_lengths_not_positive:
  "n \<le> 0 \<Longrightarrow>
   SetKey pf this key n
     = (if n = 0
        then Inl (division_by_zero, this\<lparr>pary := initial_pary, sbox := initial_sbox\<rparr>)
        else if (- n) mod 4 = 1 \<or> (- n) mod 4 = 2
        then SetKey pf this key (- n)
        else Inl (bad_array_new_length, this\<lparr>pary := initial_pary, sbox := initial_sbox\<rparr>))"
proof -
  assume n: "n \<le> 0"
  show ?thesis
  proof (cases "n = 0")
    case True
    then show ?thesis by (simp add: SetKey_zero_length)
  next
    case False
    with n have neg: "n < 0" by simp
    show ?thesis
    proof (cases "(- n) mod 4 = 1 \<or> (- n) mod 4 = 2")
      case True
      with neg False show ?thesis
        by (simp only: SetKey_negative_accepted if_True if_False)
    next
      case f: False
      then have "(- n) mod 4 = 0 \<or> (- n) mod 4 = 3" by presburger
      with neg have "SetKey pf this key n
            = Inl (bad_array_new_length, this\<lparr>pary := initial_pary, sbox := initial_sbox\<rparr>)"
        by (rule SetKey_negative_rejected)
      with f False show ?thesis by (simp only: if_False)
    qed
  qed
qed

theorem C3_lengths_not_positive_witness:
  "(0::int) \<le> 0 \<and> (- 1 :: int) \<le> 0 \<and> (- 4 :: int) \<le> 0
   \<and> SetKey x86_default zero_state [7] 0
       = Inl (division_by_zero, \<lparr>pary = initial_pary, sbox = initial_sbox\<rparr>)
   \<and> SetKey x86_default zero_state [7] (- 1) = SetKey x86_default zero_state [7] 1
   \<and> SetKey x86_default zero_state [7] (- 4)
       = Inl (bad_array_new_length, \<lparr>pary = initial_pary, sbox = initial_sbox\<rparr>)"
proof -
  have z: "(0::int) \<le> 0" and o: "(- 1 :: int) \<le> 0" and f: "(- 4 :: int) \<le> 0"
    by simp_all
  from C3_lengths_not_positive [OF z, of x86_default zero_state "[7]"]
       C3_lengths_not_positive [OF o, of x86_default zero_state "[7]"]
       C3_lengths_not_positive [OF f, of x86_default zero_state "[7]"]
  show ?thesis
    by (simp add: state_overwritten)
qed

text \<open>
  C4. The comments on the fields of \<open>Converter32\<close> call \<open>byte0\<close> the least significant
  byte and \<open>byte3\<close> the most significant one, which is the packing the claim states. The
  code does the opposite. On a little-endian host compiled with the default layout, the
  key 01 02 03 04 of length 4 is packed into the one word \<open>0x01020304\<close>, where the claim
  and the comments give \<open>0x04030201\<close>.
\<close>

theorem C4_packing_on_little_endian_host:
  "make_key_buffer x86_default [1, 2, 3, 4] 4 = Inr (1, [0x01020304])
   \<and> map (spec_key_word [1, 2, 3, 4] 4) [0..<1] = [0x04030201]"
proof -
  have len: "length [1, 2, 3, 4 :: u8] = 4" by simp
  have ov: "int (length [1, 2, 3, 4 :: u8]) div gcd (int (length [1, 2, 3, 4 :: u8])) 4 * 4
              \<le> INT_MAX + 1"
    by (simp add: INT_MAX_def)
  have "make_key_buffer x86_default [1, 2, 3, 4] 4
          = Inr (1, [cyclic_word x86_default [1, 2, 3, 4] 4 0])"
    using make_key_buffer_ok [OF _ ov, of x86_default] unfolding len by simp
  moreover have "cyclic_word x86_default [1, 2, 3, 4] 4 0 = 0x01020304"
    by (simp add: cyclic_word_def converter_word matches_x86 word_of_bytes_def)
  moreover have "spec_key_word [1, 2, 3, 4] 4 0 = 0x04030201"
    by (simp add: spec_key_word_def)
  ultimately show ?thesis by simp
qed

text \<open>
  C5. The comments on the fields of \<open>Converter32\<close> call \<open>byte0\<close> the least significant
  byte, which makes \<open>a\<close> the least significant byte of the input, as the claim states.
  The code does the opposite. On a little-endian host compiled with the default layout,
  at the first call that \<open>SetKey\<close> makes with an all-zero key (the state holds the
  constants, the input is \<open>0 XOR initial_pary ! 0 = 0x243F6A88\<close>), the code returns
  \<open>0xDB2F9C4E\<close>, where the claim and the comments give \<open>0xA8634C5C\<close>.
\<close>

theorem C5_Feistel_on_little_endian_host:
  "Feistel x86_default constants_state 0x243F6A88 = 0xDB2F9C4E
   \<and> spec_Feistel constants_state 0x243F6A88 = 0xA8634C5C"
proof -
  have "Feistel x86_default constants_state 0x243F6A88 = 0xDB2F9C4E"
    by (simp add: Feistel_matched matches_x86 sbox_at_def constants_state_def
          byte_of_243F6A88 initial_sbox_entries)
  moreover have "spec_Feistel constants_state 0x243F6A88 = 0xA8634C5C"
    by (simp add: spec_Feistel_def sbox_at_def constants_state_def
          byte_of_243F6A88 initial_sbox_entries)
  ultimately show ?thesis by simp
qed


lemma expand_pary_fold:
  "i \<le> 9 \<Longrightarrow> expand_pary pf i s = fold (spec_subkey_step pf) [i..<9] s"
proof (induction pf i s rule: expand_pary.induct)
  case (1 pf i st left right)
  show ?case
  proof (cases "i < 9")
    case False
    with "1.prems" have "i = 9" by simp
    then show ?thesis by (simp add: expand_pary.simps [of pf 9])
  next
    case True
    obtain l1 r1 where e: "EncryptBlock pf st (left, right) = (l1, r1)"
      by (cases "EncryptBlock pf st (left, right)")
    have u: "[i..<9] = i # [i + 1..<9]"
      using True by (simp add: upt_conv_Cons)
    have "expand_pary pf i (st, left, right)
            = expand_pary pf (i + 1)
                (st\<lparr>pary := (pary st)[i * 2 := l1, i * 2 + 1 := r1]\<rparr>, l1, r1)"
      using True by (subst expand_pary.simps) (simp add: e)
    also have "\<dots> = fold (spec_subkey_step pf) [i + 1..<9]
                       (st\<lparr>pary := (pary st)[i * 2 := l1, i * 2 + 1 := r1]\<rparr>, l1, r1)"
      using "1.IH" [OF True e [symmetric]] True by simp
    also have "\<dots> = fold (spec_subkey_step pf) [i..<9] (st, left, right)"
      unfolding u by (simp add: spec_subkey_step_def e mult.commute)
    finally show ?thesis .
  qed
qed

lemma table_write_flat:
  "table_write (table_write sb ((2 * i) div 256) ((2 * i) mod 256) l)
     ((2 * i + 1) div 256) ((2 * i + 1) mod 256) r
   = sb[i * 2 := l, i * 2 + 1 := r]"
proof -
  have "k div 256 * 256 + k mod 256 = k" for k :: nat
    by (rule div_mult_mod_eq)
  from this [of "2 * i"] this [of "2 * i + 1"]
  have a: "(2 * i) div 256 * 256 + (2 * i) mod 256 = i * 2"
    and b: "(2 * i + 1) div 256 * 256 + (2 * i + 1) mod 256 = i * 2 + 1"
    by (simp_all only: mult.commute [of 2 i])
  show ?thesis
    unfolding table_write_def a b ..
qed

lemma expand_sbox_fold:
  "i \<le> 512 \<Longrightarrow> expand_sbox pf i s = fold (spec_table_step pf) [i..<512] s"
proof (induction pf i s rule: expand_sbox.induct)
  case (1 pf i st left right)
  show ?case
  proof (cases "i < 512")
    case False
    with "1.prems" have "i = 512" by simp
    then show ?thesis by (simp add: expand_sbox.simps [of pf 512])
  next
    case True
    obtain l1 r1 where e: "EncryptBlock pf st (left, right) = (l1, r1)"
      by (cases "EncryptBlock pf st (left, right)")
    have u: "[i..<512] = i # [i + 1..<512]"
      using True by (simp add: upt_conv_Cons)
    have "expand_sbox pf i (st, left, right)
            = expand_sbox pf (i + 1)
                (st\<lparr>sbox := (sbox st)[i * 2 := l1, i * 2 + 1 := r1]\<rparr>, l1, r1)"
      using True by (subst expand_sbox.simps) (simp add: e)
    also have "\<dots> = fold (spec_table_step pf) [i + 1..<512]
                       (st\<lparr>sbox := (sbox st)[i * 2 := l1, i * 2 + 1 := r1]\<rparr>, l1, r1)"
      using "1.IH" [OF True e [symmetric]] True by simp
    also have "\<dots> = fold (spec_table_step pf) [i..<512] (st, left, right)"
    proof -
      have "spec_table_step pf i (st, left, right)
              = (st\<lparr>sbox := (sbox st)[i * 2 := l1, i * 2 + 1 := r1]\<rparr>, l1, r1)"
        unfolding spec_table_step_def by (simp only: prod.case e table_write_flat)
      then show ?thesis
        unfolding u by (simp only: fold_Cons comp_apply)
    qed
    finally show ?thesis .
  qed
qed

lemma key_expansion_spec: "key_expansion pf st = spec_key_expansion pf st"
  by (simp add: key_expansion_def spec_key_expansion_def expand_pary_fold expand_sbox_fold)

text \<open>
  C6. Whenever Steps 1 to 4 complete, \<open>SetKey\<close> returns the state that the sequential
  process of the specification reaches from the mixed state: the running block starts as
  \<open>(0, 0)\<close>; nine encryptions overwrite the subkey pairs in order; 512 further
  encryptions overwrite the flattened tables two words at a time; every encryption uses
  the state left by the iterations before it.
\<close>

theorem C6_key_expansion_order:
  "SetKey pf this key n
     = (case mix_key pf this key n of
          Inl x \<Rightarrow> Inl x
        | Inr st \<Rightarrow>
            Inr (fst (fold (spec_table_step pf) [0..<512]
                        (fold (spec_subkey_step pf) [0..<9] (st, 0, 0)))))"
  by (simp add: SetKey_def key_expansion_spec spec_key_expansion_def cong: sum.case_cong)


lemma length_EncryptBlock_bytes: "length (EncryptBlock_bytes pf st blk) = 8"
  by (simp add: EncryptBlock_bytes_def length_to_memory split: prod.split)

lemma length_DecryptBlock_bytes: "length (DecryptBlock_bytes pf st blk) = 8"
  by (simp add: DecryptBlock_bytes_def length_to_memory split: prod.split)

lemma load32_pair:
  "load32 pf dst (i * 2) = from_memory pf (take 4 (block_at dst i))"
  "load32 pf dst (i * 2 + 1) = from_memory pf (take 4 (drop 4 (block_at dst i)))"
proof -
  have a: "4 * (i * 2) = 8 * i" and b: "4 * (i * 2 + 1) = 4 + 8 * i" by simp_all
  show "load32 pf dst (i * 2) = from_memory pf (take 4 (block_at dst i))"
    unfolding load32_def block_at_def a by simp
  show "load32 pf dst (i * 2 + 1) = from_memory pf (take 4 (drop 4 (block_at dst i)))"
    unfolding load32_def block_at_def b by (simp add: drop_take)
qed

lemma store32_pair:
  assumes "8 * i + 8 \<le> length dst"
  shows "store32 pf (store32 pf dst (i * 2) l) (i * 2 + 1) r
           = take (8 * i) dst @ to_memory pf l @ to_memory pf r @ drop (8 * i + 8) dst"
proof -
  have a: "4 * (i * 2) = 8 * i" and b: "4 * (i * 2 + 1) = 8 * i + 4" by simp_all
  have t: "take (8 * i + 4) (take (8 * i) dst @ to_memory pf l @ drop (8 * i + 4) dst)
             = take (8 * i) dst @ to_memory pf l"
    using assms by (simp add: length_to_memory)
  have d: "drop (8 * i + 4 + 4) (take (8 * i) dst @ to_memory pf l @ drop (8 * i + 4) dst)
             = drop (8 * i + 8) dst"
    using assms by (simp add: length_to_memory add.commute)
  show ?thesis
    unfolding store32_def a b t d by simp
qed

lemma splice_length:
  "a + length B \<le> length xs \<Longrightarrow> length (take a xs @ B @ drop (a + length B) xs) = length xs"
  by simp

lemma splice_drop:
  "a + length B \<le> m \<Longrightarrow> a + length B \<le> length xs \<Longrightarrow>
   drop m (take a xs @ B @ drop (a + length B) xs) = drop m xs"
  by simp

lemma splice_take:
  "a \<le> length xs \<Longrightarrow> take (a + length B) (take a xs @ B @ ys) = take a xs @ B"
  by simp

lemma splice_block:
  "a + length B \<le> 8 * j \<Longrightarrow> a + length B \<le> length xs \<Longrightarrow>
   block_at (take a xs @ B @ drop (a + length B) xs) j = block_at xs j"
  unfolding block_at_def by (simp only: splice_drop)

lemma Encrypt_iteration:
  assumes "8 * i + 8 \<le> length dst"
  shows "(case EncryptBlock pf st (load32 pf dst (i * 2), load32 pf dst (i * 2 + 1)) of
            (left, right) \<Rightarrow> store32 pf (store32 pf dst (i * 2) left) (i * 2 + 1) right)
         = take (8 * i) dst @ EncryptBlock_bytes pf st (block_at dst i) @ drop (8 * i + 8) dst"
proof -
  obtain l r where e: "EncryptBlock pf st (load32 pf dst (i * 2), load32 pf dst (i * 2 + 1)) = (l, r)"
    by (cases "EncryptBlock pf st (load32 pf dst (i * 2), load32 pf dst (i * 2 + 1))")
  then have e': "EncryptBlock pf st (from_memory pf (take 4 (block_at dst i)),
                                   from_memory pf (take 4 (drop 4 (block_at dst i)))) = (l, r)"
    by (simp only: load32_pair)
  show ?thesis
    unfolding EncryptBlock_bytes_def e e' prod.case store32_pair [OF assms] by simp
qed

lemma Decrypt_iteration:
  assumes "8 * i + 8 \<le> length dst"
  shows "(case DecryptBlock pf st (load32 pf dst (i * 2), load32 pf dst (i * 2 + 1)) of
            (left, right) \<Rightarrow> store32 pf (store32 pf dst (i * 2) left) (i * 2 + 1) right)
         = take (8 * i) dst @ DecryptBlock_bytes pf st (block_at dst i) @ drop (8 * i + 8) dst"
proof -
  obtain l r where e: "DecryptBlock pf st (load32 pf dst (i * 2), load32 pf dst (i * 2 + 1)) = (l, r)"
    by (cases "DecryptBlock pf st (load32 pf dst (i * 2), load32 pf dst (i * 2 + 1))")
  then have e': "DecryptBlock pf st (from_memory pf (take 4 (block_at dst i)),
                                   from_memory pf (take 4 (drop 4 (block_at dst i)))) = (l, r)"
    by (simp only: load32_pair)
  show ?thesis
    unfolding DecryptBlock_bytes_def e e' prod.case store32_pair [OF assms] by simp
qed

lemma Encrypt_loop_blocks:
  "8 * n \<le> length dst \<Longrightarrow> i \<le> n \<Longrightarrow>
   Encrypt_loop pf st n i dst
     = take (8 * i) dst
       @ concat (map (\<lambda>j. EncryptBlock_bytes pf st (block_at dst j)) [i..<n])
       @ drop (8 * n) dst"
proof (induction pf st n i dst rule: Encrypt_loop.induct)
  case (1 pf st n i dst)
  show ?case
  proof (cases "i < n")
    case False
    with "1.prems" have "i = n" by simp
    then show ?thesis by (simp add: Encrypt_loop.simps [of pf st n n])
  next
    case True
    let ?B = "EncryptBlock_bytes pf st (block_at dst i)"
    let ?d = "take (8 * i) dst @ ?B @ drop (8 * i + length ?B) dst"
    have len: "length ?B = 8" by (rule length_EncryptBlock_bytes)
    have fits: "8 * i + length ?B \<le> length dst"
      using True "1.prems" by (simp add: len)
    obtain l r where e: "EncryptBlock pf st (load32 pf dst (i * 2), load32 pf dst (i * 2 + 1)) = (l, r)"
      by (cases "EncryptBlock pf st (load32 pf dst (i * 2), load32 pf dst (i * 2 + 1))")
    have fits8: "8 * i + 8 \<le> length dst"
      using fits by (simp only: len)
    have it: "store32 pf (store32 pf dst (i * 2) l) (i * 2 + 1) r = ?d"
      using Encrypt_iteration [OF fits8, of pf st] unfolding e prod.case len .
    have ld: "length ?d = length dst"
      using fits by (rule splice_length)
    have B: "Encrypt_loop pf st n (i + 1) ?d
            = take (8 * (i + 1)) ?d
              @ concat (map (\<lambda>j. EncryptBlock_bytes pf st (block_at ?d j)) [i + 1..<n])
              @ drop (8 * n) ?d"
      using "1.IH" [OF True e [symmetric]] "1.prems" True unfolding it ld by simp
    have C1: "take (8 * (i + 1)) ?d = take (8 * i) dst @ ?B"
    proof -
      have "8 * (i + 1) = 8 * i + length ?B" by (simp add: len)
      then show ?thesis using fits by (simp only: splice_take)
    qed
    have C2: "drop (8 * n) ?d = drop (8 * n) dst"
      using True fits by (intro splice_drop) (simp_all add: len)
    have C3: "map (\<lambda>j. EncryptBlock_bytes pf st (block_at ?d j)) [i + 1..<n]
                     = map (\<lambda>j. EncryptBlock_bytes pf st (block_at dst j)) [i + 1..<n]"
    proof (rule map_cong [OF refl])
      fix j assume "j \<in> set [i + 1..<n]"
      then have "8 * i + length ?B \<le> 8 * j" by (simp add: len)
      then have "block_at ?d j = block_at dst j"
        using fits by (rule splice_block)
      then show "EncryptBlock_bytes pf st (block_at ?d j) = EncryptBlock_bytes pf st (block_at dst j)"
        by simp
    qed
    have A: "Encrypt_loop pf st n i dst = Encrypt_loop pf st n (i + 1) ?d"
      by (subst Encrypt_loop.simps) (simp only: True if_True e prod.case it)
    have U: "[i..<n] = i # [i + 1..<n]"
      using True by (simp add: upt_conv_Cons)
    show ?thesis
      unfolding A B C1 C2 C3 U by (simp only: list.map concat.simps append_assoc)
  qed
qed


lemma Decrypt_loop_blocks:
  "8 * n \<le> length dst \<Longrightarrow> i \<le> n \<Longrightarrow>
   Decrypt_loop pf st n i dst
     = take (8 * i) dst
       @ concat (map (\<lambda>j. DecryptBlock_bytes pf st (block_at dst j)) [i..<n])
       @ drop (8 * n) dst"
proof (induction pf st n i dst rule: Decrypt_loop.induct)
  case (1 pf st n i dst)
  show ?case
  proof (cases "i < n")
    case False
    with "1.prems" have "i = n" by simp
    then show ?thesis by (simp add: Decrypt_loop.simps [of pf st n n])
  next
    case True
    let ?B = "DecryptBlock_bytes pf st (block_at dst i)"
    let ?d = "take (8 * i) dst @ ?B @ drop (8 * i + length ?B) dst"
    have len: "length ?B = 8" by (rule length_DecryptBlock_bytes)
    have fits: "8 * i + length ?B \<le> length dst"
      using True "1.prems" by (simp add: len)
    obtain l r where e: "DecryptBlock pf st (load32 pf dst (i * 2), load32 pf dst (i * 2 + 1)) = (l, r)"
      by (cases "DecryptBlock pf st (load32 pf dst (i * 2), load32 pf dst (i * 2 + 1))")
    have fits8: "8 * i + 8 \<le> length dst"
      using fits by (simp only: len)
    have it: "store32 pf (store32 pf dst (i * 2) l) (i * 2 + 1) r = ?d"
      using Decrypt_iteration [OF fits8, of pf st] unfolding e prod.case len .
    have ld: "length ?d = length dst"
      using fits by (rule splice_length)
    have B: "Decrypt_loop pf st n (i + 1) ?d
            = take (8 * (i + 1)) ?d
              @ concat (map (\<lambda>j. DecryptBlock_bytes pf st (block_at ?d j)) [i + 1..<n])
              @ drop (8 * n) ?d"
      using "1.IH" [OF True e [symmetric]] "1.prems" True unfolding it ld by simp
    have C1: "take (8 * (i + 1)) ?d = take (8 * i) dst @ ?B"
    proof -
      have "8 * (i + 1) = 8 * i + length ?B" by (simp add: len)
      then show ?thesis using fits by (simp only: splice_take)
    qed
    have C2: "drop (8 * n) ?d = drop (8 * n) dst"
      using True fits by (intro splice_drop) (simp_all add: len)
    have C3: "map (\<lambda>j. DecryptBlock_bytes pf st (block_at ?d j)) [i + 1..<n]
                     = map (\<lambda>j. DecryptBlock_bytes pf st (block_at dst j)) [i + 1..<n]"
    proof (rule map_cong [OF refl])
      fix j assume "j \<in> set [i + 1..<n]"
      then have "8 * i + length ?B \<le> 8 * j" by (simp add: len)
      then have "block_at ?d j = block_at dst j"
        using fits by (rule splice_block)
      then show "DecryptBlock_bytes pf st (block_at ?d j) = DecryptBlock_bytes pf st (block_at dst j)"
        by simp
    qed
    have A: "Decrypt_loop pf st n i dst = Decrypt_loop pf st n (i + 1) ?d"
      by (subst Decrypt_loop.simps) (simp only: True if_True e prod.case it)
    have U: "[i..<n] = i # [i + 1..<n]"
      using True by (simp add: upt_conv_Cons)
    show ?thesis
      unfolding A B C1 C2 C3 U by (simp only: list.map concat.simps append_assoc)
  qed
qed


lemma length_concat_blocks:
  "(\<And>j. length (f j) = 8) \<Longrightarrow> length (concat (map f [0..<k])) = 8 * k"
  by (induction k) simp_all

lemma block_at_concat:
  assumes "\<And>j. length (f j) = (8::nat)"
  shows "j < k \<Longrightarrow> block_at (concat (map f [0..<k]) @ rest) j = f j"
proof (induction k arbitrary: rest)
  case 0
  then show ?case by simp
next
  case (Suc k)
  have l: "length (concat (map f [0..<k])) = 8 * k"
    using assms by (rule length_concat_blocks)
  show ?case
  proof (cases "j < k")
    case True
    have "block_at (concat (map f [0..<k]) @ (f k @ rest)) j = f j"
      using True by (rule Suc.IH)
    then show ?thesis by simp
  next
    case False
    with Suc.prems have "j = k" by simp
    then show ?thesis
      using assms [of k] by (simp add: block_at_def l)
  qed
qed

lemma concat_block_at:
  "8 * k \<le> length xs \<Longrightarrow> concat (map (block_at xs) [0..<k]) = take (8 * k) xs"
proof (induction k)
  case 0
  then show ?case by simp
next
  case (Suc k)
  then have "concat (map (block_at xs) [0..<k]) = take (8 * k) xs" by simp
  moreover have "take (8 * Suc k) xs = take (8 * k) xs @ take 8 (drop (8 * k) xs)"
    by (simp add: take_add [symmetric] add.commute)
  ultimately show ?case by (simp add: block_at_def [of xs k])
qed

lemma length_block_at: "8 * j + 8 \<le> length xs \<Longrightarrow> length (block_at xs j) = 8"
  by (simp add: block_at_def)

lemma DecryptBlock_bytes_EncryptBlock_bytes:
  assumes "length blk = 8"
  shows "DecryptBlock_bytes pf st (EncryptBlock_bytes pf st blk) = blk"
proof -
  let ?l = "from_memory pf (take 4 blk)" and ?r = "from_memory pf (take 4 (drop 4 blk))"
  obtain l1 r1 where e: "EncryptBlock pf st (?l, ?r) = (l1, r1)"
    by (cases "EncryptBlock pf st (?l, ?r)")
  have d: "DecryptBlock pf st (l1, r1) = (?l, ?r)"
    using DecryptBlock_EncryptBlock [of pf st ?l ?r] by (simp add: e)
  have a: "to_memory pf ?l = take 4 blk"
    using assms by (intro to_memory_from_memory) simp
  have b: "to_memory pf ?r = take 4 (drop 4 blk)"
    using assms by (intro to_memory_from_memory) simp
  have "take 4 blk @ take 4 (drop 4 blk) = blk"
    using assms by (simp add: take_add [symmetric])
  then show ?thesis
    by (simp add: DecryptBlock_bytes_def EncryptBlock_bytes_def e d a b length_to_memory
          from_memory_to_memory)
qed


lemma block_at_take_append:
  "8 * j + 8 \<le> m \<Longrightarrow> m \<le> length xs \<Longrightarrow> block_at (take m xs @ ys) j = block_at xs j"
  by (simp add: block_at_def drop_take)

lemma drop_take_append:
  "m \<le> n \<Longrightarrow> n \<le> length xs \<Longrightarrow> drop m (take n xs @ ys) = drop m (take n xs) @ ys"
  by simp

lemma Encrypt_closed:
  assumes "0 \<le> n" and "nat n \<le> length src"
    and "case dst of SameAsSrc \<Rightarrow> True | Separate d \<Rightarrow> nat n \<le> length d"
  shows "Encrypt pf st dst src n
           = Inr (concat (map (\<lambda>j. EncryptBlock_bytes pf st (block_at src j)) [0..<nat n div 8])
                  @ drop (8 * (nat n div 8))
                      (case dst of SameAsSrc \<Rightarrow> src
                                 | Separate d \<Rightarrow> take (nat n) src @ drop (nat n) d))"
proof -
  let ?k = "nat n div 8"
  let ?b = "case dst of SameAsSrc \<Rightarrow> src | Separate d \<Rightarrow> take (nat n) src @ drop (nat n) d"
  have c: "copy_to_dst dst src n = Inr ?b"
    using assms by (cases dst) (auto simp add: copy_to_dst_def)
  have k: "8 * ?k \<le> nat n" by simp
  have lb: "8 * ?k \<le> length ?b"
    using assms k by (cases dst) auto
  have blk: "block_at ?b j = block_at src j" if "j < ?k" for j
  proof (cases dst)
    case SameAsSrc
    then show ?thesis by simp
  next
    case (Separate d)
    have "8 * j + 8 \<le> nat n" using that by linarith
    then show ?thesis
      using assms(2) Separate by (simp add: block_at_take_append)
  qed
  have m: "map (\<lambda>j. EncryptBlock_bytes pf st (block_at ?b j)) [0..<?k]
             = map (\<lambda>j. EncryptBlock_bytes pf st (block_at src j)) [0..<?k]"
    by (rule map_cong [OF refl]) (simp add: blk)
  have "Encrypt_loop pf st ?k 0 ?b
          = take (8 * 0) ?b
            @ concat (map (\<lambda>j. EncryptBlock_bytes pf st (block_at ?b j)) [0..<?k])
            @ drop (8 * ?k) ?b"
    using lb by (intro Encrypt_loop_blocks) simp_all
  then show ?thesis
    unfolding Encrypt_def c m by simp
qed

lemma Decrypt_closed:
  assumes "0 \<le> n" and "nat n \<le> length src"
    and "case dst of SameAsSrc \<Rightarrow> True | Separate d \<Rightarrow> nat n \<le> length d"
  shows "Decrypt pf st dst src n
           = Inr (concat (map (\<lambda>j. DecryptBlock_bytes pf st (block_at src j)) [0..<nat n div 8])
                  @ drop (8 * (nat n div 8))
                      (case dst of SameAsSrc \<Rightarrow> src
                                 | Separate d \<Rightarrow> take (nat n) src @ drop (nat n) d))"
proof -
  let ?k = "nat n div 8"
  let ?b = "case dst of SameAsSrc \<Rightarrow> src | Separate d \<Rightarrow> take (nat n) src @ drop (nat n) d"
  have c: "copy_to_dst dst src n = Inr ?b"
    using assms by (cases dst) (auto simp add: copy_to_dst_def)
  have k: "8 * ?k \<le> nat n" by simp
  have lb: "8 * ?k \<le> length ?b"
    using assms k by (cases dst) auto
  have blk: "block_at ?b j = block_at src j" if "j < ?k" for j
  proof (cases dst)
    case SameAsSrc
    then show ?thesis by simp
  next
    case (Separate d)
    have "8 * j + 8 \<le> nat n" using that by linarith
    then show ?thesis
      using assms(2) Separate by (simp add: block_at_take_append)
  qed
  have m: "map (\<lambda>j. DecryptBlock_bytes pf st (block_at ?b j)) [0..<?k]
             = map (\<lambda>j. DecryptBlock_bytes pf st (block_at src j)) [0..<?k]"
    by (rule map_cong [OF refl]) (simp add: blk)
  have "Decrypt_loop pf st ?k 0 ?b
          = take (8 * 0) ?b
            @ concat (map (\<lambda>j. DecryptBlock_bytes pf st (block_at ?b j)) [0..<?k])
            @ drop (8 * ?k) ?b"
    using lb by (intro Decrypt_loop_blocks) simp_all
  then show ?thesis
    unfolding Decrypt_def c m by simp
qed

lemma Encrypt_block_of_output:
  assumes "Encrypt pf st dst src n = Inr out" and "j < nat n div 8"
  shows "block_at out j = EncryptBlock_bytes pf st (block_at src j)"
proof -
  have n: "0 \<le> n" "nat n \<le> length src"
    and d: "case dst of SameAsSrc \<Rightarrow> True | Separate d \<Rightarrow> nat n \<le> length d"
    using assms(1)
    by (auto simp add: Encrypt_def copy_to_dst_def split: if_splits dst_buffer.splits)
  from assms(1) have "out = concat (map (\<lambda>j. EncryptBlock_bytes pf st (block_at src j)) [0..<nat n div 8])
                  @ drop (8 * (nat n div 8))
                      (case dst of SameAsSrc \<Rightarrow> src
                                 | Separate d \<Rightarrow> take (nat n) src @ drop (nat n) d)"
    unfolding Encrypt_closed [OF n d] by simp
  then show ?thesis
    using assms(2) by (simp only: block_at_concat [OF length_EncryptBlock_bytes])
qed


lemma Encrypt_two_blocks:
  assumes "length A = 8" "length B = 8"
    and "case dst of SameAsSrc \<Rightarrow> True | Separate d \<Rightarrow> length d = 16"
  shows "Encrypt pf st dst (A @ B) 16
           = Inr (EncryptBlock_bytes pf st A @ EncryptBlock_bytes pf st B)"
proof -
  have b0: "block_at (A @ B) 0 = A" and b1: "block_at (A @ B) (Suc 0) = B"
    using assms by (simp_all add: block_at_def)
  have u: "[0..<nat 16 div 8] = [0, 1]"
    by (simp add: upt_rec)
  have r: "drop (8 * (nat 16 div 8))
             (case dst of SameAsSrc \<Rightarrow> A @ B
                        | Separate d \<Rightarrow> take (nat 16) (A @ B) @ drop (nat 16) d) = []"
    using assms by (cases dst) simp_all
  have "Encrypt pf st dst (A @ B) 16
          = Inr (concat (map (\<lambda>j. EncryptBlock_bytes pf st (block_at (A @ B) j)) [0..<nat 16 div 8])
                 @ drop (8 * (nat 16 div 8))
                     (case dst of SameAsSrc \<Rightarrow> A @ B
                                | Separate d \<Rightarrow> take (nat 16) (A @ B) @ drop (nat 16) d))"
    using assms by (intro Encrypt_closed) (cases dst; simp)+
  then show ?thesis
    unfolding u r by (simp add: b0 b1)
qed

lemma Encrypt_one_block:
  assumes "length A = 8"
  shows "Encrypt pf st SameAsSrc A 8 = Inr (EncryptBlock_bytes pf st A)"
proof -
  have b0: "block_at A 0 = A"
    using assms by (simp add: block_at_def)
  have u: "[0..<nat 8 div 8] = [0]"
    by (simp add: upt_rec)
  have "Encrypt pf st SameAsSrc A 8
          = Inr (concat (map (\<lambda>j. EncryptBlock_bytes pf st (block_at A j)) [0..<nat 8 div 8])
                 @ drop (8 * (nat 8 div 8)) (case SameAsSrc of SameAsSrc \<Rightarrow> A
                                | Separate d \<Rightarrow> take (nat 8) A @ drop (nat 8) d))"
    using assms by (intro Encrypt_closed) simp_all
  then show ?thesis
    unfolding u using assms by (simp add: b0)
qed

text \<open>
  C7. For every state and any two blocks \<open>A\<close> and \<open>B\<close> of eight bytes, \<open>Encrypt\<close> on
  the 16 bytes \<open>A @ B\<close>, in place or into a separate destination of 16 bytes, leaves
  the block cipher's image of \<open>A\<close> followed by that of \<open>B\<close>, the image of a block
  being what \<open>Encrypt\<close> leaves for that block alone. For any buffer, block \<open>j\<close> of the
  output is the image of block \<open>j\<close> of the source and of nothing else.
\<close>

theorem C7_block_independence:
  "length A = 8 \<Longrightarrow> length B = 8 \<Longrightarrow>
   Encrypt pf st SameAsSrc (A @ B) 16
     = Inr (EncryptBlock_bytes pf st A @ EncryptBlock_bytes pf st B)
   \<and> (\<forall>d. length d = 16 \<longrightarrow>
          Encrypt pf st (Separate d) (A @ B) 16
            = Inr (EncryptBlock_bytes pf st A @ EncryptBlock_bytes pf st B))
   \<and> Encrypt pf st SameAsSrc A 8 = Inr (EncryptBlock_bytes pf st A)
   \<and> Encrypt pf st SameAsSrc B 8 = Inr (EncryptBlock_bytes pf st B)
   \<and> (\<forall>dst src n out j.
          Encrypt pf st dst src n = Inr out \<longrightarrow> j < nat n div 8 \<longrightarrow>
          block_at out j = EncryptBlock_bytes pf st (block_at src j))"
  by (simp add: Encrypt_two_blocks Encrypt_one_block Encrypt_block_of_output)

theorem C7_block_independence_witness:
  "length [1, 2, 3, 4, 5, 6, 7, 8 :: u8] = 8 \<and> length [9, 10, 11, 12, 13, 14, 15, 16 :: u8] = 8
   \<and> Encrypt x86_default constants_state SameAsSrc
         ([1, 2, 3, 4, 5, 6, 7, 8] @ [9, 10, 11, 12, 13, 14, 15, 16]) 16
       = Inr (EncryptBlock_bytes x86_default constants_state [1, 2, 3, 4, 5, 6, 7, 8]
              @ EncryptBlock_bytes x86_default constants_state [9, 10, 11, 12, 13, 14, 15, 16])
   \<and> length (replicate 16 (0 :: u8)) = 16
   \<and> Encrypt x86_default constants_state (Separate (replicate 16 0))
         ([1, 2, 3, 4, 5, 6, 7, 8] @ [9, 10, 11, 12, 13, 14, 15, 16]) 16
       = Inr (EncryptBlock_bytes x86_default constants_state [1, 2, 3, 4, 5, 6, 7, 8]
              @ EncryptBlock_bytes x86_default constants_state [9, 10, 11, 12, 13, 14, 15, 16])
   \<and> (1 :: nat) < nat 16 div 8
   \<and> block_at (EncryptBlock_bytes x86_default constants_state [1, 2, 3, 4, 5, 6, 7, 8]
              @ EncryptBlock_bytes x86_default constants_state [9, 10, 11, 12, 13, 14, 15, 16]) 1
       = EncryptBlock_bytes x86_default constants_state
           (block_at ([1, 2, 3, 4, 5, 6, 7, 8] @ [9, 10, 11, 12, 13, 14, 15, 16]) 1)"
proof -
  let ?A = "[1, 2, 3, 4, 5, 6, 7, 8 :: u8]" and ?B = "[9, 10, 11, 12, 13, 14, 15, 16 :: u8]"
  have a: "length ?A = 8" and b: "length ?B = 8" by simp_all
  have d: "length (replicate 16 (0 :: u8)) = 16" by simp
  have j: "(1 :: nat) < nat 16 div 8" by simp
  note t = C7_block_independence [OF a b, of x86_default constants_state]
  from t have e1: "Encrypt x86_default constants_state SameAsSrc (?A @ ?B) 16
       = Inr (EncryptBlock_bytes x86_default constants_state ?A
              @ EncryptBlock_bytes x86_default constants_state ?B)"
    by (rule conjunct1)
  from t d have e2: "Encrypt x86_default constants_state (Separate (replicate 16 0)) (?A @ ?B) 16
       = Inr (EncryptBlock_bytes x86_default constants_state ?A
              @ EncryptBlock_bytes x86_default constants_state ?B)"
    by blast
  from t e1 j have e3: "block_at (EncryptBlock_bytes x86_default constants_state ?A
              @ EncryptBlock_bytes x86_default constants_state ?B) 1
       = EncryptBlock_bytes x86_default constants_state (block_at (?A @ ?B) 1)"
    by blast
  from a b d j e1 e2 e3 show ?thesis by blast
qed

text \<open>
  C8. For a source of \<open>8 k + r\<close> bytes with \<open>0 < r < 8\<close> and a destination that is the
  source itself or a separate buffer of at least that length, \<open>Encrypt\<close> and \<open>Decrypt\<close>
  leave in the destination: the images of the \<open>k\<close> full blocks of the source in its
  first \<open>8 k\<close> bytes, then the last \<open>r\<close> bytes of the source unchanged, then whatever
  the destination held beyond the length. With length 0 the destination stays as it was.
\<close>

theorem C8_trailing_bytes:
  assumes "length src = 8 * k + r" and "0 < r" and "r < 8"
    and "case dst of SameAsSrc \<Rightarrow> True | Separate d \<Rightarrow> 8 * k + r \<le> length d"
  shows
   "Encrypt pf st dst src (int (8 * k + r))
      = Inr (concat (map (\<lambda>j. EncryptBlock_bytes pf st (block_at src j)) [0..<k])
             @ drop (8 * k) src
             @ (case dst of SameAsSrc \<Rightarrow> [] | Separate d \<Rightarrow> drop (8 * k + r) d))
    \<and> Decrypt pf st dst src (int (8 * k + r))
      = Inr (concat (map (\<lambda>j. DecryptBlock_bytes pf st (block_at src j)) [0..<k])
             @ drop (8 * k) src
             @ (case dst of SameAsSrc \<Rightarrow> [] | Separate d \<Rightarrow> drop (8 * k + r) d))
    \<and> length (concat (map (\<lambda>j. EncryptBlock_bytes pf st (block_at src j)) [0..<k])) = 8 * k
    \<and> length (concat (map (\<lambda>j. DecryptBlock_bytes pf st (block_at src j)) [0..<k])) = 8 * k
    \<and> length (drop (8 * k) src) = r
    \<and> Encrypt pf st dst src 0 = Inr (case dst of SameAsSrc \<Rightarrow> src | Separate d \<Rightarrow> d)
    \<and> Decrypt pf st dst src 0 = Inr (case dst of SameAsSrc \<Rightarrow> src | Separate d \<Rightarrow> d)"
proof -
  let ?n = "int (8 * k + r)"
  have n: "0 \<le> ?n" "nat ?n \<le> length src" using assms by simp_all
  have d: "case dst of SameAsSrc \<Rightarrow> True | Separate d \<Rightarrow> nat ?n \<le> length d"
    using assms(4) by (cases dst) simp_all
  have k: "nat ?n div 8 = k" using assms(3) by simp
  have rest: "drop (8 * k) (case dst of SameAsSrc \<Rightarrow> src
                              | Separate d \<Rightarrow> take (nat ?n) src @ drop (nat ?n) d)
                = drop (8 * k) src
                  @ (case dst of SameAsSrc \<Rightarrow> [] | Separate d \<Rightarrow> drop (8 * k + r) d)"
    unfolding nat_int using assms(1) by (cases dst) simp_all
  have z: "(0::int) \<le> 0" "nat 0 \<le> length src"
    "case dst of SameAsSrc \<Rightarrow> True | Separate d \<Rightarrow> nat 0 \<le> length d"
    by (cases dst; simp)+
  have e0: "Encrypt pf st dst src 0 = Inr (case dst of SameAsSrc \<Rightarrow> src | Separate d \<Rightarrow> d)"
    unfolding Encrypt_closed [OF z] by (cases dst) simp_all
  have d0: "Decrypt pf st dst src 0 = Inr (case dst of SameAsSrc \<Rightarrow> src | Separate d \<Rightarrow> d)"
    unfolding Decrypt_closed [OF z] by (cases dst) simp_all
  show ?thesis
    unfolding Encrypt_closed [OF n d] Decrypt_closed [OF n d] k rest e0 d0
    using assms(1)
    by (simp add: length_concat_blocks length_EncryptBlock_bytes length_DecryptBlock_bytes)
qed

theorem C8_trailing_bytes_witness:
  "length [1, 2, 3, 4, 5, 6, 7, 8, 9, 10 :: u8] = 8 * 1 + 2 \<and> (0 :: nat) < 2 \<and> (2 :: nat) < 8
   \<and> Encrypt x86_default constants_state SameAsSrc [1, 2, 3, 4, 5, 6, 7, 8, 9, 10] 10
       = Inr (EncryptBlock_bytes x86_default constants_state [1, 2, 3, 4, 5, 6, 7, 8] @ [9, 10])
   \<and> Decrypt x86_default constants_state SameAsSrc [1, 2, 3, 4, 5, 6, 7, 8, 9, 10] 10
       = Inr (DecryptBlock_bytes x86_default constants_state [1, 2, 3, 4, 5, 6, 7, 8] @ [9, 10])
   \<and> Encrypt x86_default constants_state SameAsSrc [1, 2, 3, 4, 5, 6, 7, 8, 9, 10] 0
       = Inr [1, 2, 3, 4, 5, 6, 7, 8, 9, 10]"
proof -
  let ?s = "[1, 2, 3, 4, 5, 6, 7, 8, 9, 10 :: u8]"
  have a: "length ?s = 8 * 1 + 2" and b: "(0 :: nat) < 2" and c: "(2 :: nat) < 8"
    by simp_all
  have d: "case SameAsSrc of SameAsSrc \<Rightarrow> True | Separate d \<Rightarrow> 8 * 1 + 2 \<le> length d"
    by simp
  have blk: "block_at ?s 0 = [1, 2, 3, 4, 5, 6, 7, 8]"
    by (simp add: block_at_def)
  have u: "[0..<1] = [0]" by simp
  from C8_trailing_bytes [OF a b c d, of x86_default constants_state]
  have "Encrypt x86_default constants_state SameAsSrc ?s 10
       = Inr (EncryptBlock_bytes x86_default constants_state [1, 2, 3, 4, 5, 6, 7, 8] @ [9, 10])"
    and "Decrypt x86_default constants_state SameAsSrc ?s 10
       = Inr (DecryptBlock_bytes x86_default constants_state [1, 2, 3, 4, 5, 6, 7, 8] @ [9, 10])"
    and "Encrypt x86_default constants_state SameAsSrc ?s 0 = Inr ?s"
    unfolding u by (simp_all add: blk)
  with a b c show ?thesis by blast
qed

text \<open>
  C9. For every state and every buffer, of any length, \<open>Decrypt\<close> applied to what
  \<open>Encrypt\<close> left gives the buffer back, byte for byte: in place, and through separate
  destinations of the buffer's length.
\<close>

theorem C9_buffer_round_trip:
  "(\<exists>e. Encrypt pf st SameAsSrc buf (int (length buf)) = Inr e
        \<and> length e = length buf
        \<and> Decrypt pf st SameAsSrc e (int (length buf)) = Inr buf)
   \<and> (\<forall>d d'. length d = length buf \<longrightarrow> length d' = length buf \<longrightarrow>
         (\<exists>e. Encrypt pf st (Separate d) buf (int (length buf)) = Inr e
             \<and> length e = length buf
             \<and> Decrypt pf st (Separate d') e (int (length buf)) = Inr buf))"
proof -
  let ?n = "int (length buf)"
  let ?k = "length buf div 8"
  let ?e = "concat (map (\<lambda>j. EncryptBlock_bytes pf st (block_at buf j)) [0..<?k])
            @ drop (8 * ?k) buf"
  have n: "0 \<le> ?n" "nat ?n \<le> length buf" by simp_all
  have k: "nat ?n div 8 = ?k" by simp
  have k8: "8 * ?k \<le> length buf" by simp
  have le: "length ?e = length buf"
    using k8 by (simp add: length_concat_blocks length_EncryptBlock_bytes)
  have enc: "Encrypt pf st dst buf ?n = Inr ?e"
    if "case dst of SameAsSrc \<Rightarrow> True | Separate d \<Rightarrow> length d = length buf" for dst
  proof -
    have d: "case dst of SameAsSrc \<Rightarrow> True | Separate d \<Rightarrow> nat ?n \<le> length d"
      using that by (cases dst) simp_all
    show ?thesis
      unfolding Encrypt_closed [OF n d] k using that by (cases dst) simp_all
  qed
  have blocks: "map (\<lambda>j. DecryptBlock_bytes pf st (block_at ?e j)) [0..<?k]
                  = map (block_at buf) [0..<?k]"
  proof (rule map_cong [OF refl])
    fix j assume "j \<in> set [0..<?k]"
    then have j: "j < ?k" by simp
    then have "8 * j + 8 \<le> length buf" by linarith
    then have l: "length (block_at buf j) = 8" by (rule length_block_at)
    have "block_at ?e j = EncryptBlock_bytes pf st (block_at buf j)"
      using j by (simp only: block_at_concat [OF length_EncryptBlock_bytes])
    then show "DecryptBlock_bytes pf st (block_at ?e j) = block_at buf j"
      using l by (simp add: DecryptBlock_bytes_EncryptBlock_bytes)
  qed
  have tail: "drop (8 * ?k) ?e = drop (8 * ?k) buf"
    by (simp add: length_concat_blocks length_EncryptBlock_bytes)
  have dec: "Decrypt pf st dst ?e ?n = Inr buf"
    if "case dst of SameAsSrc \<Rightarrow> True | Separate d \<Rightarrow> length d = length buf" for dst
  proof -
    have n': "0 \<le> ?n" "nat ?n \<le> length ?e" using le by simp_all
    have d: "case dst of SameAsSrc \<Rightarrow> True | Separate d \<Rightarrow> nat ?n \<le> length d"
      using that by (cases dst) simp_all
    have r: "drop (8 * ?k) (case dst of SameAsSrc \<Rightarrow> ?e
                              | Separate d \<Rightarrow> take (nat ?n) ?e @ drop (nat ?n) d)
               = drop (8 * ?k) buf"
      using that le tail by (cases dst) simp_all
    have "concat (map (block_at buf) [0..<?k]) @ drop (8 * ?k) buf = buf"
      using k8 by (simp add: concat_block_at)
    then show ?thesis
      unfolding Decrypt_closed [OF n' d] k blocks r by simp
  qed
  show ?thesis
    using enc [of SameAsSrc] dec [of SameAsSrc] le
      enc [of "Separate d" for d] dec [of "Separate d" for d]
    by auto
qed

theorem C9_buffer_round_trip_witness:
  "(\<exists>e. Encrypt x86_default constants_state SameAsSrc [1, 2, 3, 4, 5, 6, 7, 8, 9] 9 = Inr e
        \<and> Decrypt x86_default constants_state SameAsSrc e 9 = Inr [1, 2, 3, 4, 5, 6, 7, 8, 9])
   \<and> length (replicate 9 (0 :: u8)) = length [1, 2, 3, 4, 5, 6, 7, 8, 9 :: u8]
   \<and> (\<exists>e. Encrypt x86_default constants_state (Separate (replicate 9 0))
               [1, 2, 3, 4, 5, 6, 7, 8, 9] 9 = Inr e
        \<and> Decrypt x86_default constants_state (Separate (replicate 9 0)) e 9
            = Inr [1, 2, 3, 4, 5, 6, 7, 8, 9])"
proof -
  let ?b = "[1, 2, 3, 4, 5, 6, 7, 8, 9 :: u8]"
  have l: "length (replicate 9 (0 :: u8)) = length ?b" by simp
  have n: "int (length ?b) = 9" by simp
  note t = C9_buffer_round_trip [of x86_default constants_state ?b, unfolded n]
  from t have "\<exists>e. Encrypt x86_default constants_state SameAsSrc ?b 9 = Inr e
        \<and> Decrypt x86_default constants_state SameAsSrc e 9 = Inr ?b"
    by blast
  moreover from t l have "\<exists>e. Encrypt x86_default constants_state (Separate (replicate 9 0)) ?b 9 = Inr e
        \<and> Decrypt x86_default constants_state (Separate (replicate 9 0)) e 9 = Inr ?b"
    by blast
  ultimately show ?thesis using l by blast
qed


text \<open>
  C1. For every state, hence for every state a completed key schedule returns, and for
  every block \<open>(l, r)\<close>: decrypting the encrypted block gives \<open>(l, r)\<close> back, and each of
  the two calls leaves the object as it was.
\<close>

theorem C1_block_round_trip:
  "DecryptBlock_call pf (EncryptBlock_call pf (st, l, r)) = (st, l, r)
   \<and> fst (EncryptBlock_call pf (st, l, r)) = st
   \<and> fst (DecryptBlock_call pf (st, l, r)) = st
   \<and> DecryptBlock pf st (EncryptBlock pf st (l, r)) = (l, r)"
  by (simp add: EncryptBlock_call_def DecryptBlock_call_def DecryptBlock_EncryptBlock)

text \<open>
  C10. For a key \<open>k\<close> of at least one byte whose doubled length still fits the \<open>int\<close>
  parameter, \<open>SetKey\<close> with \<open>k @ k\<close> ends exactly as \<open>SetKey\<close> with \<open>k\<close>; and it
  completes, with a state, whenever the index arithmetic of Step 3 stays within \<open>int\<close>.
\<close>

theorem C10_doubled_key_same_state:
  "k \<noteq> [] \<Longrightarrow> 2 * int (length k) \<le> INT_MAX \<Longrightarrow>
   SetKey pf this (k @ k) (int (length (k @ k))) = SetKey pf this k (int (length k))
   \<and> (int (length k) * 4 \<le> INT_MAX + 1 \<longrightarrow>
        (\<exists>st. SetKey pf this k (int (length k)) = Inr st
              \<and> SetKey pf this (k @ k) (int (length (k @ k))) = Inr st))"
proof -
  assume k: "k \<noteq> []" and m: "2 * int (length k) \<le> INT_MAX"
  have e: "SetKey pf this (k @ k) (int (length (k @ k))) = SetKey pf this k (int (length k))"
    using k m by (rule SetKey_doubled)
  have "\<exists>st. SetKey pf this k (int (length k)) = Inr st"
    if "int (length k) * 4 \<le> INT_MAX + 1"
  proof -
    have "(int (length k) div gcd (int (length k)) 4) * 4 \<le> int (length k) * 4"
      using word_count_le [of "int (length k)"] by simp
    with that have "(int (length k) div gcd (int (length k)) 4) * 4 \<le> INT_MAX + 1"
      by linarith
    with k show ?thesis by (rule SetKey_completes)
  qed
  with e show ?thesis by auto
qed

theorem C10_doubled_key_same_state_witness:
  "[0x61, 0x62, 0x63 :: u8] \<noteq> [] \<and> 2 * int (length [0x61, 0x62, 0x63 :: u8]) \<le> INT_MAX
   \<and> SetKey x86_default \<lparr>pary = [], sbox = []\<rparr> ([0x61, 0x62, 0x63] @ [0x61, 0x62, 0x63]) 6
       = SetKey x86_default \<lparr>pary = [], sbox = []\<rparr> [0x61, 0x62, 0x63] 3
   \<and> int (length [0x61, 0x62, 0x63 :: u8]) * 4 \<le> INT_MAX + 1
   \<and> (\<exists>st. SetKey x86_default \<lparr>pary = [], sbox = []\<rparr> [0x61, 0x62, 0x63] 3 = Inr st)"
proof -
  have a: "[0x61, 0x62, 0x63 :: u8] \<noteq> []"
    and b: "2 * int (length [0x61, 0x62, 0x63 :: u8]) \<le> INT_MAX"
    and c: "int (length [0x61, 0x62, 0x63 :: u8]) * 4 \<le> INT_MAX + 1"
    by (simp_all add: INT_MAX_def)
  from C10_doubled_key_same_state [OF a b, of x86_default "\<lparr>pary = [], sbox = []\<rparr>"] c
  have "SetKey x86_default \<lparr>pary = [], sbox = []\<rparr> ([0x61, 0x62, 0x63] @ [0x61, 0x62, 0x63]) 6
          = SetKey x86_default \<lparr>pary = [], sbox = []\<rparr> [0x61, 0x62, 0x63] 3"
    and "\<exists>st. SetKey x86_default \<lparr>pary = [], sbox = []\<rparr> [0x61, 0x62, 0x63] 3 = Inr st"
    by auto
  with a b c show ?thesis by blast
qed


subsection \<open>The cipher on hexadecimal digits computes what the model computes\<close>

lemma hv_less: "hv h < 16"
  by (cases h) simp_all

lemma hex_of_hv: "hex_of (hv h) = h"
  by (cases h) (simp_all add: hex_of_def hexes_def)

lemma hxor_table:
  "hxor H0 H0 = H0" "hxor H0 H1 = H1" "hxor H0 H2 = H2" "hxor H0 H3 = H3"
  "hxor H0 H4 = H4" "hxor H0 H5 = H5" "hxor H0 H6 = H6" "hxor H0 H7 = H7"
  "hxor H0 H8 = H8" "hxor H0 H9 = H9" "hxor H0 HA = HA" "hxor H0 HB = HB"
  "hxor H0 HC = HC" "hxor H0 HD = HD" "hxor H0 HE = HE" "hxor H0 HF = HF"
  "hxor H1 H0 = H1" "hxor H1 H1 = H0" "hxor H1 H2 = H3" "hxor H1 H3 = H2"
  "hxor H1 H4 = H5" "hxor H1 H5 = H4" "hxor H1 H6 = H7" "hxor H1 H7 = H6"
  "hxor H1 H8 = H9" "hxor H1 H9 = H8" "hxor H1 HA = HB" "hxor H1 HB = HA"
  "hxor H1 HC = HD" "hxor H1 HD = HC" "hxor H1 HE = HF" "hxor H1 HF = HE"
  "hxor H2 H0 = H2" "hxor H2 H1 = H3" "hxor H2 H2 = H0" "hxor H2 H3 = H1"
  "hxor H2 H4 = H6" "hxor H2 H5 = H7" "hxor H2 H6 = H4" "hxor H2 H7 = H5"
  "hxor H2 H8 = HA" "hxor H2 H9 = HB" "hxor H2 HA = H8" "hxor H2 HB = H9"
  "hxor H2 HC = HE" "hxor H2 HD = HF" "hxor H2 HE = HC" "hxor H2 HF = HD"
  "hxor H3 H0 = H3" "hxor H3 H1 = H2" "hxor H3 H2 = H1" "hxor H3 H3 = H0"
  "hxor H3 H4 = H7" "hxor H3 H5 = H6" "hxor H3 H6 = H5" "hxor H3 H7 = H4"
  "hxor H3 H8 = HB" "hxor H3 H9 = HA" "hxor H3 HA = H9" "hxor H3 HB = H8"
  "hxor H3 HC = HF" "hxor H3 HD = HE" "hxor H3 HE = HD" "hxor H3 HF = HC"
  "hxor H4 H0 = H4" "hxor H4 H1 = H5" "hxor H4 H2 = H6" "hxor H4 H3 = H7"
  "hxor H4 H4 = H0" "hxor H4 H5 = H1" "hxor H4 H6 = H2" "hxor H4 H7 = H3"
  "hxor H4 H8 = HC" "hxor H4 H9 = HD" "hxor H4 HA = HE" "hxor H4 HB = HF"
  "hxor H4 HC = H8" "hxor H4 HD = H9" "hxor H4 HE = HA" "hxor H4 HF = HB"
  "hxor H5 H0 = H5" "hxor H5 H1 = H4" "hxor H5 H2 = H7" "hxor H5 H3 = H6"
  "hxor H5 H4 = H1" "hxor H5 H5 = H0" "hxor H5 H6 = H3" "hxor H5 H7 = H2"
  "hxor H5 H8 = HD" "hxor H5 H9 = HC" "hxor H5 HA = HF" "hxor H5 HB = HE"
  "hxor H5 HC = H9" "hxor H5 HD = H8" "hxor H5 HE = HB" "hxor H5 HF = HA"
  "hxor H6 H0 = H6" "hxor H6 H1 = H7" "hxor H6 H2 = H4" "hxor H6 H3 = H5"
  "hxor H6 H4 = H2" "hxor H6 H5 = H3" "hxor H6 H6 = H0" "hxor H6 H7 = H1"
  "hxor H6 H8 = HE" "hxor H6 H9 = HF" "hxor H6 HA = HC" "hxor H6 HB = HD"
  "hxor H6 HC = HA" "hxor H6 HD = HB" "hxor H6 HE = H8" "hxor H6 HF = H9"
  "hxor H7 H0 = H7" "hxor H7 H1 = H6" "hxor H7 H2 = H5" "hxor H7 H3 = H4"
  "hxor H7 H4 = H3" "hxor H7 H5 = H2" "hxor H7 H6 = H1" "hxor H7 H7 = H0"
  "hxor H7 H8 = HF" "hxor H7 H9 = HE" "hxor H7 HA = HD" "hxor H7 HB = HC"
  "hxor H7 HC = HB" "hxor H7 HD = HA" "hxor H7 HE = H9" "hxor H7 HF = H8"
  "hxor H8 H0 = H8" "hxor H8 H1 = H9" "hxor H8 H2 = HA" "hxor H8 H3 = HB"
  "hxor H8 H4 = HC" "hxor H8 H5 = HD" "hxor H8 H6 = HE" "hxor H8 H7 = HF"
  "hxor H8 H8 = H0" "hxor H8 H9 = H1" "hxor H8 HA = H2" "hxor H8 HB = H3"
  "hxor H8 HC = H4" "hxor H8 HD = H5" "hxor H8 HE = H6" "hxor H8 HF = H7"
  "hxor H9 H0 = H9" "hxor H9 H1 = H8" "hxor H9 H2 = HB" "hxor H9 H3 = HA"
  "hxor H9 H4 = HD" "hxor H9 H5 = HC" "hxor H9 H6 = HF" "hxor H9 H7 = HE"
  "hxor H9 H8 = H1" "hxor H9 H9 = H0" "hxor H9 HA = H3" "hxor H9 HB = H2"
  "hxor H9 HC = H5" "hxor H9 HD = H4" "hxor H9 HE = H7" "hxor H9 HF = H6"
  "hxor HA H0 = HA" "hxor HA H1 = HB" "hxor HA H2 = H8" "hxor HA H3 = H9"
  "hxor HA H4 = HE" "hxor HA H5 = HF" "hxor HA H6 = HC" "hxor HA H7 = HD"
  "hxor HA H8 = H2" "hxor HA H9 = H3" "hxor HA HA = H0" "hxor HA HB = H1"
  "hxor HA HC = H6" "hxor HA HD = H7" "hxor HA HE = H4" "hxor HA HF = H5"
  "hxor HB H0 = HB" "hxor HB H1 = HA" "hxor HB H2 = H9" "hxor HB H3 = H8"
  "hxor HB H4 = HF" "hxor HB H5 = HE" "hxor HB H6 = HD" "hxor HB H7 = HC"
  "hxor HB H8 = H3" "hxor HB H9 = H2" "hxor HB HA = H1" "hxor HB HB = H0"
  "hxor HB HC = H7" "hxor HB HD = H6" "hxor HB HE = H5" "hxor HB HF = H4"
  "hxor HC H0 = HC" "hxor HC H1 = HD" "hxor HC H2 = HE" "hxor HC H3 = HF"
  "hxor HC H4 = H8" "hxor HC H5 = H9" "hxor HC H6 = HA" "hxor HC H7 = HB"
  "hxor HC H8 = H4" "hxor HC H9 = H5" "hxor HC HA = H6" "hxor HC HB = H7"
  "hxor HC HC = H0" "hxor HC HD = H1" "hxor HC HE = H2" "hxor HC HF = H3"
  "hxor HD H0 = HD" "hxor HD H1 = HC" "hxor HD H2 = HF" "hxor HD H3 = HE"
  "hxor HD H4 = H9" "hxor HD H5 = H8" "hxor HD H6 = HB" "hxor HD H7 = HA"
  "hxor HD H8 = H5" "hxor HD H9 = H4" "hxor HD HA = H7" "hxor HD HB = H6"
  "hxor HD HC = H1" "hxor HD HD = H0" "hxor HD HE = H3" "hxor HD HF = H2"
  "hxor HE H0 = HE" "hxor HE H1 = HF" "hxor HE H2 = HC" "hxor HE H3 = HD"
  "hxor HE H4 = HA" "hxor HE H5 = HB" "hxor HE H6 = H8" "hxor HE H7 = H9"
  "hxor HE H8 = H6" "hxor HE H9 = H7" "hxor HE HA = H4" "hxor HE HB = H5"
  "hxor HE HC = H2" "hxor HE HD = H3" "hxor HE HE = H0" "hxor HE HF = H1"
  "hxor HF H0 = HF" "hxor HF H1 = HE" "hxor HF H2 = HD" "hxor HF H3 = HC"
  "hxor HF H4 = HB" "hxor HF H5 = HA" "hxor HF H6 = H9" "hxor HF H7 = H8"
  "hxor HF H8 = H7" "hxor HF H9 = H6" "hxor HF HA = H5" "hxor HF HB = H4"
  "hxor HF HC = H3" "hxor HF HD = H2" "hxor HF HE = H1" "hxor HF HF = H0"
  by (simp_all add: hxor_def hex_of_def hexes_def)

lemma hsum_table:
  "hsum False H0 H0 = H0" "hsum False H0 H1 = H1" "hsum False H0 H2 = H2" "hsum False H0 H3 = H3"
  "hsum False H0 H4 = H4" "hsum False H0 H5 = H5" "hsum False H0 H6 = H6" "hsum False H0 H7 = H7"
  "hsum False H0 H8 = H8" "hsum False H0 H9 = H9" "hsum False H0 HA = HA" "hsum False H0 HB = HB"
  "hsum False H0 HC = HC" "hsum False H0 HD = HD" "hsum False H0 HE = HE" "hsum False H0 HF = HF"
  "hsum False H1 H0 = H1" "hsum False H1 H1 = H2" "hsum False H1 H2 = H3" "hsum False H1 H3 = H4"
  "hsum False H1 H4 = H5" "hsum False H1 H5 = H6" "hsum False H1 H6 = H7" "hsum False H1 H7 = H8"
  "hsum False H1 H8 = H9" "hsum False H1 H9 = HA" "hsum False H1 HA = HB" "hsum False H1 HB = HC"
  "hsum False H1 HC = HD" "hsum False H1 HD = HE" "hsum False H1 HE = HF" "hsum False H1 HF = H0"
  "hsum False H2 H0 = H2" "hsum False H2 H1 = H3" "hsum False H2 H2 = H4" "hsum False H2 H3 = H5"
  "hsum False H2 H4 = H6" "hsum False H2 H5 = H7" "hsum False H2 H6 = H8" "hsum False H2 H7 = H9"
  "hsum False H2 H8 = HA" "hsum False H2 H9 = HB" "hsum False H2 HA = HC" "hsum False H2 HB = HD"
  "hsum False H2 HC = HE" "hsum False H2 HD = HF" "hsum False H2 HE = H0" "hsum False H2 HF = H1"
  "hsum False H3 H0 = H3" "hsum False H3 H1 = H4" "hsum False H3 H2 = H5" "hsum False H3 H3 = H6"
  "hsum False H3 H4 = H7" "hsum False H3 H5 = H8" "hsum False H3 H6 = H9" "hsum False H3 H7 = HA"
  "hsum False H3 H8 = HB" "hsum False H3 H9 = HC" "hsum False H3 HA = HD" "hsum False H3 HB = HE"
  "hsum False H3 HC = HF" "hsum False H3 HD = H0" "hsum False H3 HE = H1" "hsum False H3 HF = H2"
  "hsum False H4 H0 = H4" "hsum False H4 H1 = H5" "hsum False H4 H2 = H6" "hsum False H4 H3 = H7"
  "hsum False H4 H4 = H8" "hsum False H4 H5 = H9" "hsum False H4 H6 = HA" "hsum False H4 H7 = HB"
  "hsum False H4 H8 = HC" "hsum False H4 H9 = HD" "hsum False H4 HA = HE" "hsum False H4 HB = HF"
  "hsum False H4 HC = H0" "hsum False H4 HD = H1" "hsum False H4 HE = H2" "hsum False H4 HF = H3"
  "hsum False H5 H0 = H5" "hsum False H5 H1 = H6" "hsum False H5 H2 = H7" "hsum False H5 H3 = H8"
  "hsum False H5 H4 = H9" "hsum False H5 H5 = HA" "hsum False H5 H6 = HB" "hsum False H5 H7 = HC"
  "hsum False H5 H8 = HD" "hsum False H5 H9 = HE" "hsum False H5 HA = HF" "hsum False H5 HB = H0"
  "hsum False H5 HC = H1" "hsum False H5 HD = H2" "hsum False H5 HE = H3" "hsum False H5 HF = H4"
  "hsum False H6 H0 = H6" "hsum False H6 H1 = H7" "hsum False H6 H2 = H8" "hsum False H6 H3 = H9"
  "hsum False H6 H4 = HA" "hsum False H6 H5 = HB" "hsum False H6 H6 = HC" "hsum False H6 H7 = HD"
  "hsum False H6 H8 = HE" "hsum False H6 H9 = HF" "hsum False H6 HA = H0" "hsum False H6 HB = H1"
  "hsum False H6 HC = H2" "hsum False H6 HD = H3" "hsum False H6 HE = H4" "hsum False H6 HF = H5"
  "hsum False H7 H0 = H7" "hsum False H7 H1 = H8" "hsum False H7 H2 = H9" "hsum False H7 H3 = HA"
  "hsum False H7 H4 = HB" "hsum False H7 H5 = HC" "hsum False H7 H6 = HD" "hsum False H7 H7 = HE"
  "hsum False H7 H8 = HF" "hsum False H7 H9 = H0" "hsum False H7 HA = H1" "hsum False H7 HB = H2"
  "hsum False H7 HC = H3" "hsum False H7 HD = H4" "hsum False H7 HE = H5" "hsum False H7 HF = H6"
  "hsum False H8 H0 = H8" "hsum False H8 H1 = H9" "hsum False H8 H2 = HA" "hsum False H8 H3 = HB"
  "hsum False H8 H4 = HC" "hsum False H8 H5 = HD" "hsum False H8 H6 = HE" "hsum False H8 H7 = HF"
  "hsum False H8 H8 = H0" "hsum False H8 H9 = H1" "hsum False H8 HA = H2" "hsum False H8 HB = H3"
  "hsum False H8 HC = H4" "hsum False H8 HD = H5" "hsum False H8 HE = H6" "hsum False H8 HF = H7"
  "hsum False H9 H0 = H9" "hsum False H9 H1 = HA" "hsum False H9 H2 = HB" "hsum False H9 H3 = HC"
  "hsum False H9 H4 = HD" "hsum False H9 H5 = HE" "hsum False H9 H6 = HF" "hsum False H9 H7 = H0"
  "hsum False H9 H8 = H1" "hsum False H9 H9 = H2" "hsum False H9 HA = H3" "hsum False H9 HB = H4"
  "hsum False H9 HC = H5" "hsum False H9 HD = H6" "hsum False H9 HE = H7" "hsum False H9 HF = H8"
  "hsum False HA H0 = HA" "hsum False HA H1 = HB" "hsum False HA H2 = HC" "hsum False HA H3 = HD"
  "hsum False HA H4 = HE" "hsum False HA H5 = HF" "hsum False HA H6 = H0" "hsum False HA H7 = H1"
  "hsum False HA H8 = H2" "hsum False HA H9 = H3" "hsum False HA HA = H4" "hsum False HA HB = H5"
  "hsum False HA HC = H6" "hsum False HA HD = H7" "hsum False HA HE = H8" "hsum False HA HF = H9"
  "hsum False HB H0 = HB" "hsum False HB H1 = HC" "hsum False HB H2 = HD" "hsum False HB H3 = HE"
  "hsum False HB H4 = HF" "hsum False HB H5 = H0" "hsum False HB H6 = H1" "hsum False HB H7 = H2"
  "hsum False HB H8 = H3" "hsum False HB H9 = H4" "hsum False HB HA = H5" "hsum False HB HB = H6"
  "hsum False HB HC = H7" "hsum False HB HD = H8" "hsum False HB HE = H9" "hsum False HB HF = HA"
  "hsum False HC H0 = HC" "hsum False HC H1 = HD" "hsum False HC H2 = HE" "hsum False HC H3 = HF"
  "hsum False HC H4 = H0" "hsum False HC H5 = H1" "hsum False HC H6 = H2" "hsum False HC H7 = H3"
  "hsum False HC H8 = H4" "hsum False HC H9 = H5" "hsum False HC HA = H6" "hsum False HC HB = H7"
  "hsum False HC HC = H8" "hsum False HC HD = H9" "hsum False HC HE = HA" "hsum False HC HF = HB"
  "hsum False HD H0 = HD" "hsum False HD H1 = HE" "hsum False HD H2 = HF" "hsum False HD H3 = H0"
  "hsum False HD H4 = H1" "hsum False HD H5 = H2" "hsum False HD H6 = H3" "hsum False HD H7 = H4"
  "hsum False HD H8 = H5" "hsum False HD H9 = H6" "hsum False HD HA = H7" "hsum False HD HB = H8"
  "hsum False HD HC = H9" "hsum False HD HD = HA" "hsum False HD HE = HB" "hsum False HD HF = HC"
  "hsum False HE H0 = HE" "hsum False HE H1 = HF" "hsum False HE H2 = H0" "hsum False HE H3 = H1"
  "hsum False HE H4 = H2" "hsum False HE H5 = H3" "hsum False HE H6 = H4" "hsum False HE H7 = H5"
  "hsum False HE H8 = H6" "hsum False HE H9 = H7" "hsum False HE HA = H8" "hsum False HE HB = H9"
  "hsum False HE HC = HA" "hsum False HE HD = HB" "hsum False HE HE = HC" "hsum False HE HF = HD"
  "hsum False HF H0 = HF" "hsum False HF H1 = H0" "hsum False HF H2 = H1" "hsum False HF H3 = H2"
  "hsum False HF H4 = H3" "hsum False HF H5 = H4" "hsum False HF H6 = H5" "hsum False HF H7 = H6"
  "hsum False HF H8 = H7" "hsum False HF H9 = H8" "hsum False HF HA = H9" "hsum False HF HB = HA"
  "hsum False HF HC = HB" "hsum False HF HD = HC" "hsum False HF HE = HD" "hsum False HF HF = HE"
  "hsum True H0 H0 = H1" "hsum True H0 H1 = H2" "hsum True H0 H2 = H3" "hsum True H0 H3 = H4"
  "hsum True H0 H4 = H5" "hsum True H0 H5 = H6" "hsum True H0 H6 = H7" "hsum True H0 H7 = H8"
  "hsum True H0 H8 = H9" "hsum True H0 H9 = HA" "hsum True H0 HA = HB" "hsum True H0 HB = HC"
  "hsum True H0 HC = HD" "hsum True H0 HD = HE" "hsum True H0 HE = HF" "hsum True H0 HF = H0"
  "hsum True H1 H0 = H2" "hsum True H1 H1 = H3" "hsum True H1 H2 = H4" "hsum True H1 H3 = H5"
  "hsum True H1 H4 = H6" "hsum True H1 H5 = H7" "hsum True H1 H6 = H8" "hsum True H1 H7 = H9"
  "hsum True H1 H8 = HA" "hsum True H1 H9 = HB" "hsum True H1 HA = HC" "hsum True H1 HB = HD"
  "hsum True H1 HC = HE" "hsum True H1 HD = HF" "hsum True H1 HE = H0" "hsum True H1 HF = H1"
  "hsum True H2 H0 = H3" "hsum True H2 H1 = H4" "hsum True H2 H2 = H5" "hsum True H2 H3 = H6"
  "hsum True H2 H4 = H7" "hsum True H2 H5 = H8" "hsum True H2 H6 = H9" "hsum True H2 H7 = HA"
  "hsum True H2 H8 = HB" "hsum True H2 H9 = HC" "hsum True H2 HA = HD" "hsum True H2 HB = HE"
  "hsum True H2 HC = HF" "hsum True H2 HD = H0" "hsum True H2 HE = H1" "hsum True H2 HF = H2"
  "hsum True H3 H0 = H4" "hsum True H3 H1 = H5" "hsum True H3 H2 = H6" "hsum True H3 H3 = H7"
  "hsum True H3 H4 = H8" "hsum True H3 H5 = H9" "hsum True H3 H6 = HA" "hsum True H3 H7 = HB"
  "hsum True H3 H8 = HC" "hsum True H3 H9 = HD" "hsum True H3 HA = HE" "hsum True H3 HB = HF"
  "hsum True H3 HC = H0" "hsum True H3 HD = H1" "hsum True H3 HE = H2" "hsum True H3 HF = H3"
  "hsum True H4 H0 = H5" "hsum True H4 H1 = H6" "hsum True H4 H2 = H7" "hsum True H4 H3 = H8"
  "hsum True H4 H4 = H9" "hsum True H4 H5 = HA" "hsum True H4 H6 = HB" "hsum True H4 H7 = HC"
  "hsum True H4 H8 = HD" "hsum True H4 H9 = HE" "hsum True H4 HA = HF" "hsum True H4 HB = H0"
  "hsum True H4 HC = H1" "hsum True H4 HD = H2" "hsum True H4 HE = H3" "hsum True H4 HF = H4"
  "hsum True H5 H0 = H6" "hsum True H5 H1 = H7" "hsum True H5 H2 = H8" "hsum True H5 H3 = H9"
  "hsum True H5 H4 = HA" "hsum True H5 H5 = HB" "hsum True H5 H6 = HC" "hsum True H5 H7 = HD"
  "hsum True H5 H8 = HE" "hsum True H5 H9 = HF" "hsum True H5 HA = H0" "hsum True H5 HB = H1"
  "hsum True H5 HC = H2" "hsum True H5 HD = H3" "hsum True H5 HE = H4" "hsum True H5 HF = H5"
  "hsum True H6 H0 = H7" "hsum True H6 H1 = H8" "hsum True H6 H2 = H9" "hsum True H6 H3 = HA"
  "hsum True H6 H4 = HB" "hsum True H6 H5 = HC" "hsum True H6 H6 = HD" "hsum True H6 H7 = HE"
  "hsum True H6 H8 = HF" "hsum True H6 H9 = H0" "hsum True H6 HA = H1" "hsum True H6 HB = H2"
  "hsum True H6 HC = H3" "hsum True H6 HD = H4" "hsum True H6 HE = H5" "hsum True H6 HF = H6"
  "hsum True H7 H0 = H8" "hsum True H7 H1 = H9" "hsum True H7 H2 = HA" "hsum True H7 H3 = HB"
  "hsum True H7 H4 = HC" "hsum True H7 H5 = HD" "hsum True H7 H6 = HE" "hsum True H7 H7 = HF"
  "hsum True H7 H8 = H0" "hsum True H7 H9 = H1" "hsum True H7 HA = H2" "hsum True H7 HB = H3"
  "hsum True H7 HC = H4" "hsum True H7 HD = H5" "hsum True H7 HE = H6" "hsum True H7 HF = H7"
  "hsum True H8 H0 = H9" "hsum True H8 H1 = HA" "hsum True H8 H2 = HB" "hsum True H8 H3 = HC"
  "hsum True H8 H4 = HD" "hsum True H8 H5 = HE" "hsum True H8 H6 = HF" "hsum True H8 H7 = H0"
  "hsum True H8 H8 = H1" "hsum True H8 H9 = H2" "hsum True H8 HA = H3" "hsum True H8 HB = H4"
  "hsum True H8 HC = H5" "hsum True H8 HD = H6" "hsum True H8 HE = H7" "hsum True H8 HF = H8"
  "hsum True H9 H0 = HA" "hsum True H9 H1 = HB" "hsum True H9 H2 = HC" "hsum True H9 H3 = HD"
  "hsum True H9 H4 = HE" "hsum True H9 H5 = HF" "hsum True H9 H6 = H0" "hsum True H9 H7 = H1"
  "hsum True H9 H8 = H2" "hsum True H9 H9 = H3" "hsum True H9 HA = H4" "hsum True H9 HB = H5"
  "hsum True H9 HC = H6" "hsum True H9 HD = H7" "hsum True H9 HE = H8" "hsum True H9 HF = H9"
  "hsum True HA H0 = HB" "hsum True HA H1 = HC" "hsum True HA H2 = HD" "hsum True HA H3 = HE"
  "hsum True HA H4 = HF" "hsum True HA H5 = H0" "hsum True HA H6 = H1" "hsum True HA H7 = H2"
  "hsum True HA H8 = H3" "hsum True HA H9 = H4" "hsum True HA HA = H5" "hsum True HA HB = H6"
  "hsum True HA HC = H7" "hsum True HA HD = H8" "hsum True HA HE = H9" "hsum True HA HF = HA"
  "hsum True HB H0 = HC" "hsum True HB H1 = HD" "hsum True HB H2 = HE" "hsum True HB H3 = HF"
  "hsum True HB H4 = H0" "hsum True HB H5 = H1" "hsum True HB H6 = H2" "hsum True HB H7 = H3"
  "hsum True HB H8 = H4" "hsum True HB H9 = H5" "hsum True HB HA = H6" "hsum True HB HB = H7"
  "hsum True HB HC = H8" "hsum True HB HD = H9" "hsum True HB HE = HA" "hsum True HB HF = HB"
  "hsum True HC H0 = HD" "hsum True HC H1 = HE" "hsum True HC H2 = HF" "hsum True HC H3 = H0"
  "hsum True HC H4 = H1" "hsum True HC H5 = H2" "hsum True HC H6 = H3" "hsum True HC H7 = H4"
  "hsum True HC H8 = H5" "hsum True HC H9 = H6" "hsum True HC HA = H7" "hsum True HC HB = H8"
  "hsum True HC HC = H9" "hsum True HC HD = HA" "hsum True HC HE = HB" "hsum True HC HF = HC"
  "hsum True HD H0 = HE" "hsum True HD H1 = HF" "hsum True HD H2 = H0" "hsum True HD H3 = H1"
  "hsum True HD H4 = H2" "hsum True HD H5 = H3" "hsum True HD H6 = H4" "hsum True HD H7 = H5"
  "hsum True HD H8 = H6" "hsum True HD H9 = H7" "hsum True HD HA = H8" "hsum True HD HB = H9"
  "hsum True HD HC = HA" "hsum True HD HD = HB" "hsum True HD HE = HC" "hsum True HD HF = HD"
  "hsum True HE H0 = HF" "hsum True HE H1 = H0" "hsum True HE H2 = H1" "hsum True HE H3 = H2"
  "hsum True HE H4 = H3" "hsum True HE H5 = H4" "hsum True HE H6 = H5" "hsum True HE H7 = H6"
  "hsum True HE H8 = H7" "hsum True HE H9 = H8" "hsum True HE HA = H9" "hsum True HE HB = HA"
  "hsum True HE HC = HB" "hsum True HE HD = HC" "hsum True HE HE = HD" "hsum True HE HF = HE"
  "hsum True HF H0 = H0" "hsum True HF H1 = H1" "hsum True HF H2 = H2" "hsum True HF H3 = H3"
  "hsum True HF H4 = H4" "hsum True HF H5 = H5" "hsum True HF H6 = H6" "hsum True HF H7 = H7"
  "hsum True HF H8 = H8" "hsum True HF H9 = H9" "hsum True HF HA = HA" "hsum True HF HB = HB"
  "hsum True HF HC = HC" "hsum True HF HD = HD" "hsum True HF HE = HE" "hsum True HF HF = HF"
  by (simp_all add: hsum_def hex_of_def hexes_def)

lemma hcar_table:
  "hcar False H0 H0 = False" "hcar False H0 H1 = False" "hcar False H0 H2 = False" "hcar False H0 H3 = False"
  "hcar False H0 H4 = False" "hcar False H0 H5 = False" "hcar False H0 H6 = False" "hcar False H0 H7 = False"
  "hcar False H0 H8 = False" "hcar False H0 H9 = False" "hcar False H0 HA = False" "hcar False H0 HB = False"
  "hcar False H0 HC = False" "hcar False H0 HD = False" "hcar False H0 HE = False" "hcar False H0 HF = False"
  "hcar False H1 H0 = False" "hcar False H1 H1 = False" "hcar False H1 H2 = False" "hcar False H1 H3 = False"
  "hcar False H1 H4 = False" "hcar False H1 H5 = False" "hcar False H1 H6 = False" "hcar False H1 H7 = False"
  "hcar False H1 H8 = False" "hcar False H1 H9 = False" "hcar False H1 HA = False" "hcar False H1 HB = False"
  "hcar False H1 HC = False" "hcar False H1 HD = False" "hcar False H1 HE = False" "hcar False H1 HF = True"
  "hcar False H2 H0 = False" "hcar False H2 H1 = False" "hcar False H2 H2 = False" "hcar False H2 H3 = False"
  "hcar False H2 H4 = False" "hcar False H2 H5 = False" "hcar False H2 H6 = False" "hcar False H2 H7 = False"
  "hcar False H2 H8 = False" "hcar False H2 H9 = False" "hcar False H2 HA = False" "hcar False H2 HB = False"
  "hcar False H2 HC = False" "hcar False H2 HD = False" "hcar False H2 HE = True" "hcar False H2 HF = True"
  "hcar False H3 H0 = False" "hcar False H3 H1 = False" "hcar False H3 H2 = False" "hcar False H3 H3 = False"
  "hcar False H3 H4 = False" "hcar False H3 H5 = False" "hcar False H3 H6 = False" "hcar False H3 H7 = False"
  "hcar False H3 H8 = False" "hcar False H3 H9 = False" "hcar False H3 HA = False" "hcar False H3 HB = False"
  "hcar False H3 HC = False" "hcar False H3 HD = True" "hcar False H3 HE = True" "hcar False H3 HF = True"
  "hcar False H4 H0 = False" "hcar False H4 H1 = False" "hcar False H4 H2 = False" "hcar False H4 H3 = False"
  "hcar False H4 H4 = False" "hcar False H4 H5 = False" "hcar False H4 H6 = False" "hcar False H4 H7 = False"
  "hcar False H4 H8 = False" "hcar False H4 H9 = False" "hcar False H4 HA = False" "hcar False H4 HB = False"
  "hcar False H4 HC = True" "hcar False H4 HD = True" "hcar False H4 HE = True" "hcar False H4 HF = True"
  "hcar False H5 H0 = False" "hcar False H5 H1 = False" "hcar False H5 H2 = False" "hcar False H5 H3 = False"
  "hcar False H5 H4 = False" "hcar False H5 H5 = False" "hcar False H5 H6 = False" "hcar False H5 H7 = False"
  "hcar False H5 H8 = False" "hcar False H5 H9 = False" "hcar False H5 HA = False" "hcar False H5 HB = True"
  "hcar False H5 HC = True" "hcar False H5 HD = True" "hcar False H5 HE = True" "hcar False H5 HF = True"
  "hcar False H6 H0 = False" "hcar False H6 H1 = False" "hcar False H6 H2 = False" "hcar False H6 H3 = False"
  "hcar False H6 H4 = False" "hcar False H6 H5 = False" "hcar False H6 H6 = False" "hcar False H6 H7 = False"
  "hcar False H6 H8 = False" "hcar False H6 H9 = False" "hcar False H6 HA = True" "hcar False H6 HB = True"
  "hcar False H6 HC = True" "hcar False H6 HD = True" "hcar False H6 HE = True" "hcar False H6 HF = True"
  "hcar False H7 H0 = False" "hcar False H7 H1 = False" "hcar False H7 H2 = False" "hcar False H7 H3 = False"
  "hcar False H7 H4 = False" "hcar False H7 H5 = False" "hcar False H7 H6 = False" "hcar False H7 H7 = False"
  "hcar False H7 H8 = False" "hcar False H7 H9 = True" "hcar False H7 HA = True" "hcar False H7 HB = True"
  "hcar False H7 HC = True" "hcar False H7 HD = True" "hcar False H7 HE = True" "hcar False H7 HF = True"
  "hcar False H8 H0 = False" "hcar False H8 H1 = False" "hcar False H8 H2 = False" "hcar False H8 H3 = False"
  "hcar False H8 H4 = False" "hcar False H8 H5 = False" "hcar False H8 H6 = False" "hcar False H8 H7 = False"
  "hcar False H8 H8 = True" "hcar False H8 H9 = True" "hcar False H8 HA = True" "hcar False H8 HB = True"
  "hcar False H8 HC = True" "hcar False H8 HD = True" "hcar False H8 HE = True" "hcar False H8 HF = True"
  "hcar False H9 H0 = False" "hcar False H9 H1 = False" "hcar False H9 H2 = False" "hcar False H9 H3 = False"
  "hcar False H9 H4 = False" "hcar False H9 H5 = False" "hcar False H9 H6 = False" "hcar False H9 H7 = True"
  "hcar False H9 H8 = True" "hcar False H9 H9 = True" "hcar False H9 HA = True" "hcar False H9 HB = True"
  "hcar False H9 HC = True" "hcar False H9 HD = True" "hcar False H9 HE = True" "hcar False H9 HF = True"
  "hcar False HA H0 = False" "hcar False HA H1 = False" "hcar False HA H2 = False" "hcar False HA H3 = False"
  "hcar False HA H4 = False" "hcar False HA H5 = False" "hcar False HA H6 = True" "hcar False HA H7 = True"
  "hcar False HA H8 = True" "hcar False HA H9 = True" "hcar False HA HA = True" "hcar False HA HB = True"
  "hcar False HA HC = True" "hcar False HA HD = True" "hcar False HA HE = True" "hcar False HA HF = True"
  "hcar False HB H0 = False" "hcar False HB H1 = False" "hcar False HB H2 = False" "hcar False HB H3 = False"
  "hcar False HB H4 = False" "hcar False HB H5 = True" "hcar False HB H6 = True" "hcar False HB H7 = True"
  "hcar False HB H8 = True" "hcar False HB H9 = True" "hcar False HB HA = True" "hcar False HB HB = True"
  "hcar False HB HC = True" "hcar False HB HD = True" "hcar False HB HE = True" "hcar False HB HF = True"
  "hcar False HC H0 = False" "hcar False HC H1 = False" "hcar False HC H2 = False" "hcar False HC H3 = False"
  "hcar False HC H4 = True" "hcar False HC H5 = True" "hcar False HC H6 = True" "hcar False HC H7 = True"
  "hcar False HC H8 = True" "hcar False HC H9 = True" "hcar False HC HA = True" "hcar False HC HB = True"
  "hcar False HC HC = True" "hcar False HC HD = True" "hcar False HC HE = True" "hcar False HC HF = True"
  "hcar False HD H0 = False" "hcar False HD H1 = False" "hcar False HD H2 = False" "hcar False HD H3 = True"
  "hcar False HD H4 = True" "hcar False HD H5 = True" "hcar False HD H6 = True" "hcar False HD H7 = True"
  "hcar False HD H8 = True" "hcar False HD H9 = True" "hcar False HD HA = True" "hcar False HD HB = True"
  "hcar False HD HC = True" "hcar False HD HD = True" "hcar False HD HE = True" "hcar False HD HF = True"
  "hcar False HE H0 = False" "hcar False HE H1 = False" "hcar False HE H2 = True" "hcar False HE H3 = True"
  "hcar False HE H4 = True" "hcar False HE H5 = True" "hcar False HE H6 = True" "hcar False HE H7 = True"
  "hcar False HE H8 = True" "hcar False HE H9 = True" "hcar False HE HA = True" "hcar False HE HB = True"
  "hcar False HE HC = True" "hcar False HE HD = True" "hcar False HE HE = True" "hcar False HE HF = True"
  "hcar False HF H0 = False" "hcar False HF H1 = True" "hcar False HF H2 = True" "hcar False HF H3 = True"
  "hcar False HF H4 = True" "hcar False HF H5 = True" "hcar False HF H6 = True" "hcar False HF H7 = True"
  "hcar False HF H8 = True" "hcar False HF H9 = True" "hcar False HF HA = True" "hcar False HF HB = True"
  "hcar False HF HC = True" "hcar False HF HD = True" "hcar False HF HE = True" "hcar False HF HF = True"
  "hcar True H0 H0 = False" "hcar True H0 H1 = False" "hcar True H0 H2 = False" "hcar True H0 H3 = False"
  "hcar True H0 H4 = False" "hcar True H0 H5 = False" "hcar True H0 H6 = False" "hcar True H0 H7 = False"
  "hcar True H0 H8 = False" "hcar True H0 H9 = False" "hcar True H0 HA = False" "hcar True H0 HB = False"
  "hcar True H0 HC = False" "hcar True H0 HD = False" "hcar True H0 HE = False" "hcar True H0 HF = True"
  "hcar True H1 H0 = False" "hcar True H1 H1 = False" "hcar True H1 H2 = False" "hcar True H1 H3 = False"
  "hcar True H1 H4 = False" "hcar True H1 H5 = False" "hcar True H1 H6 = False" "hcar True H1 H7 = False"
  "hcar True H1 H8 = False" "hcar True H1 H9 = False" "hcar True H1 HA = False" "hcar True H1 HB = False"
  "hcar True H1 HC = False" "hcar True H1 HD = False" "hcar True H1 HE = True" "hcar True H1 HF = True"
  "hcar True H2 H0 = False" "hcar True H2 H1 = False" "hcar True H2 H2 = False" "hcar True H2 H3 = False"
  "hcar True H2 H4 = False" "hcar True H2 H5 = False" "hcar True H2 H6 = False" "hcar True H2 H7 = False"
  "hcar True H2 H8 = False" "hcar True H2 H9 = False" "hcar True H2 HA = False" "hcar True H2 HB = False"
  "hcar True H2 HC = False" "hcar True H2 HD = True" "hcar True H2 HE = True" "hcar True H2 HF = True"
  "hcar True H3 H0 = False" "hcar True H3 H1 = False" "hcar True H3 H2 = False" "hcar True H3 H3 = False"
  "hcar True H3 H4 = False" "hcar True H3 H5 = False" "hcar True H3 H6 = False" "hcar True H3 H7 = False"
  "hcar True H3 H8 = False" "hcar True H3 H9 = False" "hcar True H3 HA = False" "hcar True H3 HB = False"
  "hcar True H3 HC = True" "hcar True H3 HD = True" "hcar True H3 HE = True" "hcar True H3 HF = True"
  "hcar True H4 H0 = False" "hcar True H4 H1 = False" "hcar True H4 H2 = False" "hcar True H4 H3 = False"
  "hcar True H4 H4 = False" "hcar True H4 H5 = False" "hcar True H4 H6 = False" "hcar True H4 H7 = False"
  "hcar True H4 H8 = False" "hcar True H4 H9 = False" "hcar True H4 HA = False" "hcar True H4 HB = True"
  "hcar True H4 HC = True" "hcar True H4 HD = True" "hcar True H4 HE = True" "hcar True H4 HF = True"
  "hcar True H5 H0 = False" "hcar True H5 H1 = False" "hcar True H5 H2 = False" "hcar True H5 H3 = False"
  "hcar True H5 H4 = False" "hcar True H5 H5 = False" "hcar True H5 H6 = False" "hcar True H5 H7 = False"
  "hcar True H5 H8 = False" "hcar True H5 H9 = False" "hcar True H5 HA = True" "hcar True H5 HB = True"
  "hcar True H5 HC = True" "hcar True H5 HD = True" "hcar True H5 HE = True" "hcar True H5 HF = True"
  "hcar True H6 H0 = False" "hcar True H6 H1 = False" "hcar True H6 H2 = False" "hcar True H6 H3 = False"
  "hcar True H6 H4 = False" "hcar True H6 H5 = False" "hcar True H6 H6 = False" "hcar True H6 H7 = False"
  "hcar True H6 H8 = False" "hcar True H6 H9 = True" "hcar True H6 HA = True" "hcar True H6 HB = True"
  "hcar True H6 HC = True" "hcar True H6 HD = True" "hcar True H6 HE = True" "hcar True H6 HF = True"
  "hcar True H7 H0 = False" "hcar True H7 H1 = False" "hcar True H7 H2 = False" "hcar True H7 H3 = False"
  "hcar True H7 H4 = False" "hcar True H7 H5 = False" "hcar True H7 H6 = False" "hcar True H7 H7 = False"
  "hcar True H7 H8 = True" "hcar True H7 H9 = True" "hcar True H7 HA = True" "hcar True H7 HB = True"
  "hcar True H7 HC = True" "hcar True H7 HD = True" "hcar True H7 HE = True" "hcar True H7 HF = True"
  "hcar True H8 H0 = False" "hcar True H8 H1 = False" "hcar True H8 H2 = False" "hcar True H8 H3 = False"
  "hcar True H8 H4 = False" "hcar True H8 H5 = False" "hcar True H8 H6 = False" "hcar True H8 H7 = True"
  "hcar True H8 H8 = True" "hcar True H8 H9 = True" "hcar True H8 HA = True" "hcar True H8 HB = True"
  "hcar True H8 HC = True" "hcar True H8 HD = True" "hcar True H8 HE = True" "hcar True H8 HF = True"
  "hcar True H9 H0 = False" "hcar True H9 H1 = False" "hcar True H9 H2 = False" "hcar True H9 H3 = False"
  "hcar True H9 H4 = False" "hcar True H9 H5 = False" "hcar True H9 H6 = True" "hcar True H9 H7 = True"
  "hcar True H9 H8 = True" "hcar True H9 H9 = True" "hcar True H9 HA = True" "hcar True H9 HB = True"
  "hcar True H9 HC = True" "hcar True H9 HD = True" "hcar True H9 HE = True" "hcar True H9 HF = True"
  "hcar True HA H0 = False" "hcar True HA H1 = False" "hcar True HA H2 = False" "hcar True HA H3 = False"
  "hcar True HA H4 = False" "hcar True HA H5 = True" "hcar True HA H6 = True" "hcar True HA H7 = True"
  "hcar True HA H8 = True" "hcar True HA H9 = True" "hcar True HA HA = True" "hcar True HA HB = True"
  "hcar True HA HC = True" "hcar True HA HD = True" "hcar True HA HE = True" "hcar True HA HF = True"
  "hcar True HB H0 = False" "hcar True HB H1 = False" "hcar True HB H2 = False" "hcar True HB H3 = False"
  "hcar True HB H4 = True" "hcar True HB H5 = True" "hcar True HB H6 = True" "hcar True HB H7 = True"
  "hcar True HB H8 = True" "hcar True HB H9 = True" "hcar True HB HA = True" "hcar True HB HB = True"
  "hcar True HB HC = True" "hcar True HB HD = True" "hcar True HB HE = True" "hcar True HB HF = True"
  "hcar True HC H0 = False" "hcar True HC H1 = False" "hcar True HC H2 = False" "hcar True HC H3 = True"
  "hcar True HC H4 = True" "hcar True HC H5 = True" "hcar True HC H6 = True" "hcar True HC H7 = True"
  "hcar True HC H8 = True" "hcar True HC H9 = True" "hcar True HC HA = True" "hcar True HC HB = True"
  "hcar True HC HC = True" "hcar True HC HD = True" "hcar True HC HE = True" "hcar True HC HF = True"
  "hcar True HD H0 = False" "hcar True HD H1 = False" "hcar True HD H2 = True" "hcar True HD H3 = True"
  "hcar True HD H4 = True" "hcar True HD H5 = True" "hcar True HD H6 = True" "hcar True HD H7 = True"
  "hcar True HD H8 = True" "hcar True HD H9 = True" "hcar True HD HA = True" "hcar True HD HB = True"
  "hcar True HD HC = True" "hcar True HD HD = True" "hcar True HD HE = True" "hcar True HD HF = True"
  "hcar True HE H0 = False" "hcar True HE H1 = True" "hcar True HE H2 = True" "hcar True HE H3 = True"
  "hcar True HE H4 = True" "hcar True HE H5 = True" "hcar True HE H6 = True" "hcar True HE H7 = True"
  "hcar True HE H8 = True" "hcar True HE H9 = True" "hcar True HE HA = True" "hcar True HE HB = True"
  "hcar True HE HC = True" "hcar True HE HD = True" "hcar True HE HE = True" "hcar True HE HF = True"
  "hcar True HF H0 = True" "hcar True HF H1 = True" "hcar True HF H2 = True" "hcar True HF H3 = True"
  "hcar True HF H4 = True" "hcar True HF H5 = True" "hcar True HF H6 = True" "hcar True HF H7 = True"
  "hcar True HF H8 = True" "hcar True HF H9 = True" "hcar True HF HA = True" "hcar True HF HB = True"
  "hcar True HF HC = True" "hcar True HF HD = True" "hcar True HF HE = True" "hcar True HF HF = True"
  by (simp_all add: hcar_def)

lemma hv_hxor: "hv (hxor a b) = hv a XOR hv b"
  by (cases a; cases b) (simp_all add: hxor_table)

lemma hv_hsum: "hv (hsum c a b) = (hv a + hv b + of_bool c) mod 16"
  by (cases c; cases a; cases b) (simp_all add: hsum_table)

lemma hcar_div: "of_bool (hcar c a b) = (hv a + hv b + of_bool c) div 16"
  by (cases c; cases a; cases b) (simp_all add: hcar_table)


lemma length_lxor: "length bs = length as \<Longrightarrow> length (lxor as bs) = length as"
  by (induction as bs rule: lxor.induct) simp_all

lemma length_ladd: "length bs = length as \<Longrightarrow> length (ladd c as bs) = length as"
  by (induction c as bs rule: ladd.induct) simp_all

lemma lv_less: "lv ds < 16 ^ length ds"
proof (induction ds)
  case Nil
  then show ?case by simp
next
  case (Cons d ds)
  have "hv d + 16 * lv ds < 16 + 16 * lv ds" using hv_less [of d] by simp
  also have "\<dots> = 16 * (lv ds + 1)" by simp
  also have "\<dots> \<le> 16 * 16 ^ length ds"
    using Cons.IH by (intro mult_le_mono2) simp
  finally show ?case by simp
qed

lemma bit_digit:
  fixes a x :: nat
  assumes "a < 16"
  shows "bit (a + 16 * x) n \<longleftrightarrow> (if n < 4 then bit a n else bit x (n - 4))"
proof -
  have t: "take_bit 4 a = a" using assms by (simp add: take_bit_nat_eq_self)
  have p: "16 * x = push_bit 4 x" by (simp add: push_bit_eq_mult)
  have d: "\<not> bit (take_bit 4 a) m \<or> \<not> bit (push_bit 4 x) m" for m
    by (auto simp add: bit_simps)
  have "bit (take_bit 4 a + push_bit 4 x) n \<longleftrightarrow> bit (take_bit 4 a) n \<or> bit (push_bit 4 x) n"
    using d by (rule bit_disjunctive_add_iff)
  then show ?thesis
    unfolding t p [symmetric] using t by (auto simp add: bit_simps p) (metis bit_take_bit_iff)+
qed


lemma xor_less_16:
  fixes a b :: nat
  assumes "a < 16" "b < 16"
  shows "a XOR b < 16"
proof -
  have ta: "take_bit 4 a = a" and tb: "take_bit 4 b = b"
    using assms by (simp_all add: take_bit_nat_eq_self)
  have "take_bit 4 (a XOR b) < 2 ^ 4"
    by (rule take_bit_nat_less_exp)
  then show ?thesis
    unfolding take_bit_xor ta tb by simp
qed

lemma xor_digit:
  fixes a b x y :: nat
  assumes "a < 16" "b < 16"
  shows "(a + 16 * x) XOR (b + 16 * y) = (a XOR b) + 16 * (x XOR y)"
proof (rule bit_eqI)
  fix n
  show "bit ((a + 16 * x) XOR (b + 16 * y)) n \<longleftrightarrow> bit ((a XOR b) + 16 * (x XOR y)) n"
    by (simp add: bit_xor_iff bit_digit assms xor_less_16)
qed

lemma lv_lxor: "length bs = length as \<Longrightarrow> lv (lxor as bs) = lv as XOR lv bs"
proof (induction as bs rule: lxor.induct)
  case (1 a as b bs)
  then show ?case
    by (simp add: hv_hxor xor_digit hv_less)
qed simp_all

lemma digit_mod:
  fixes s X M :: nat
  shows "s mod 16 + 16 * ((X + s div 16) mod M) = (s + 16 * X) mod (16 * M)"
proof -
  have "(s + 16 * X) mod (16 * M) = 16 * ((s + 16 * X) div 16 mod M) + (s + 16 * X) mod 16"
    by (rule mod_mult2_eq)
  moreover have "(s + 16 * X) div 16 = X + s div 16" by simp
  moreover have "(s + 16 * X) mod 16 = s mod 16" by simp
  ultimately show ?thesis by simp
qed

lemma lv_ladd:
  "length bs = length as \<Longrightarrow>
   lv (ladd c as bs) = (lv as + lv bs + of_bool c) mod 16 ^ length as"
proof (induction c as bs rule: ladd.induct)
  case (1 c a as b bs)
  let ?s = "hv a + hv b + of_bool c"
  have "lv (ladd c (a # as) (b # bs))
          = ?s mod 16 + 16 * ((lv as + lv bs + ?s div 16) mod 16 ^ length as)"
    using 1 by (simp add: hv_hsum hcar_div)
  also have "\<dots> = (?s + 16 * (lv as + lv bs)) mod (16 * 16 ^ length as)"
    by (rule digit_mod)
  finally show ?case by (simp add: algebra_simps)
qed simp_all

lemma unat_wv: "length w = 8 \<Longrightarrow> unat (wv w) = lv w"
proof -
  assume l: "length w = 8"
  have "lv w < 16 ^ 8" using lv_less [of w] l by simp
  then have "lv w < 2 ^ 32" by simp
  then show ?thesis
    by (simp add: wv_def unat_of_nat take_bit_nat_eq_self)
qed

lemma wv_lxor:
  assumes "length a = 8" "length b = 8"
  shows "wv (lxor a b) = wv a XOR wv b"
proof -
  have "unat (wv (lxor a b)) = unat (wv a XOR wv b)"
    using assms by (simp add: unat_wv length_lxor lv_lxor unsigned_xor_eq)
  then show ?thesis by (simp only: word_unat_eq_iff)
qed

lemma wv_ladd:
  assumes "length a = 8" "length b = 8"
  shows "wv (ladd False a b) = wv a + wv b"
proof -
  have "unat (wv (ladd False a b)) = (lv a + lv b) mod 16 ^ 8"
    using assms by (simp add: unat_wv length_ladd lv_ladd)
  also have "\<dots> = unat (wv a + wv b)"
    using assms by (simp add: unat_word_ariths unat_wv)
  finally show ?thesis by (simp only: word_unat_eq_iff)
qed

lemma wv_zero_word: "wv zero_word = 0"
  by (simp add: wv_def zero_word_def)


lemma unat_byte_of: "unat (byte_of x k) = unat x div 2 ^ (8 * k) mod 256"
  unfolding byte_of_def unsigned_ucast_eq unat_drop_bit_eq
  by (simp add: take_bit_eq_mod drop_bit_eq_div)

lemma pair_less: "hv a + 16 * hv b < 256"
  using hv_less [of a] hv_less [of b] by simp

lemma lv_pair: "lv (a # b # ds) = (hv a + 16 * hv b) + 256 * lv ds"
  by simp

lemma split_256:
  fixes r q :: nat
  assumes "r < 256"
  shows "(r + 256 * q) div 256 = q" and "(r + 256 * q) mod 256 = r"
  using assms by simp_all

lemma lv8_bytes:
  fixes d0 d1 d2 d3 d4 d5 d6 d7 :: hex
  defines "n \<equiv> lv [d0, d1, d2, d3, d4, d5, d6, d7]"
  shows "n div 2 ^ (8 * 0) mod 256 = hv d0 + 16 * hv d1"
    and "n div 2 ^ (8 * 1) mod 256 = hv d2 + 16 * hv d3"
    and "n div 2 ^ (8 * 2) mod 256 = hv d4 + 16 * hv d5"
    and "n div 2 ^ (8 * 3) mod 256 = hv d6 + 16 * hv d7"
proof -
  let ?b0 = "hv d0 + 16 * hv d1" and ?b1 = "hv d2 + 16 * hv d3"
  let ?b2 = "hv d4 + 16 * hv d5" and ?b3 = "hv d6 + 16 * hv d7"
  have n: "n = ?b0 + 256 * (?b1 + 256 * (?b2 + 256 * (?b3 + 256 * 0)))"
    unfolding n_def by simp
  have p: "(2::nat) ^ (8 * 0) = 1" "(2::nat) ^ (8 * 1) = 256" "(2::nat) ^ (8 * 2) = 256 * 256"
    "(2::nat) ^ (8 * 3) = 256 * (256 * 256)"
    by simp_all
  have d1: "n div 256 = ?b1 + 256 * (?b2 + 256 * (?b3 + 256 * 0))"
    unfolding n by (rule split_256 (1) [OF pair_less])
  have d2: "n div (256 * 256) = ?b2 + 256 * (?b3 + 256 * 0)"
    unfolding div_mult2_eq d1 by (rule split_256 (1) [OF pair_less])
  have d3: "n div (256 * (256 * 256)) = ?b3 + 256 * 0"
    unfolding div_mult2_eq [of n 256 "256 * 256"] d1
    unfolding div_mult2_eq split_256 (1) [OF pair_less] ..
  show "n div 2 ^ (8 * 0) mod 256 = ?b0"
    unfolding p n by (simp only: div_by_1 split_256 (2) [OF pair_less])
  show "n div 2 ^ (8 * 1) mod 256 = ?b1"
    unfolding p d1 by (rule split_256 (2) [OF pair_less])
  show "n div 2 ^ (8 * 2) mod 256 = ?b2"
    unfolding p d2 by (rule split_256 (2) [OF pair_less])
  show "n div 2 ^ (8 * 3) mod 256 = ?b3"
    unfolding p d3 by (rule split_256 (2) [OF pair_less])
qed

lemma length_t16_list: "length (t16_list t) = 16"
  by (cases t) simp

lemma t16_list_nth: "t16_list t ! hv h = sel16 t h"
  by (cases t; cases h) simp_all

lemma t16_list_upd: "t16_list (upd16 t h v) = (t16_list t)[hv h := v]"
  by (cases t; cases h) simp_all

lemma nth_concat_uniform:
  "\<forall>xs\<in>set xss. length xs = m \<Longrightarrow> i < length xss \<Longrightarrow> j < m \<Longrightarrow>
   concat xss ! (i * m + j) = xss ! i ! j"
proof (induction xss arbitrary: i)
  case Nil
  then show ?case by simp
next
  case (Cons xs xss)
  show ?case
  proof (cases i)
    case 0
    then show ?thesis using Cons.prems by (simp add: nth_append)
  next
    case (Suc k)
    then have "concat xss ! (k * m + j) = xss ! k ! j"
      using Cons.prems by (intro Cons.IH) simp_all
    then show ?thesis
      using Cons.prems Suc by (simp add: nth_append)
  qed
qed

lemma update_concat_uniform:
  "\<forall>xs\<in>set xss. length xs = m \<Longrightarrow> i < length xss \<Longrightarrow> j < m \<Longrightarrow>
   (concat xss)[i * m + j := v] = concat (xss[i := (xss ! i)[j := v]])"
proof (induction xss arbitrary: i)
  case Nil
  then show ?case by simp
next
  case (Cons xs xss)
  show ?case
  proof (cases i)
    case 0
    then show ?thesis using Cons.prems by (simp add: list_update_append)
  next
    case (Suc k)
    then have "(concat xss)[k * m + j := v] = concat (xss[k := (xss ! k)[j := v]])"
      using Cons.prems by (intro Cons.IH) simp_all
    then show ?thesis
      using Cons.prems Suc by (simp add: list_update_append)
  qed
qed

lemma length_concat_uniform:
  "\<forall>xs\<in>set xss. length xs = m \<Longrightarrow> length (concat xss) = length xss * m"
  by (induction xss) simp_all

lemma length_tab_list: "length (tab_list t) = 256"
  unfolding tab_list_def
  by (subst length_concat_uniform [where m = 16]) (auto simp add: length_t16_list)

lemma tab_list_nth: "tab_list t ! (hv lo + 16 * hv hi) = sel16 (sel16 t hi) lo"
proof -
  have "concat (map t16_list (t16_list t)) ! (hv hi * 16 + hv lo)
          = map t16_list (t16_list t) ! hv hi ! hv lo"
    by (rule nth_concat_uniform) (auto simp add: length_t16_list hv_less)
  then show ?thesis
    by (simp add: tab_list_def length_t16_list hv_less t16_list_nth add.commute mult.commute)
qed

lemma tab_list_upd:
  "tab_list (upd16 t hi (upd16 (sel16 t hi) lo v)) = (tab_list t)[hv lo + 16 * hv hi := v]"
proof -
  have "(concat (map t16_list (t16_list t)))[hv hi * 16 + hv lo := v]
          = concat ((map t16_list (t16_list t))
                      [hv hi := (map t16_list (t16_list t) ! hv hi)[hv lo := v]])"
    by (rule update_concat_uniform) (auto simp add: length_t16_list hv_less)
  then show ?thesis
    by (simp add: tab_list_def length_t16_list hv_less t16_list_nth t16_list_upd
          map_update add.commute mult.commute)
qed


lemma upt_18:
  "[0..<18] = [0, 1, 2, 3, 4, 5, 6, 7, 8, 9, 10, 11, 12, 13, 14, 15, 16, 17]"
  by (simp add: upt_rec)

lemma upt_8: "[0..<8] = [0, 1, 2, 3, 4, 5, 6, 7]"
  by (simp add: upt_rec)

lemma list8_nth:
  assumes "length w = 8"
  shows "w = [w ! 0, w ! 1, w ! 2, w ! 3, w ! 4, w ! 5, w ! 6, w ! 7]"
proof -
  have "w = map ((!) w) [0..<length w]" by (simp add: map_nth)
  then show ?thesis unfolding assms upt_8 by simp
qed

lemma list8:
  assumes "length w = 8"
  obtains d0 d1 d2 d3 d4 d5 d6 d7 where "w = [d0, d1, d2, d3, d4, d5, d6, d7]"
  by (rule that [OF list8_nth [OF assms]])

lemma list18_nth:
  assumes "length p = 18"
  shows "p = [p ! 0, p ! 1, p ! 2, p ! 3, p ! 4, p ! 5, p ! 6, p ! 7, p ! 8, p ! 9,
              p ! 10, p ! 11, p ! 12, p ! 13, p ! 14, p ! 15, p ! 16, p ! 17]"
proof -
  have "p = map ((!) p) [0..<length p]" by (simp add: map_nth)
  then show ?thesis unfolding assms upt_18 by simp
qed


lemma wf_tab_sel: "wf_tab t \<Longrightarrow> length (sel16 (sel16 t hi) lo) = 8"
proof -
  assume w: "wf_tab t"
  have "hv lo + 16 * hv hi < 256"
    by (rule pair_less)
  then have "tab_list t ! (hv lo + 16 * hv hi) \<in> set (tab_list t)"
    by (simp add: length_tab_list)
  with w have "wf_word (tab_list t ! (hv lo + 16 * hv hi))"
    unfolding wf_tab_def list_all_iff by blast
  then show ?thesis by (simp add: tab_list_nth)
qed

lemma sbox_at_abs_state:
  assumes "unat b = hv lo + 16 * hv hi"
  shows "sbox_at (abs_state (FS p s0 s1 s2 s3)) 0 b = wv (sel16 (sel16 s0 hi) lo)"
    and "sbox_at (abs_state (FS p s0 s1 s2 s3)) 1 b = wv (sel16 (sel16 s1 hi) lo)"
    and "sbox_at (abs_state (FS p s0 s1 s2 s3)) 2 b = wv (sel16 (sel16 s2 hi) lo)"
    and "sbox_at (abs_state (FS p s0 s1 s2 s3)) 3 b = wv (sel16 (sel16 s3 hi) lo)"
proof -
  let ?k = "hv lo + 16 * hv hi"
  have k: "?k < 256" by (rule pair_less)
  let ?all = "tab_list s0 @ tab_list s1 @ tab_list s2 @ tab_list s3"
  have n0: "?all ! ?k = tab_list s0 ! ?k"
    using k by (simp add: nth_append length_tab_list)
  have n1: "?all ! (256 + ?k) = tab_list s1 ! ?k"
    using k by (simp add: nth_append length_tab_list)
  have n2: "?all ! (512 + ?k) = tab_list s2 ! ?k"
    using k by (simp add: nth_append length_tab_list)
  have n3: "?all ! (768 + ?k) = tab_list s3 ! ?k"
    using k by (simp add: nth_append length_tab_list)
  have len: "length ?all = 1024" by (simp add: length_tab_list)
  have m: "map wv ?all ! j = wv (?all ! j)" if "j < 1024" for j
    using that len by (intro nth_map) (simp only:)
  show "sbox_at (abs_state (FS p s0 s1 s2 s3)) 0 b = wv (sel16 (sel16 s0 hi) lo)"
    using k m [of ?k] by (simp add: sbox_at_def assms n0 tab_list_nth)
  show "sbox_at (abs_state (FS p s0 s1 s2 s3)) 1 b = wv (sel16 (sel16 s1 hi) lo)"
    using k m [of "256 + ?k"] by (simp add: sbox_at_def assms n1 tab_list_nth)
  show "sbox_at (abs_state (FS p s0 s1 s2 s3)) 2 b = wv (sel16 (sel16 s2 hi) lo)"
    using k m [of "512 + ?k"] by (simp add: sbox_at_def assms n2 tab_list_nth)
  show "sbox_at (abs_state (FS p s0 s1 s2 s3)) 3 b = wv (sel16 (sel16 s3 hi) lo)"
    using k m [of "768 + ?k"] by (simp add: sbox_at_def assms n3 tab_list_nth)
qed

lemma unat_byte_of_wv:
  "unat (byte_of (wv [d0, d1, d2, d3, d4, d5, d6, d7]) 0) = hv d0 + 16 * hv d1"
  "unat (byte_of (wv [d0, d1, d2, d3, d4, d5, d6, d7]) 1) = hv d2 + 16 * hv d3"
  "unat (byte_of (wv [d0, d1, d2, d3, d4, d5, d6, d7]) 2) = hv d4 + 16 * hv d5"
  "unat (byte_of (wv [d0, d1, d2, d3, d4, d5, d6, d7]) 3) = hv d6 + 16 * hv d7"
proof -
  have u: "unat (wv [d0, d1, d2, d3, d4, d5, d6, d7]) = lv [d0, d1, d2, d3, d4, d5, d6, d7]"
    by (rule unat_wv) simp
  show "unat (byte_of (wv [d0, d1, d2, d3, d4, d5, d6, d7]) 0) = hv d0 + 16 * hv d1"
    unfolding unat_byte_of u by (rule lv8_bytes)
  show "unat (byte_of (wv [d0, d1, d2, d3, d4, d5, d6, d7]) 1) = hv d2 + 16 * hv d3"
    unfolding unat_byte_of u by (rule lv8_bytes)
  show "unat (byte_of (wv [d0, d1, d2, d3, d4, d5, d6, d7]) 2) = hv d4 + 16 * hv d5"
    unfolding unat_byte_of u by (rule lv8_bytes)
  show "unat (byte_of (wv [d0, d1, d2, d3, d4, d5, d6, d7]) 3) = hv d6 + 16 * hv d7"
    unfolding unat_byte_of u by (rule lv8_bytes)
qed

lemma length_fF:
  assumes "wf_fstate s" "length w = 8"
  shows "length (fF s w) = 8"
proof -
  obtain p s0 s1 s2 s3 where s: "s = FS p s0 s1 s2 s3" by (cases s)
  obtain d0 d1 d2 d3 d4 d5 d6 d7 where w: "w = [d0, d1, d2, d3, d4, d5, d6, d7]"
    using assms(2) by (rule list8)
  have t: "wf_tab s0" "wf_tab s1" "wf_tab s2" "wf_tab s3"
    using assms(1) s by simp_all
  show ?thesis
    unfolding w s by (simp add: length_ladd length_lxor wf_tab_sel t)
qed

lemma Feistel_abs_state:
  assumes "layout_matches_host pf" "wf_fstate s" "length w = 8"
  shows "Feistel pf (abs_state s) (wv w) = wv (fF s w)"
proof -
  obtain p s0 s1 s2 s3 where s: "s = FS p s0 s1 s2 s3" by (cases s)
  obtain d0 d1 d2 d3 d4 d5 d6 d7 where w: "w = [d0, d1, d2, d3, d4, d5, d6, d7]"
    using assms(3) by (rule list8)
  have t: "wf_tab s0" "wf_tab s1" "wf_tab s2" "wf_tab s3"
    using assms(2) s by simp_all
  note len = wf_tab_sel [OF t(1)] wf_tab_sel [OF t(2)] wf_tab_sel [OF t(3)] wf_tab_sel [OF t(4)]
  show ?thesis
    unfolding Feistel_matched [OF assms(1)] s w
    unfolding sbox_at_abs_state [OF unat_byte_of_wv(1)] sbox_at_abs_state [OF unat_byte_of_wv(2)]
      sbox_at_abs_state [OF unat_byte_of_wv(3)] sbox_at_abs_state [OF unat_byte_of_wv(4)]
    by (simp add: wv_ladd wv_lxor len length_ladd length_lxor)
qed


lemma frounds_refine:
  assumes m: "layout_matches_host pf" and wf: "wf_fstate s"
  shows "length l = 8 \<Longrightarrow> length r = 8 \<Longrightarrow> list_all wf_word ks \<Longrightarrow> i + length ks = 16 \<Longrightarrow>
         (\<forall>j<length ks. pary (abs_state s) ! (i + j) = wv (ks ! j)) \<Longrightarrow>
         EncryptBlock_rounds pf (abs_state s) i (wv l, wv r) = map_prod wv wv (frounds s ks (l, r))
         \<and> length (fst (frounds s ks (l, r))) = 8 \<and> length (snd (frounds s ks (l, r))) = 8"
proof (induction ks arbitrary: i l r)
  case Nil
  then have "i = 16" by simp
  then show ?case
    using Nil by (simp add: EncryptBlock_rounds.simps [of pf _ 16])
next
  case (Cons k ks)
  have i: "i < 16" using Cons.prems(4) by simp
  have lk: "length k = 8" using Cons.prems(3) by simp
  have pk: "pary (abs_state s) ! i = wv k"
    using Cons.prems(5) by force
  let ?l1 = "lxor l k"
  let ?r1 = "lxor r (fF s ?l1)"
  have l1: "length ?l1 = 8" using Cons.prems(1) lk by (simp add: length_lxor)
  have f: "length (fF s ?l1) = 8" using wf l1 by (rule length_fF)
  have r1: "length ?r1 = 8" using Cons.prems(2) f by (simp add: length_lxor)
  have wl1: "wv l XOR pary (abs_state s) ! i = wv ?l1"
    using Cons.prems(1) lk by (simp add: pk wv_lxor)
  have wr1: "wv r XOR Feistel pf (abs_state s) (wv ?l1) = wv ?r1"
    using Cons.prems(2) f by (simp add: Feistel_abs_state [OF m wf l1] wv_lxor)
  have step: "EncryptBlock_rounds pf (abs_state s) i (wv l, wv r)
                = EncryptBlock_rounds pf (abs_state s) (i + 1) (wv ?r1, wv ?l1)"
    by (subst EncryptBlock_rounds.simps) (simp only: i if_True Let_def wl1 wr1)
  have "\<forall>j<length ks. pary (abs_state s) ! (i + 1 + j) = wv (ks ! j)"
  proof (intro allI impI)
    fix j assume "j < length ks"
    then have "pary (abs_state s) ! (i + Suc j) = wv ((k # ks) ! Suc j)"
      using Cons.prems(5) by (metis Suc_less_eq length_Cons)
    then show "pary (abs_state s) ! (i + 1 + j) = wv (ks ! j)" by simp
  qed
  moreover have "list_all wf_word ks" using Cons.prems(3) by (simp del: wf_word.simps)
  moreover have "i + 1 + length ks = 16" using Cons.prems(4) by simp
  ultimately have
    "EncryptBlock_rounds pf (abs_state s) (i + 1) (wv ?r1, wv ?l1)
       = map_prod wv wv (frounds s ks (?r1, ?l1))
     \<and> length (fst (frounds s ks (?r1, ?l1))) = 8 \<and> length (snd (frounds s ks (?r1, ?l1))) = 8"
    using r1 l1 by (intro Cons.IH)
  then show ?case
    unfolding step by simp
qed

lemma pary_abs_state: "j < length p \<Longrightarrow> pary (abs_state (FS p s0 s1 s2 s3)) ! j = wv (p ! j)"
  by simp

lemma fenc_refine:
  assumes m: "layout_matches_host pf" and wf: "wf_fstate s"
    and l: "length l = 8" and r: "length r = 8"
  shows "EncryptBlock pf (abs_state s) (wv l, wv r) = map_prod wv wv (fenc s (l, r))"
    and "length (fst (fenc s (l, r))) = 8" and "length (snd (fenc s (l, r))) = 8"
proof -
  obtain p s0 s1 s2 s3 where s: "s = FS p s0 s1 s2 s3" by (cases s)
  have lp: "length p = 18" and ap: "list_all wf_word p" using wf s by simp_all
  let ?E = "[p ! 0, p ! 1, p ! 2, p ! 3, p ! 4, p ! 5, p ! 6, p ! 7, p ! 8, p ! 9,
             p ! 10, p ! 11, p ! 12, p ! 13, p ! 14, p ! 15, p ! 16, p ! 17]"
  let ?ks = "take 16 p"
  have pe: "?E = p"
    using list18_nth [OF lp] by simp
  have tk: "take 16 ?E = [p ! 0, p ! 1, p ! 2, p ! 3, p ! 4, p ! 5, p ! 6, p ! 7, p ! 8, p ! 9,
                          p ! 10, p ! 11, p ! 12, p ! 13, p ! 14, p ! 15]"
    by simp
  have wfk: "wf_word (p ! j)" if "j < 18" for j
    using ap that lp unfolding list_all_length by simp
  have ks: "list_all wf_word ?ks"
    using ap unfolding list_all_iff by (auto dest: in_set_takeD)
  have nth: "\<forall>j<length ?ks. pary (abs_state s) ! (0 + j) = wv (?ks ! j)"
    using lp by (simp add: s)
  have fr: "EncryptBlock_rounds pf (abs_state s) 0 (wv l, wv r)
              = map_prod wv wv (frounds s ?ks (l, r))
            \<and> length (fst (frounds s ?ks (l, r))) = 8 \<and> length (snd (frounds s ?ks (l, r))) = 8"
    using l r ks nth lp by (intro frounds_refine [OF m wf]) simp_all
  obtain l16 r16 where e: "frounds s ?ks (l, r) = (l16, r16)"
    by (cases "frounds s ?ks (l, r)")
  have "fenc (FS ?E s0 s1 s2 s3) (l, r)
          = ffinal (p ! 16) (p ! 17) (frounds (FS ?E s0 s1 s2 s3) (take 16 ?E) (l, r))"
    unfolding tk by (simp only: fenc.simps)
  then have "fenc s (l, r) = ffinal (p ! 16) (p ! 17) (frounds s ?ks (l, r))"
    unfolding pe s .
  then have fe: "fenc s (l, r) = (lxor r16 (p ! 17), lxor l16 (p ! 16))"
    by (simp add: e)
  have len: "length l16 = 8" "length r16 = 8" using fr e by simp_all
  have k16: "length (p ! 16) = 8" and k17: "length (p ! 17) = 8"
    using wfk [of 16] wfk [of 17] by simp_all
  have P: "pary (abs_state s) ! 16 = wv (p ! 16)" "pary (abs_state s) ! 17 = wv (p ! 17)"
    using lp by (simp_all add: s)
  show "EncryptBlock pf (abs_state s) (wv l, wv r) = map_prod wv wv (fenc s (l, r))"
    unfolding EncryptBlock_def fe using fr e len k16 k17
    by (simp add: P wv_lxor)
  show "length (fst (fenc s (l, r))) = 8" and "length (snd (fenc s (l, r))) = 8"
    unfolding fe using len k16 k17 by (simp_all add: length_lxor)
qed


lemma sel16_upd16: "sel16 (upd16 t h v) h = v"
  by (cases t; cases h) simp_all

lemma upd16_upd16: "upd16 (upd16 t h v) h w = upd16 t h w"
  by (cases t; cases h) simp_all

lemma tab_list_put2:
  "tab_list (put2 t hi lo l lo1 r)
     = (tab_list t)[hv lo + 16 * hv hi := l, hv lo1 + 16 * hv hi := r]"
proof -
  let ?t1 = "upd16 t hi (upd16 (sel16 t hi) lo l)"
  have "put2 t hi lo l lo1 r = upd16 ?t1 hi (upd16 (sel16 ?t1 hi) lo1 r)"
    by (simp add: sel16_upd16 upd16_upd16)
  then show ?thesis
    by (simp only: tab_list_upd)
qed

lemma list_all_update:
  "list_all P xs \<Longrightarrow> P v \<Longrightarrow> list_all P (xs[i := v])"
  unfolding list_all_iff by (auto dest: set_update_subset_insert [THEN subsetD])

lemma wf_tab_put2:
  "wf_tab t \<Longrightarrow> length l = 8 \<Longrightarrow> length r = 8 \<Longrightarrow> wf_tab (put2 t hi lo l lo1 r)"
  unfolding wf_tab_def tab_list_put2 by (intro list_all_update) simp_all

lemma sbox_update:
  assumes "k < 256" "length A = 256" "length B = 256" "length C = 256" "length D = 256"
  shows "(map wv (A @ B @ C @ D))[k := wv v] = map wv (A[k := v] @ B @ C @ D)"
    and "(map wv (A @ B @ C @ D))[256 + k := wv v] = map wv (A @ B[k := v] @ C @ D)"
    and "(map wv (A @ B @ C @ D))[512 + k := wv v] = map wv (A @ B @ C[k := v] @ D)"
    and "(map wv (A @ B @ C @ D))[768 + k := wv v] = map wv (A @ B @ C @ D[k := v])"
  using assms by (simp_all add: list_update_append map_update)


lemma abs_state_set_tab:
  assumes k0: "hv lo + 16 * hv hi = k0" and k1: "hv lo1 + 16 * hv hi = k1"
  shows "abs_state (set_tab s t (put2 (get_tab s t) hi lo l lo1 r))
           = (abs_state s)\<lparr>sbox := (sbox (abs_state s))
                                    [256 * iv t + k0 := wv l, 256 * iv t + k1 := wv r]\<rparr>"
proof -
  obtain p s0 s1 s2 s3 where s: "s = FS p s0 s1 s2 s3" by (cases s)
  have b: "k0 < 256" "k1 < 256"
    using pair_less [of lo hi] pair_less [of lo1 hi] k0 k1 by simp_all
  note len = length_tab_list [of s0] length_tab_list [of s1] length_tab_list [of s2]
    length_tab_list [of s3]
  have len': "length ((tab_list x)[k0 := l]) = 256" for x
    by (simp add: length_tab_list)
  show ?thesis
  proof (cases t)
    case I0
    show ?thesis
      unfolding s I0 using b
      by (simp add: tab_list_put2 k0 k1 list_update_append map_update length_tab_list
            del: put2.simps)
  next
    case I1
    show ?thesis
      unfolding s I1 using b
      by (simp add: tab_list_put2 k0 k1 list_update_append map_update length_tab_list
            del: put2.simps)
  next
    case I2
    show ?thesis
      unfolding s I2 using b
      by (simp add: tab_list_put2 k0 k1 list_update_append map_update length_tab_list
            del: put2.simps)
  next
    case I3
    show ?thesis
      unfolding s I3 using b
      by (simp add: tab_list_put2 k0 k1 list_update_append map_update length_tab_list
            del: put2.simps)
  qed
qed

lemma wf_fstate_set_tab:
  assumes "wf_fstate s" "length l = 8" "length r = 8"
  shows "wf_fstate (set_tab s t (put2 (get_tab s t) hi lo l lo1 r))"
proof -
  obtain p s0 s1 s2 s3 where s: "s = FS p s0 s1 s2 s3" by (cases s)
  show ?thesis
    using assms unfolding s by (cases t) (simp_all add: wf_tab_put2 del: put2.simps)
qed


lemma refinesI:
  "wf_fstate s \<Longrightarrow> length l = 8 \<Longrightarrow> length r = 8 \<Longrightarrow>
   refines (abs_state s, wv l, wv r) (s, l, r)"
  by (simp add: refines_def)

lemma fput_s_refines:
  assumes m: "layout_matches_host pf" and x: "refines x (s, l, r)" and pos: "pos_ok i pos"
  shows "refines (spec_table_step pf i x) (fput_s s pos (fenc s (l, r)))"
proof -
  have wf: "wf_fstate s" and l: "length l = 8" and r: "length r = 8"
    and xe: "x = (abs_state s, wv l, wv r)"
    using x by (simp_all add: refines_def)
  obtain l1 r1 where fe: "fenc s (l, r) = (l1, r1)" by (cases "fenc s (l, r)")
  have e: "EncryptBlock pf (abs_state s) (wv l, wv r) = (wv l1, wv r1)"
    and l1: "length l1 = 8" and r1: "length r1 = 8"
    using fenc_refine [OF m wf l r] by (simp_all add: fe)
  obtain t hi lo lo1 where p: "pos = (t, hi, lo, lo1)" by (cases pos)
  have i0: "i * 2 = 256 * iv t + (hv lo + 16 * hv hi)"
    and i1: "i * 2 + 1 = 256 * iv t + (hv lo1 + 16 * hv hi)"
    using pos by (simp_all add: pos_ok_def p)
  have "spec_table_step pf i x
          = ((abs_state s)\<lparr>sbox := (sbox (abs_state s))[i * 2 := wv l1, i * 2 + 1 := wv r1]\<rparr>,
             wv l1, wv r1)"
    unfolding spec_table_step_def xe by (simp only: prod.case e table_write_flat)
  also have "\<dots> = (abs_state (set_tab s t (put2 (get_tab s t) hi lo l1 lo1 r1)), wv l1, wv r1)"
    unfolding i1 unfolding i0 by (simp only: abs_state_set_tab [OF refl refl])
  finally show ?thesis
    unfolding fe p
    using wf_fstate_set_tab [OF wf l1 r1, of t hi lo lo1] l1 r1
    by (simp add: refines_def del: put2.simps)
qed

lemma fexp_s_refines:
  assumes m: "layout_matches_host pf"
  shows "list_all2 pos_ok ns ps \<Longrightarrow> refines x y \<Longrightarrow>
         refines (fold (spec_table_step pf) ns x) (fexp_s ps y)"
proof (induction ns ps arbitrary: x y rule: list_all2_induct)
  case Nil
  then show ?case by simp
next
  case (Cons n ns pos ps)
  obtain s l r where y: "y = (s, l, r)" by (cases y)
  have "refines (spec_table_step pf n x) (fput_s s pos (fenc s (l, r)))"
    using m Cons.prems [unfolded y] Cons.hyps(1) by (rule fput_s_refines)
  then have "refines (fold (spec_table_step pf) ns (spec_table_step pf n x))
               (fexp_s ps (fput_s s pos (fenc s (l, r))))"
    by (rule Cons.IH)
  then show ?case by (simp add: y)
qed

lemma fexp_p_refines:
  assumes m: "layout_matches_host pf"
  shows "wf_fstate s \<Longrightarrow> length l = 8 \<Longrightarrow> length r = 8 \<Longrightarrow> get_p s = done @ rest \<Longrightarrow>
         length done = 2 * i \<Longrightarrow> length rest + 2 * i = 18 \<Longrightarrow>
         refines (fold (spec_subkey_step pf) [i..<9] (abs_state s, wv l, wv r))
           (fexp_p done rest (s, l, r))"
proof (induction rest arbitrary: s l r "done" i rule: length_induct)
  case (1 rest)
  show ?case
  proof (cases rest)
    case Nil
    with "1.prems" have "i = 9" by simp
    then show ?thesis using "1.prems" Nil by (simp add: refines_def)
  next
    case (Cons a rest1)
    show ?thesis
    proof (cases rest1)
      case Nil
      with Cons "1.prems" have "1 + 2 * i = 18" by simp
      then have False by presburger
      then show ?thesis ..
    next
      case c2: (Cons b rest2)
      have rest: "rest = a # b # rest2" using Cons c2 by simp
      have i: "i < 9" using "1.prems"(6) rest by simp
      obtain p s0 s1 s2 s3 where s: "s = FS p s0 s1 s2 s3" by (cases s)
      have p: "p = done @ a # b # rest2" using "1.prems"(4) s rest by simp
      obtain l1 r1 where fe: "fenc s (l, r) = (l1, r1)" by (cases "fenc s (l, r)")
      have e: "EncryptBlock pf (abs_state s) (wv l, wv r) = (wv l1, wv r1)"
        and l1: "length l1 = 8" and r1: "length r1 = 8"
        using fenc_refine [OF m "1.prems"(1) "1.prems"(2) "1.prems"(3)] by (simp_all add: fe)
      let ?s1 = "FS (done @ l1 # r1 # rest2) s0 s1 s2 s3"
      have wf1: "wf_fstate ?s1"
        using "1.prems"(1) l1 r1 unfolding s p by simp
      have a1: "abs_state ?s1
                  = (abs_state s)\<lparr>pary := (pary (abs_state s))[2 * i := wv l1, 2 * i + 1 := wv r1]\<rparr>"
        unfolding s p using "1.prems"(5) by (simp add: list_update_append)
      have st: "spec_subkey_step pf i (abs_state s, wv l, wv r) = (abs_state ?s1, wv l1, wv r1)"
        unfolding spec_subkey_step_def a1 by (simp only: prod.case e)
      have u: "[i..<9] = i # [i + 1..<9]" using i by (simp add: upt_conv_Cons)
      have "refines (fold (spec_subkey_step pf) [i + 1..<9] (abs_state ?s1, wv l1, wv r1))
              (fexp_p (done @ [l1, r1]) rest2 (?s1, l1, r1))"
        using "1.prems"(5,6) wf1 l1 r1 rest
        by (intro "1.IH" [rule_format]) simp_all
      moreover have "fexp_p done (a # b # rest2) (s, l, r)
                       = fexp_p (done @ [l1, r1]) rest2 (?s1, l1, r1)"
        by (simp only: fexp_p.simps fe fput_p.simps prod.case) (simp add: s)
      moreover have "fold (spec_subkey_step pf) [i..<9] (abs_state s, wv l, wv r)
                       = fold (spec_subkey_step pf) [i + 1..<9] (abs_state ?s1, wv l1, wv r1)"
        unfolding u by (simp only: fold_Cons comp_apply st)
      ultimately show ?thesis
        unfolding rest by (simp only:)
    qed
  qed
qed


lemma key_expansion_abs_state:
  assumes m: "layout_matches_host pf" and wf: "wf_fstate s"
    and ps: "list_all2 pos_ok [0..<512] positions"
  shows "refines (key_expansion pf (abs_state s), wv (fst (snd (fexp_s positions
                     (fexp_p [] (get_p s) (s, zero_word, zero_word))))),
                  wv (snd (snd (fexp_s positions
                     (fexp_p [] (get_p s) (s, zero_word, zero_word))))))
           (fexp_s positions (fexp_p [] (get_p s) (s, zero_word, zero_word)))"
proof -
  obtain p s0 s1 s2 s3 where s: "s = FS p s0 s1 s2 s3" by (cases s)
  have lp: "length p = 18" using wf s by simp
  have z: "length zero_word = 8" by (simp add: zero_word_def)
  have "refines (fold (spec_subkey_step pf) [0..<9] (abs_state s, wv zero_word, wv zero_word))
          (fexp_p [] (get_p s) (s, zero_word, zero_word))"
    using wf z lp by (intro fexp_p_refines [OF m]) (simp_all add: s)
  then have "refines (fold (spec_table_step pf) [0..<512]
                        (fold (spec_subkey_step pf) [0..<9] (abs_state s, 0, 0)))
               (fexp_s positions (fexp_p [] (get_p s) (s, zero_word, zero_word)))"
    unfolding wv_zero_word by (rule fexp_s_refines [OF m ps])
  then show ?thesis
    unfolding key_expansion_spec spec_key_expansion_def refines_def
    by (auto split: prod.splits)
qed

lemma upt_512: "[0..<512] = 0 # 1 # [2..<512]"
proof -
  have a: "[0..<512] = 0 # [Suc 0..<512]"
    by (rule upt_conv_Cons) simp
  have b: "[Suc 0..<512] = Suc 0 # [Suc (Suc 0)..<512]"
    by (rule upt_conv_Cons) simp
  have c: "Suc (Suc 0) = 2"
    by simp
  show ?thesis
    unfolding a b c by (simp only: One_nat_def)
qed

lemma positions_ok: "list_all2 pos_ok [0..<512] positions"
  unfolding upt_512
  by (simp add: positions_def hexes_def lo_pairs_def pos_ok_def)

lemma wf_fstate0: "wf_fstate fstate0"
  by (simp add: fstate0_def fP0_def wf_tab_def tab_list_def fS0_def fS1_def fS2_def fS3_def)

lemma pary_fstate0: "map wv fP0 = initial_pary"
  by (simp add: fP0_def initial_pary_def wv_def)

lemma sbox_fstate0:
  "map wv (tab_list fS0 @ tab_list fS1 @ tab_list fS2 @ tab_list fS3) = initial_sbox"
  by (simp add: tab_list_def fS0_def fS1_def fS2_def fS3_def initial_sbox_def wv_def)


lemma fenc_zero_key_zero_block:
  "fenc (fexpand fstate0) (zero_word, zero_word)
     = ([H5, H4, H7, H9, H9, HF, HE, H4], [H8, H7, HD, HD, H8, H9, H1, H6])"
  by (simp only:
        fstate0_def fP0_def fS0_def fS1_def fS2_def fS3_def zero_word_def
        fenc.simps frounds.simps fround.simps fround2.simps ffinal.simps fF.simps
        sel16.simps upd16.simps ladd.simps lxor.simps hxor_table hsum_table hcar_table
        get_tab.simps set_tab.simps put2.simps fput_s.simps fexp_s.simps
        set_p.simps fput_p.simps fexp_p.simps get_p.simps fexpand_def
        lo_pairs_def hexes_def positions_def
        prod.case append.simps list.map concat.simps fst_conv snd_conv)


lemma abs_state_fstate0: "abs_state fstate0 = constants_state"
  unfolding fstate0_def abs_state.simps pary_fstate0 sbox_fstate0 constants_state_def ..

lemma key_expansion_constants:
  assumes m: "layout_matches_host pf"
  shows "key_expansion pf constants_state = abs_state (fexpand fstate0)"
    and "wf_fstate (fexpand fstate0)"
proof -
  have "refines (key_expansion pf (abs_state fstate0),
                 wv (fst (snd (fexp_s positions
                     (fexp_p [] (get_p fstate0) (fstate0, zero_word, zero_word))))),
                 wv (snd (snd (fexp_s positions
                     (fexp_p [] (get_p fstate0) (fstate0, zero_word, zero_word))))))
           (fexp_s positions (fexp_p [] (get_p fstate0) (fstate0, zero_word, zero_word)))"
    using m wf_fstate0 positions_ok by (rule key_expansion_abs_state)
  then show "key_expansion pf constants_state = abs_state (fexpand fstate0)"
    and "wf_fstate (fexpand fstate0)"
    unfolding refines_def fexpand_def abs_state_fstate0
    by (auto split: prod.splits)
qed

lemma wv_known_answer:
  "wv [H5, H4, H7, H9, H9, HF, HE, H4] = 0x4EF99745"
  "wv [H8, H7, HD, HD, H8, H9, H1, H6] = 0x6198DD78"
  by (simp_all add: wv_def)

lemma EncryptBlock_zero_key_zero_block:
  assumes m: "layout_matches_host pf"
  shows "EncryptBlock pf (key_expansion pf constants_state) (0, 0) = (0x4EF99745, 0x6198DD78)"
proof -
  have z: "length zero_word = 8" by (simp add: zero_word_def)
  have "EncryptBlock pf (abs_state (fexpand fstate0)) (wv zero_word, wv zero_word)
          = map_prod wv wv (fenc (fexpand fstate0) (zero_word, zero_word))"
    using m key_expansion_constants(2) [OF m] z z by (rule fenc_refine(1))
  then show ?thesis
    unfolding fenc_zero_key_zero_block key_expansion_constants(1) [OF m] wv_zero_word
    by (simp add: wv_known_answer)
qed

lemma mix_key_zero_key:
  "mix_key pf this (replicate 8 0) 8 = Inr \<lparr>pary = initial_pary, sbox = initial_sbox\<rparr>"
proof -
  have ne: "replicate 8 (0 :: u8) \<noteq> []" by simp
  have len: "length (replicate 8 (0 :: u8)) = 8" by simp
  have ov: "(int (length (replicate 8 (0 :: u8))) div gcd (int (length (replicate 8 (0 :: u8)))) 4) * 4
              \<le> INT_MAX + 1"
    by (simp add: INT_MAX_def)
  have w: "cyclic_word pf (replicate 8 0) 8 j = 0" for j
    by (simp add: cyclic_word_def set_bytes_def bit_32_def from_memory_def word_of_bytes_def
          split: byte_order.splits)
  have "map (\<lambda>i. initial_pary ! i XOR 0) [0..<18]
          = map ((!) initial_pary) [0..<length initial_pary]"
    by (simp add: length_initial_pary del: map_nth)
  then have p: "map (\<lambda>i. initial_pary ! i XOR 0) [0..<18] = initial_pary"
    unfolding map_nth .
  show ?thesis
    using mix_key_ok [OF ne ov, of pf this] unfolding len w p
    by (simp add: state_overwritten)
qed

lemma SetKey_zero_key:
  "SetKey pf this (replicate 8 0) 8 = Inr (key_expansion pf constants_state)"
  by (simp add: SetKey_def mix_key_zero_key constants_state_def)

lemma to_memory_known_answer:
  "host_order pf = LittleEndian \<Longrightarrow>
     to_memory pf 0x4EF99745 @ to_memory pf 0x6198DD78
       = [0x45, 0x97, 0xF9, 0x4E, 0x78, 0xDD, 0x98, 0x61]"
  "host_order pf = BigEndian \<Longrightarrow>
     to_memory pf 0x4EF99745 @ to_memory pf 0x6198DD78
       = [0x4E, 0xF9, 0x97, 0x45, 0x61, 0x98, 0xDD, 0x78]"
  by (simp_all add: to_memory_def byte_of_def)

lemma EncryptBlock_bytes_zero:
  assumes m: "layout_matches_host pf"
  shows "EncryptBlock_bytes pf (key_expansion pf constants_state) (replicate 8 0)
           = to_memory pf 0x4EF99745 @ to_memory pf 0x6198DD78"
proof -
  have r: "replicate 8 (0 :: u8) = [0, 0, 0, 0, 0, 0, 0, 0]"
    by (simp add: numeral_eq_Suc)
  have f: "from_memory pf [0, 0, 0, 0] = 0"
    by (simp add: from_memory_def word_of_bytes_def split: byte_order.splits)
  show ?thesis
    unfolding EncryptBlock_bytes_def r
    by (simp add: f EncryptBlock_zero_key_zero_block [OF m])
qed

lemma Encrypt_zero_key_zero_block:
  assumes m: "layout_matches_host pf"
  shows "Encrypt pf (key_expansion pf constants_state) SameAsSrc (replicate 8 0) 8
           = Inr (to_memory pf 0x4EF99745 @ to_memory pf 0x6198DD78)"
  using Encrypt_one_block [of "replicate 8 0" pf "key_expansion pf constants_state"]
  by (simp add: EncryptBlock_bytes_zero [OF m])

lemma matches_big_endian_host: "layout_matches_host big_endian_host"
  by (simp add: layout_matches_host_def big_endian_host_def LITTLE_ENDIAN_defined_def)

text \<open>
  C2 as stated is false on a little-endian host compiled with the default layout. The key
  of 8 zero bytes gives the state that key expansion makes of the constants, and
  \<open>Encrypt\<close> on the 8 zero bytes then leaves 45 97 F9 4E 78 DD 98 61 in the buffer:
  the two halves of the block are read and written as \<open>uint32_t\<close> in host order.
\<close>

theorem C2_counterexample:
  "SetKey x86_default zero_state (replicate 8 0) 8
     = Inr (key_expansion x86_default constants_state)
   \<and> Encrypt x86_default (key_expansion x86_default constants_state) SameAsSrc
         (replicate 8 0) 8
       = Inr [0x45, 0x97, 0xF9, 0x4E, 0x78, 0xDD, 0x98, 0x61]"
proof -
  have "host_order x86_default = LittleEndian"
    by (simp add: x86_default_def)
  then show ?thesis
    by (simp only: SetKey_zero_key Encrypt_zero_key_zero_block [OF matches_x86]
          to_memory_known_answer(1) simp_thms)
qed

text \<open>
  C2, amended. On a platform whose struct layout agrees with the host byte order,
  \<open>SetKey\<close> with the key of 8 zero bytes completes, and with the state it leaves the
  all-zero block \<open>(0, 0)\<close> encrypts to the halves \<open>(0x4EF99745, 0x6198DD78)\<close> of the
  standard known-answer vector. \<open>Encrypt\<close> on the 8 zero bytes writes each half in
  host byte order: the ciphertext bytes are 4E F9 97 45 61 98 DD 78 on a big-endian host
  and 45 97 F9 4E 78 DD 98 61 on a little-endian host.
\<close>

theorem C2_known_answer:
  "layout_matches_host pf \<Longrightarrow>
   SetKey pf this (replicate 8 0) 8 = Inr (key_expansion pf constants_state)
   \<and> EncryptBlock pf (key_expansion pf constants_state) (0, 0) = (0x4EF99745, 0x6198DD78)
   \<and> Encrypt pf (key_expansion pf constants_state) SameAsSrc (replicate 8 0) 8
       = Inr (case host_order pf of
                BigEndian \<Rightarrow> [0x4E, 0xF9, 0x97, 0x45, 0x61, 0x98, 0xDD, 0x78]
              | LittleEndian \<Rightarrow> [0x45, 0x97, 0xF9, 0x4E, 0x78, 0xDD, 0x98, 0x61])"
proof -
  assume m: "layout_matches_host pf"
  have "to_memory pf 0x4EF99745 @ to_memory pf 0x6198DD78
          = (case host_order pf of
               BigEndian \<Rightarrow> [0x4E, 0xF9, 0x97, 0x45, 0x61, 0x98, 0xDD, 0x78]
             | LittleEndian \<Rightarrow> [0x45, 0x97, 0xF9, 0x4E, 0x78, 0xDD, 0x98, 0x61])"
    by (cases "host_order pf") (simp_all only: to_memory_known_answer byte_order.case)
  then show ?thesis
    by (simp only: SetKey_zero_key EncryptBlock_zero_key_zero_block [OF m]
          Encrypt_zero_key_zero_block [OF m] simp_thms)
qed

theorem C2_known_answer_witness:
  "layout_matches_host big_endian_host
   \<and> SetKey big_endian_host zero_state (replicate 8 0) 8
       = Inr (key_expansion big_endian_host constants_state)
   \<and> EncryptBlock big_endian_host (key_expansion big_endian_host constants_state) (0, 0)
       = (0x4EF99745, 0x6198DD78)
   \<and> Encrypt big_endian_host (key_expansion big_endian_host constants_state) SameAsSrc
         (replicate 8 0) 8
       = Inr [0x4E, 0xF9, 0x97, 0x45, 0x61, 0x98, 0xDD, 0x78]"
proof -
  have h: "host_order big_endian_host = BigEndian"
    by (simp add: big_endian_host_def)
  from C2_known_answer [OF matches_big_endian_host, of zero_state] matches_big_endian_host
  show ?thesis
    unfolding h by (simp only: byte_order.case simp_thms)
qed


end
